(* ===== verification/Py_Prelude.thy ===== *)
theory Py_Prelude
  imports Complex_Main "HOL-Library.AList" "HOL-Library.Monad_Syntax" "HOL-Library.Sublist"
begin

text \<open>
  The values and operations of Python that the assessment bot
  (src/human_2_0_assessment_bot.py) relies on. All answer records of the bot
  are Python dicts with string keys whose values are ints (from sliders),
  strings (from select boxes and text inputs) or lists of strings (from
  multiselects); the scores are ints or floats. A value is a \<open>pyval\<close>, a dict
  is an association list in insertion order (\<open>AList.update\<close> replaces a present
  key in place and appends a new one, as a Python dict does), and every raise
  of the code is a value of \<open>py_error\<close> on the left of a sum. Python ints are
  unbounded (\<open>int\<close>); Python floats are modelled as exact reals, so rounding
  of binary floating point is not modelled. Binary arithmetic follows
  Python's rules for mixing ints and floats, string and list concatenation
  and repetition; everything else raises \<open>TypeError\<close>.
\<close>

named_theorems py_simps "evaluation rules of the Python value operations"

datatype pyval =
    PInt int
  | PFloat real
  | PStr string
  | PList "pyval list"
  | PDict "(string \<times> pyval) list"
  | PNone

type_synonym pydict = "(string \<times> pyval) list"

datatype py_error =
    KeyError pyval
  | TypeError
  | ValueError
  | IndexError
  | ZeroDivisionError
  | AttributeError string

type_synonym 'a py_result = "py_error + 'a"

abbreviation ilit :: "int \<Rightarrow> pyval py_result" where
  "ilit n \<equiv> Inr (PInt n)"

abbreviation flit :: "real \<Rightarrow> pyval py_result" where
  "flit r \<equiv> Inr (PFloat r)"

subsection \<open>Sequencing: an exception aborts the rest of the computation\<close>

definition py_bind :: "'a py_result \<Rightarrow> ('a \<Rightarrow> 'b py_result) \<Rightarrow> 'b py_result" where
  "py_bind m f = (case m of Inl e \<Rightarrow> Inl e | Inr x \<Rightarrow> f x)"

subsection \<open>Dict subscript and the lookup tables\<close>

text \<open>\<open>d[k]\<close> for a string key: a dict answers or raises \<open>KeyError(k)\<close>; any
  other value is not subscriptable by a string and raises \<open>TypeError\<close>.\<close>

fun py_getitem :: "pyval \<Rightarrow> string \<Rightarrow> pyval py_result" where
  "py_getitem (PDict d) k = (case map_of d k of Some v \<Rightarrow> Inr v | None \<Rightarrow> Inl (KeyError (PStr k)))"
| "py_getitem _ k = Inl TypeError"

text \<open>\<open>table[v]\<close> for a dict literal whose keys are strings and whose values
  are ints: only a string can be found; an unhashable list or dict raises
  \<open>TypeError\<close>, any other value is a missing key.\<close>

fun py_lookup :: "(string \<times> int) list \<Rightarrow> pyval \<Rightarrow> pyval py_result" where
  "py_lookup tbl (PStr s) = (case map_of tbl s of Some n \<Rightarrow> Inr (PInt n) | None \<Rightarrow> Inl (KeyError (PStr s)))"
| "py_lookup tbl (PList xs) = Inl TypeError"
| "py_lookup tbl (PDict d) = Inl TypeError"
| "py_lookup tbl v = Inl (KeyError v)"

text \<open>\<open>table.get(v, default)\<close>: a missing key gives the default.\<close>

fun py_lookup_default :: "(string \<times> int) list \<Rightarrow> pyval \<Rightarrow> int \<Rightarrow> pyval py_result" where
  "py_lookup_default tbl (PStr s) dflt = Inr (PInt (case map_of tbl s of Some n \<Rightarrow> n | None \<Rightarrow> dflt))"
| "py_lookup_default tbl (PList xs) dflt = Inl TypeError"
| "py_lookup_default tbl (PDict d) dflt = Inl TypeError"
| "py_lookup_default tbl v dflt = Inr (PInt dflt)"

text \<open>\<open>dict.update(other)\<close> and \<open>dict[k] = v\<close> on the association list.\<close>

definition py_dict_update :: "pydict \<Rightarrow> pydict \<Rightarrow> pydict" where
  "py_dict_update d kvs = fold (\<lambda>(k, v). AList.update k v) kvs d"

subsection \<open>Arithmetic\<close>

fun py_add :: "pyval \<Rightarrow> pyval \<Rightarrow> pyval py_result" where
  "py_add (PInt a) (PInt b) = Inr (PInt (a + b))"
| "py_add (PInt a) (PFloat b) = Inr (PFloat (of_int a + b))"
| "py_add (PFloat a) (PInt b) = Inr (PFloat (a + of_int b))"
| "py_add (PFloat a) (PFloat b) = Inr (PFloat (a + b))"
| "py_add (PStr a) (PStr b) = Inr (PStr (a @ b))"
| "py_add (PList a) (PList b) = Inr (PList (a @ b))"
| "py_add _ _ = Inl TypeError"

fun py_sub :: "pyval \<Rightarrow> pyval \<Rightarrow> pyval py_result" where
  "py_sub (PInt a) (PInt b) = Inr (PInt (a - b))"
| "py_sub (PInt a) (PFloat b) = Inr (PFloat (of_int a - b))"
| "py_sub (PFloat a) (PInt b) = Inr (PFloat (a - of_int b))"
| "py_sub (PFloat a) (PFloat b) = Inr (PFloat (a - b))"
| "py_sub _ _ = Inl TypeError"

text \<open>Sequence repetition \<open>s * n\<close>: \<open>n \<le> 0\<close> gives the empty sequence.\<close>

fun py_mul :: "pyval \<Rightarrow> pyval \<Rightarrow> pyval py_result" where
  "py_mul (PInt a) (PInt b) = Inr (PInt (a * b))"
| "py_mul (PInt a) (PFloat b) = Inr (PFloat (of_int a * b))"
| "py_mul (PFloat a) (PInt b) = Inr (PFloat (a * of_int b))"
| "py_mul (PFloat a) (PFloat b) = Inr (PFloat (a * b))"
| "py_mul (PStr s) (PInt n) = Inr (PStr (concat (replicate (nat n) s)))"
| "py_mul (PInt n) (PStr s) = Inr (PStr (concat (replicate (nat n) s)))"
| "py_mul (PList xs) (PInt n) = Inr (PList (concat (replicate (nat n) xs)))"
| "py_mul (PInt n) (PList xs) = Inr (PList (concat (replicate (nat n) xs)))"
| "py_mul _ _ = Inl TypeError"

text \<open>True division \<open>/\<close> always gives a float.\<close>

fun py_truediv :: "pyval \<Rightarrow> pyval \<Rightarrow> pyval py_result" where
  "py_truediv (PInt a) (PInt b) = (if b = 0 then Inl ZeroDivisionError else Inr (PFloat (of_int a / of_int b)))"
| "py_truediv (PInt a) (PFloat b) = (if b = 0 then Inl ZeroDivisionError else Inr (PFloat (of_int a / b)))"
| "py_truediv (PFloat a) (PInt b) = (if b = 0 then Inl ZeroDivisionError else Inr (PFloat (a / of_int b)))"
| "py_truediv (PFloat a) (PFloat b) = (if b = 0 then Inl ZeroDivisionError else Inr (PFloat (a / b)))"
| "py_truediv _ _ = Inl TypeError"

text \<open>The numeric reading of a value (ints and floats compare numerically).\<close>

fun as_real :: "pyval \<Rightarrow> real option" where
  "as_real (PInt i) = Some (of_int i)"
| "as_real (PFloat r) = Some r"
| "as_real _ = None"

text \<open>
  The builtins \<open>max(a, b)\<close> and \<open>min(a, b)\<close> keep the first argument unless
  the second is strictly greater (smaller), so \<open>max(0, 0.0)\<close> is the int \<open>0\<close>.
  Every call of them in the bot has an int literal as one argument, and an int
  does not compare with a string, list or dict: such a call raises
  \<open>TypeError\<close>.
\<close>

definition py_max2 :: "pyval \<Rightarrow> pyval \<Rightarrow> pyval py_result" where
  "py_max2 a b = (case (as_real a, as_real b) of
      (Some x, Some y) \<Rightarrow> Inr (if x < y then b else a)
    | _ \<Rightarrow> Inl TypeError)"

definition py_min2 :: "pyval \<Rightarrow> pyval \<Rightarrow> pyval py_result" where
  "py_min2 a b = (case (as_real a, as_real b) of
      (Some x, Some y) \<Rightarrow> Inr (if y < x then b else a)
    | _ \<Rightarrow> Inl TypeError)"

subsection \<open>Expressions: operands are evaluated left to right, then the operator\<close>

definition e_add :: "pyval py_result \<Rightarrow> pyval py_result \<Rightarrow> pyval py_result" where
  "e_add a b = py_bind a (\<lambda>x. py_bind b (\<lambda>y. py_add x y))"

definition e_sub :: "pyval py_result \<Rightarrow> pyval py_result \<Rightarrow> pyval py_result" where
  "e_sub a b = py_bind a (\<lambda>x. py_bind b (\<lambda>y. py_sub x y))"

definition e_mul :: "pyval py_result \<Rightarrow> pyval py_result \<Rightarrow> pyval py_result" where
  "e_mul a b = py_bind a (\<lambda>x. py_bind b (\<lambda>y. py_mul x y))"

definition e_div :: "pyval py_result \<Rightarrow> pyval py_result \<Rightarrow> pyval py_result" where
  "e_div a b = py_bind a (\<lambda>x. py_bind b (\<lambda>y. py_truediv x y))"

definition e_item :: "pyval \<Rightarrow> string \<Rightarrow> pyval py_result" where
  "e_item d k = py_getitem d k"

definition e_lookup :: "(string \<times> int) list \<Rightarrow> pyval py_result \<Rightarrow> pyval py_result" where
  "e_lookup tbl e = py_bind e (py_lookup tbl)"

definition e_get :: "(string \<times> int) list \<Rightarrow> pyval py_result \<Rightarrow> int \<Rightarrow> pyval py_result" where
  "e_get tbl e dflt = py_bind e (\<lambda>v. py_lookup_default tbl v dflt)"

subsection \<open>Generic lemmas\<close>

lemma py_bind_Inl [simp, py_simps]: "py_bind (Inl e) f = Inl e"
  by (simp add: py_bind_def)

lemma py_bind_Inr [simp, py_simps]: "py_bind (Inr x) f = f x"
  by (simp add: py_bind_def)

lemma py_bind_eq_Inr: "py_bind m f = Inr y \<longleftrightarrow> (\<exists>x. m = Inr x \<and> f x = Inr y)"
  by (cases m) auto

lemma py_bind_eq_Inl: "py_bind m f = Inl e \<longleftrightarrow> (m = Inl e \<or> (\<exists>x. m = Inr x \<and> f x = Inl e))"
  by (cases m) auto

lemma py_getitem_dict [py_simps]:
  "map_of d k = Some v \<Longrightarrow> py_getitem (PDict d) k = Inr v"
  "map_of d k = None \<Longrightarrow> py_getitem (PDict d) k = Inl (KeyError (PStr k))"
  by simp_all

lemma py_lookup_found [py_simps]:
  "map_of tbl s = Some n \<Longrightarrow> py_lookup tbl (PStr s) = Inr (PInt n)"
  by simp

lemma py_lookup_missing [py_simps]:
  "map_of tbl s = None \<Longrightarrow> py_lookup tbl (PStr s) = Inl (KeyError (PStr s))"
  by simp

lemma py_getitem_delete [py_simps]:
  "py_getitem (PDict (AList.delete k d)) k' = (if k' = k then Inl (KeyError (PStr k')) else py_getitem (PDict d) k')"
  by (simp add: delete_conv')

lemmas e_defs [py_simps] = e_add_def e_sub_def e_mul_def e_div_def e_item_def e_lookup_def e_get_def

lemma py_max2_num [py_simps]:
  "py_max2 (PInt a) (PFloat y) = Inr (if of_int a < y then PFloat y else PInt a)"
  by (simp add: py_max2_def)

lemma py_min2_num [py_simps]:
  "py_min2 (PInt a) (PFloat y) = Inr (if y < of_int a then PFloat y else PInt a)"
  "py_min2 (PInt a) (PInt b) = Inr (if b < a then PInt b else PInt a)"
  by (simp_all add: py_min2_def)

text \<open>The value of \<open>min(hi, max(lo, x))\<close> for a number \<open>x\<close> is the clamp of \<open>x\<close>.\<close>

lemma py_min_max_real:
  assumes "as_real x = Some r"
  shows "\<exists>v. py_bind (py_max2 (PInt lo) x) (py_min2 (PInt hi)) = Inr v
            \<and> as_real v = Some (if of_int hi < max (of_int lo) r then of_int hi else max (of_int lo) r)"
  using assms
  by (cases x) (auto simp: py_max2_def py_min2_def)

lemma py_min_max_non_num:
  "as_real x = None \<Longrightarrow> py_bind (py_max2 (PInt lo) x) (py_min2 (PInt hi)) = Inl TypeError"
  by (simp add: py_max2_def)

subsection \<open>Numeric refinement: a Python computation against a real-valued reference\<close>

text \<open>
  \<open>py_refines m r\<close>: where the reference \<open>r\<close> gives a number, the Python
  computation \<open>m\<close> returns a number (an int or a float) of that value; where the
  reference has no value, the computation raises a \<open>KeyError\<close> for a string key.
\<close>

definition py_refines :: "pyval py_result \<Rightarrow> real option \<Rightarrow> bool" where
  "py_refines m r \<longleftrightarrow> (case r of Some x \<Rightarrow> (\<exists>v. m = Inr v \<and> as_real v = Some x)
                                | None \<Rightarrow> (\<exists>k. m = Inl (KeyError (PStr k))))"

lemma py_refines_bind:
  assumes "py_refines m r"
      and "\<And>v x. as_real v = Some x \<Longrightarrow> py_refines (f v) (g x)"
  shows "py_refines (py_bind m f) (Option.bind r g)"
proof (cases r)
  case None
  with assms(1) show ?thesis by (auto simp: py_refines_def)
next
  case (Some x)
  with assms(1) obtain v where "m = Inr v" and "as_real v = Some x"
    by (auto simp: py_refines_def)
  with assms(2) [of v x] Some show ?thesis by simp
qed

lemma py_refines_Inr: "as_real v = Some x \<Longrightarrow> py_refines (Inr v) (Some x)"
  by (simp add: py_refines_def)

lemma py_refines_flit: "py_refines (flit c) (Some c)"
  by (simp add: py_refines_def)

lemma py_refines_e_add:
  "py_refines a (Some x) \<Longrightarrow> py_refines b (Some y) \<Longrightarrow> py_refines (e_add a b) (Some (x + y))"
  by (auto simp: py_refines_def e_add_def elim!: as_real.elims)

lemma py_refines_e_mul:
  "py_refines a (Some x) \<Longrightarrow> py_refines b (Some y) \<Longrightarrow> py_refines (e_mul a b) (Some (x * y))"
  by (auto simp: py_refines_def e_mul_def elim!: as_real.elims)

lemmas py_refines_rules = py_refines_bind py_refines_Inr py_refines_flit py_refines_e_add py_refines_e_mul

lemma py_refines_Some_iff: "py_refines m (Some x) \<longleftrightarrow> (\<exists>v. m = Inr v \<and> as_real v = Some x)"
  by (simp add: py_refines_def)

lemma py_refines_None_iff: "py_refines m None \<longleftrightarrow> (\<exists>k. m = Inl (KeyError (PStr k)))"
  by (simp add: py_refines_def)

lemma py_refines_clamp:
  assumes "py_refines m (Some x)"
  shows "py_refines (py_bind m (\<lambda>v. py_bind (py_max2 (PInt lo) v) (py_min2 (PInt hi))))
                    (Some (min (of_int hi) (max (of_int lo) x)))"
proof -
  from assms obtain v where m: "m = Inr v" and v: "as_real v = Some x"
    by (auto simp: py_refines_def)
  from py_min_max_real [OF v, of lo hi] show ?thesis
    by (auto simp: m py_refines_def min_def)
qed

subsection \<open>Percentages\<close>

text \<open>A score of the bot is a percentage: a number between 0 and 100. Averages
  and the weightings the bot uses keep percentages.\<close>

definition pct :: "real \<Rightarrow> bool" where
  "pct x \<longleftrightarrow> 0 \<le> x \<and> x \<le> 100"

named_theorems pct_rules "closure of percentages under the bot's averages and weightings"

lemma pct_avg2 [pct_rules]: "pct a \<Longrightarrow> pct b \<Longrightarrow> pct ((a + b) / 2)"
  by (simp add: pct_def field_simps)

lemma pct_avg3 [pct_rules]: "pct a \<Longrightarrow> pct b \<Longrightarrow> pct c \<Longrightarrow> pct ((a + b + c) / 3)"
  by (simp add: pct_def field_simps)

lemma pct_avg4 [pct_rules]: "pct a \<Longrightarrow> pct b \<Longrightarrow> pct c \<Longrightarrow> pct d \<Longrightarrow> pct ((a + b + c + d) / 4)"
  by (simp add: pct_def field_simps)

lemma pct_weights_4 [pct_rules]:
  "pct a \<Longrightarrow> pct b \<Longrightarrow> pct c \<Longrightarrow> pct d \<Longrightarrow> pct (a * 0.25 + b * 0.25 + c * 0.20 + d * 0.30)"
  by (simp add: pct_def field_simps)

lemma pct_weights_fin [pct_rules]:
  "pct a \<Longrightarrow> pct b \<Longrightarrow> pct c \<Longrightarrow> pct d \<Longrightarrow> pct (a * 0.30 + b * 0.25 + c * 0.20 + d * 0.25)"
  by (simp add: pct_def field_simps)

lemma pct_weights_3 [pct_rules]:
  "pct a \<Longrightarrow> pct b \<Longrightarrow> pct c \<Longrightarrow> pct (a * 0.30 + b * 0.35 + c * 0.35)"
  by (simp add: pct_def field_simps)

lemma pct_weights_overall [pct_rules]:
  "pct a \<Longrightarrow> pct b \<Longrightarrow> pct c \<Longrightarrow> pct (a * 0.33 + b * 0.33 + c * 0.34)"
  by (simp add: pct_def field_simps)

text \<open>The numeric answers are ints of a slider; their rescalings are percentages.\<close>

lemma pct_times_10: "0 \<le> x \<Longrightarrow> x \<le> 10 \<Longrightarrow> pct (of_int x * 10)"
  by (simp add: pct_def)

lemma pct_inverted_10: "0 \<le> x \<Longrightarrow> x \<le> 10 \<Longrightarrow> pct ((10 - of_int x) * 10)"
  by (simp add: pct_def)

lemma pct_mean3_times_10: "0 \<le> s \<Longrightarrow> s \<le> 30 \<Longrightarrow> pct (of_int s / 3 * 10)"
  by (simp add: pct_def field_simps)

lemma pct_hours: "4 \<le> h \<Longrightarrow> h \<le> 12 \<Longrightarrow> pct ((of_int h - 4) / 8 * 100)"
  by (simp add: pct_def field_simps)

lemma pct_of_int: "0 \<le> n \<Longrightarrow> n \<le> 100 \<Longrightarrow> pct (of_int n)"
  by (simp add: pct_def)

lemma map_of_py_dict_update_distinct:
  "map_of (py_dict_update d kvs) k = (case map_of (rev kvs) k of Some v \<Rightarrow> Some v | None \<Rightarrow> map_of d k)"
proof (induction kvs arbitrary: d)
  case Nil
  then show ?case by (simp add: py_dict_update_def)
next
  case (Cons kv kvs)
  obtain k' v' where kv: "kv = (k', v')" by (cases kv)
  have "py_dict_update d (kv # kvs) = py_dict_update (AList.update k' v' d) kvs"
    by (simp add: py_dict_update_def kv)
  with Cons.IH[of "AList.update k' v' d"] show ?case
    by (auto simp: kv update_conv' map_add_def split: option.splits)
qed

end
