(* ===== verification/Scoring.thy ===== *)
theory Scoring
  imports Py_Prelude
begin

text \<open>
  The scoring engine: \<open>Human20AssessmentBot.calculate_scores\<close>
  (src/human_2_0_assessment_bot.py, lines 478--567). The method reads the three
  answer dicts \<open>'biological'\<close>, \<open>'mental'\<close> and \<open>'financial'\<close> of
  \<open>st.session_state.assessment_data\<close>, turns each answer into a number (a
  rescaled slider value or a lookup in a dict literal), averages them into
  sub-scores, weights the sub-scores into a category score, clamps it with
  \<open>min(100, max(0, _))\<close>, and weights the three categories into the overall
  score. Each statement of the method is one step of the error monad
  \<open>py_bind\<close>, in the order of the source, so that the first \<open>KeyError\<close> or
  \<open>TypeError\<close> the code would raise is the one the model returns. The
  sub-score blocks of the method are separate definitions here; the method is
  their composition.
\<close>

subsection \<open>The lookup tables (dict literals of the method body)\<close>

definition quality_map :: "(string \<times> int) list" where
  "quality_map = [(''Very Poor'', 0), (''Poor'', 25), (''Fair'', 50), (''Good'', 75), (''Excellent'', 100)]"

definition crash_map :: "(string \<times> int) list" where
  "crash_map = [(''Multiple times daily'', 0), (''Daily'', 25), (''Few times per week'', 50),
                (''Rarely'', 75), (''Never'', 100)]"

definition recovery_map :: "(string \<times> int) list" where
  "recovery_map = [(''Very slowly'', 0), (''Slowly'', 25), (''Average'', 50), (''Quickly'', 75),
                   (''Very quickly'', 100)]"

definition hydration_map :: "(string \<times> int) list" where
  "hydration_map = [(''Less than 4 glasses'', 0), (''4-6 glasses'', 25), (''6-8 glasses'', 75),
                    (''8-10 glasses'', 100), (''More than 10 glasses'', 90)]"

definition exercise_map :: "(string \<times> int) list" where
  "exercise_map = [(''Never'', 0), (''1-2 times'', 25), (''3-4 times'', 50), (''5-6 times'', 75),
                   (''Daily'', 100)]"

definition focus_map :: "(string \<times> int) list" where
  "focus_map = [(''Less than 15 minutes'', 0), (''15-30 minutes'', 25), (''30-60 minutes'', 50),
                (''1-2 hours'', 75), (''More than 2 hours'', 100)]"

definition growth_map :: "(string \<times> int) list" where
  "growth_map = [(''Very Little'', 0), (''Somewhat'', 25), (''Moderately'', 50),
                 (''Significantly'', 75), (''Completely'', 100)]"

definition income_map :: "(string \<times> int) list" where
  "income_map = [(''Under $25K'', 10), (''$25K-$50K'', 25), (''$50K-$75K'', 40), (''$75K-$100K'', 60),
                 (''$100K-$150K'', 75), (''$150K-$250K'', 90), (''$250K+'', 100)]"

definition savings_map :: "(string \<times> int) list" where
  "savings_map = [(''0-5%'', 10), (''5-10%'', 30), (''10-15%'', 50), (''15-20%'', 75), (''20%+'', 100)]"

definition debt_map :: "(string \<times> int) list" where
  "debt_map = [(''Debt-free'', 100), (''Minimal debt'', 75), (''Moderate debt'', 50), (''High debt'', 25),
               (''Overwhelming debt'', 0)]"

definition emergency_map :: "(string \<times> int) list" where
  "emergency_map = [(''No emergency fund'', 0), (''Less than 1 month'', 20), (''1-3 months'', 40),
                    (''3-6 months'', 80), (''6+ months'', 100)]"

definition exp_map :: "(string \<times> int) list" where
  "exp_map = [(''Beginner'', 20), (''Novice'', 40), (''Intermediate'', 60), (''Advanced'', 80),
              (''Expert'', 100)]"

lemmas score_tables = quality_map_def crash_map_def recovery_map_def hydration_map_def
  exercise_map_def focus_map_def growth_map_def income_map_def savings_map_def debt_map_def
  emergency_map_def exp_map_def

subsection \<open>Biological optimization (lines 483--512)\<close>

definition sleep_score_of :: "pyval \<Rightarrow> pyval py_result" where
  "sleep_score_of bio_data =
     py_bind (e_mul (e_div (e_sub (e_item bio_data ''sleep_hours'') (ilit 4)) (ilit 8)) (ilit 100)) (\<lambda>sleep_score.
     py_bind (e_add (Inr sleep_score) (e_lookup quality_map (e_item bio_data ''sleep_quality''))) (\<lambda>sleep_score.
     py_bind (e_add (Inr sleep_score) (e_get quality_map (e_item bio_data ''wake_refreshed'') 50)) (\<lambda>sleep_score.
     e_div (Inr sleep_score) (ilit 3))))"

definition energy_score_of :: "pyval \<Rightarrow> pyval py_result" where
  "energy_score_of bio_data =
     py_bind (e_mul (e_div (e_add (e_add (e_item bio_data ''energy_morning'') (e_item bio_data ''energy_afternoon''))
                                  (e_item bio_data ''energy_evening'')) (ilit 3)) (ilit 10)) (\<lambda>energy_score.
     e_div (e_add (Inr energy_score) (e_lookup crash_map (e_item bio_data ''energy_crashes''))) (ilit 2))"

definition stress_score_of :: "pyval \<Rightarrow> pyval py_result" where
  "stress_score_of bio_data =
     py_bind (e_mul (e_sub (ilit 10) (e_item bio_data ''stress_level'')) (ilit 10)) (\<lambda>stress_score.
     py_bind (e_add (Inr stress_score) (e_lookup quality_map (e_item bio_data ''stress_management''))) (\<lambda>stress_score.
     py_bind (e_add (Inr stress_score) (e_lookup recovery_map (e_item bio_data ''recovery_time''))) (\<lambda>stress_score.
     e_div (Inr stress_score) (ilit 3))))"

definition nutrition_score_of :: "pyval \<Rightarrow> pyval py_result" where
  "nutrition_score_of bio_data =
     py_bind (e_lookup quality_map (e_item bio_data ''nutrition_quality'')) (\<lambda>nutrition_score.
     e_div (e_add (e_add (Inr nutrition_score) (e_lookup hydration_map (e_item bio_data ''hydration'')))
                  (e_lookup exercise_map (e_item bio_data ''exercise_frequency''))) (ilit 3))"

definition biological_raw :: "pydict \<Rightarrow> pyval py_result" where
  "biological_raw assessment_data =
     py_bind (py_getitem (PDict assessment_data) ''biological'') (\<lambda>bio_data.
     py_bind (sleep_score_of bio_data) (\<lambda>sleep_score.
     py_bind (energy_score_of bio_data) (\<lambda>energy_score.
     py_bind (stress_score_of bio_data) (\<lambda>stress_score.
     py_bind (nutrition_score_of bio_data) (\<lambda>nutrition_score.
     e_add (e_add (e_add (e_mul (Inr sleep_score) (flit 0.25)) (e_mul (Inr energy_score) (flit 0.25)))
                  (e_mul (Inr stress_score) (flit 0.20)))
           (e_mul (Inr nutrition_score) (flit 0.30)))))))"

text \<open>\<open>min(100, max(0, score))\<close>, the clamp of lines 512, 539 and 562.\<close>

definition clamp_score :: "pyval \<Rightarrow> pyval py_result" where
  "clamp_score x = py_bind (py_max2 (PInt 0) x) (py_min2 (PInt 100))"

subsection \<open>Mental architecture (lines 515--539)\<close>

definition cognitive_score_of :: "pyval \<Rightarrow> pyval py_result" where
  "cognitive_score_of mental_data =
     py_bind (e_lookup focus_map (e_item mental_data ''focus_duration'')) (\<lambda>cognitive_score.
     py_bind (e_add (Inr cognitive_score) (e_mul (e_item mental_data ''mental_clarity'') (ilit 10))) (\<lambda>cognitive_score.
     py_bind (e_add (Inr cognitive_score) (e_lookup quality_map (e_item mental_data ''decision_making''))) (\<lambda>cognitive_score.
     py_bind (e_add (Inr cognitive_score) (e_lookup quality_map (e_item mental_data ''memory_performance''))) (\<lambda>cognitive_score.
     e_div (Inr cognitive_score) (ilit 4)))))"

definition emotional_score_of :: "pyval \<Rightarrow> pyval py_result" where
  "emotional_score_of mental_data =
     py_bind (e_mul (e_div (e_add (e_add (e_item mental_data ''emotional_awareness'') (e_item mental_data ''social_skills''))
                                  (e_item mental_data ''empathy_level'')) (ilit 3)) (ilit 10)) (\<lambda>emotional_score.
     py_bind (e_add (Inr emotional_score) (e_lookup quality_map (e_item mental_data ''emotional_regulation''))) (\<lambda>emotional_score.
     e_div (Inr emotional_score) (ilit 2)))"

definition mindset_score_of :: "pyval \<Rightarrow> pyval py_result" where
  "mindset_score_of mental_data =
     py_bind (e_lookup growth_map (e_item mental_data ''growth_mindset'')) (\<lambda>mindset_score.
     py_bind (e_add (Inr mindset_score) (e_mul (e_item mental_data ''self_confidence'') (ilit 10))) (\<lambda>mindset_score.
     py_bind (e_add (Inr mindset_score) (e_lookup quality_map (e_item mental_data ''resilience''))) (\<lambda>mindset_score.
     e_div (Inr mindset_score) (ilit 3))))"

definition mental_raw :: "pydict \<Rightarrow> pyval py_result" where
  "mental_raw assessment_data =
     py_bind (py_getitem (PDict assessment_data) ''mental'') (\<lambda>mental_data.
     py_bind (cognitive_score_of mental_data) (\<lambda>cognitive_score.
     py_bind (emotional_score_of mental_data) (\<lambda>emotional_score.
     py_bind (mindset_score_of mental_data) (\<lambda>mindset_score.
     e_add (e_add (e_mul (Inr cognitive_score) (flit 0.30)) (e_mul (Inr emotional_score) (flit 0.35)))
           (e_mul (Inr mindset_score) (flit 0.35))))))"

subsection \<open>Financial intelligence (lines 542--562)\<close>

definition wealth_score_of :: "pyval \<Rightarrow> pyval py_result" where
  "wealth_score_of financial_data =
     e_div (e_add (e_lookup income_map (e_item financial_data ''income_range''))
                  (e_lookup savings_map (e_item financial_data ''savings_rate''))) (ilit 2)"

definition stability_score_of :: "pyval \<Rightarrow> pyval py_result" where
  "stability_score_of financial_data =
     e_div (e_add (e_lookup debt_map (e_item financial_data ''debt_situation''))
                  (e_lookup emergency_map (e_item financial_data ''emergency_fund''))) (ilit 2)"

definition investment_score_of :: "pyval \<Rightarrow> pyval py_result" where
  "investment_score_of financial_data = e_lookup exp_map (e_item financial_data ''investment_experience'')"

definition money_mindset_score_of :: "pyval \<Rightarrow> pyval py_result" where
  "money_mindset_score_of financial_data =
     py_bind (e_add (e_mul (e_sub (ilit 10) (e_item financial_data ''money_stress'')) (ilit 10))
                    (e_mul (e_item financial_data ''money_confidence'') (ilit 10))) (\<lambda>mindset_score.
     e_div (Inr mindset_score) (ilit 2))"

definition financial_raw :: "pydict \<Rightarrow> pyval py_result" where
  "financial_raw assessment_data =
     py_bind (py_getitem (PDict assessment_data) ''financial'') (\<lambda>financial_data.
     py_bind (wealth_score_of financial_data) (\<lambda>wealth_score.
     py_bind (stability_score_of financial_data) (\<lambda>stability_score.
     py_bind (investment_score_of financial_data) (\<lambda>investment_score.
     py_bind (money_mindset_score_of financial_data) (\<lambda>mindset_score.
     e_add (e_add (e_add (e_mul (Inr wealth_score) (flit 0.30)) (e_mul (Inr stability_score) (flit 0.25)))
                  (e_mul (Inr investment_score) (flit 0.20)))
           (e_mul (Inr mindset_score) (flit 0.25)))))))"

subsection \<open>The method\<close>

definition overall_of :: "pyval \<Rightarrow> pyval \<Rightarrow> pyval \<Rightarrow> pyval py_result" where
  "overall_of b m f =
     e_add (e_add (e_mul (Inr b) (flit 0.33)) (e_mul (Inr m) (flit 0.33))) (e_mul (Inr f) (flit 0.34))"

definition calculate_scores :: "pydict \<Rightarrow> pyval py_result" where
  "calculate_scores assessment_data =
     py_bind (py_bind (biological_raw assessment_data) clamp_score) (\<lambda>biological.
     py_bind (py_bind (mental_raw assessment_data) clamp_score) (\<lambda>mental.
     py_bind (py_bind (financial_raw assessment_data) clamp_score) (\<lambda>financial.
     py_bind (overall_of biological mental financial) (\<lambda>overall.
     Inr (PDict (AList.update ''overall'' overall (AList.update ''financial'' financial
            (AList.update ''mental'' mental (AList.update ''biological'' biological [])))))))))"

end
