(* ===== verification/Answers.thy ===== *)
theory Answers
  imports Py_Prelude
begin

text \<open>
  The answer set (spec section 3): what the three assessment forms of the bot
  collect. Each form of src/human_2_0_assessment_bot.py renders widgets and, on
  submit, stores a dict literal of their values under \<open>'biological'\<close>,
  \<open>'mental'\<close> or \<open>'financial'\<close> of \<open>assessment_data\<close>. Here the widget values of
  a form are a record, the stored dict is a function of the record (the dict
  literal of the handler, keys in the source's order), and the values a widget
  can produce are a predicate: a slider gives an int between its bounds, a
  select box or select slider one of its options, a multiselect a list of
  distinct options.
\<close>

subsection \<open>Widget option lists (the authoritative domains of the answers)\<close>

definition age_options :: "string list" where
  "age_options = [''18-25'', ''26-35'', ''36-45'', ''46-55'', ''56-65'', ''65+'']"

definition primary_goal_options :: "string list" where
  "primary_goal_options = [''Increase energy and physical performance'', ''Enhance mental clarity and focus'',
     ''Accelerate wealth building and financial success'', ''Achieve balance across all areas'',
     ''Build a high-performance lifestyle'', ''Other'']"

text \<open>The five-point rating of the select sliders for sleep quality, stress
  management, nutrition quality, decision making, memory, emotional regulation
  and resilience (the same literal list, repeated in the source).\<close>

definition rating_options :: "string list" where
  "rating_options = [''Very Poor'', ''Poor'', ''Fair'', ''Good'', ''Excellent'']"

definition wake_refreshed_options :: "string list" where
  "wake_refreshed_options = [''Never'', ''Rarely'', ''Sometimes'', ''Often'', ''Always'']"

definition energy_crashes_options :: "string list" where
  "energy_crashes_options = [''Multiple times daily'', ''Daily'', ''Few times per week'', ''Rarely'', ''Never'']"

definition recovery_time_options :: "string list" where
  "recovery_time_options = [''Very slowly'', ''Slowly'', ''Average'', ''Quickly'', ''Very quickly'']"

definition hydration_options :: "string list" where
  "hydration_options = [''Less than 4 glasses'', ''4-6 glasses'', ''6-8 glasses'', ''8-10 glasses'',
     ''More than 10 glasses'']"

definition exercise_frequency_options :: "string list" where
  "exercise_frequency_options = [''Never'', ''1-2 times'', ''3-4 times'', ''5-6 times'', ''Daily'']"

definition focus_duration_options :: "string list" where
  "focus_duration_options = [''Less than 15 minutes'', ''15-30 minutes'', ''30-60 minutes'', ''1-2 hours'',
     ''More than 2 hours'']"

definition growth_mindset_options :: "string list" where
  "growth_mindset_options = [''Very Little'', ''Somewhat'', ''Moderately'', ''Significantly'', ''Completely'']"

definition limiting_beliefs_options :: "string list" where
  "limiting_beliefs_options = [''I'' @ [CHR 0x27] @ ''m not smart enough'', ''I don'' @ [CHR 0x27] @ ''t deserve success'',
     ''I'' @ [CHR 0x27] @ ''m too old/young to change'', ''I don'' @ [CHR 0x27] @ ''t have enough time'',
     ''I'' @ [CHR 0x27] @ ''m not good with technology'', ''Success requires sacrifice'',
     ''I'' @ [CHR 0x27] @ ''m not a '' @ [CHR 0x27] @ ''numbers person'' @ [CHR 0x27],
     ''Other people are more talented'', ''None of these apply to me'']"

definition income_range_options :: "string list" where
  "income_range_options = [''Under $25K'', ''$25K-$50K'', ''$50K-$75K'', ''$75K-$100K'', ''$100K-$150K'',
     ''$150K-$250K'', ''$250K+'']"

definition savings_rate_options :: "string list" where
  "savings_rate_options = [''0-5%'', ''5-10%'', ''10-15%'', ''15-20%'', ''20%+'']"

definition debt_situation_options :: "string list" where
  "debt_situation_options = [''Debt-free'', ''Minimal debt'', ''Moderate debt'', ''High debt'', ''Overwhelming debt'']"

definition emergency_fund_options :: "string list" where
  "emergency_fund_options = [''No emergency fund'', ''Less than 1 month'', ''1-3 months'', ''3-6 months'', ''6+ months'']"

definition investment_experience_options :: "string list" where
  "investment_experience_options = [''Beginner'', ''Novice'', ''Intermediate'', ''Advanced'', ''Expert'']"

definition investment_portfolio_options :: "string list" where
  "investment_portfolio_options = [''Savings accounts'', ''Stocks/ETFs'', ''Bonds'', ''Real estate'', ''Cryptocurrency'',
     ''Business investments'', ''Retirement accounts (401k, IRA)'', ''None'']"

definition financial_goals_options :: "string list" where
  "financial_goals_options = [''Build emergency fund'', ''Pay off debt'', ''Save for major purchase'',
     ''Retirement planning'', ''Generate passive income'', ''Start/grow a business'',
     ''Achieve financial independence'', ''Build generational wealth'']"

definition wealth_beliefs_options :: "string list" where
  "wealth_beliefs_options = [''Money is the root of all evil'', ''Rich people are greedy'',
     ''I don'' @ [CHR 0x27] @ ''t deserve to be wealthy'', ''Money doesn'' @ [CHR 0x27] @ ''t buy happiness'',
     ''There'' @ [CHR 0x27] @ ''s not enough money to go around'', ''I'' @ [CHR 0x27] @ ''m not good with money'',
     ''Money comes and goes'', ''Wealth requires sacrifice'', ''None of these resonate with me'']"

definition business_status_options :: "string list" where
  "business_status_options = [''Employee only'', ''Side hustle'', ''Part-time business'', ''Full-time entrepreneur'',
     ''Multiple businesses'']"

definition business_revenue_options :: "string list" where
  "business_revenue_options = [''Under $1K'', ''$1K-$5K'', ''$5K-$10K'', ''$10K-$25K'', ''$25K-$50K'', ''$50K+'']"

subsection \<open>The widget values of each form\<close>

record biological_answers =
  sleep_hours :: int
  sleep_quality :: string
  wake_refreshed :: string
  energy_morning :: int
  energy_afternoon :: int
  energy_evening :: int
  energy_crashes :: string
  stress_level :: int
  stress_management :: string
  recovery_time :: string
  nutrition_quality :: string
  hydration :: string
  exercise_frequency :: string

record mental_answers =
  focus_duration :: string
  mental_clarity :: int
  decision_making :: string
  memory_performance :: string
  emotional_awareness :: int
  emotional_regulation :: string
  social_skills :: int
  empathy_level :: int
  growth_mindset :: string
  self_confidence :: int
  resilience :: string
  limiting_beliefs :: "string list"

text \<open>\<open>business_revenue\<close> is the value of the revenue select box; it is rendered
  only for a business owner, and the handler stores \<open>'N/A'\<close> otherwise
  (\<open>business_revenue_value\<close>).\<close>

record financial_answers =
  income_range :: string
  savings_rate :: string
  debt_situation :: string
  emergency_fund :: string
  investment_experience :: string
  investment_portfolio :: "string list"
  financial_goals :: "string list"
  money_stress :: int
  money_confidence :: int
  wealth_beliefs :: "string list"
  business_status :: string
  business_revenue :: string
  entrepreneurial_interest :: int

subsection \<open>The dicts the handlers store\<close>

definition biological_data :: "biological_answers \<Rightarrow> pydict" where
  "biological_data a =
     [(''sleep_hours'', PInt (sleep_hours a)), (''sleep_quality'', PStr (sleep_quality a)),
      (''wake_refreshed'', PStr (wake_refreshed a)), (''energy_morning'', PInt (energy_morning a)),
      (''energy_afternoon'', PInt (energy_afternoon a)), (''energy_evening'', PInt (energy_evening a)),
      (''energy_crashes'', PStr (energy_crashes a)), (''stress_level'', PInt (stress_level a)),
      (''stress_management'', PStr (stress_management a)), (''recovery_time'', PStr (recovery_time a)),
      (''nutrition_quality'', PStr (nutrition_quality a)), (''hydration'', PStr (hydration a)),
      (''exercise_frequency'', PStr (exercise_frequency a))]"

definition str_list :: "string list \<Rightarrow> pyval" where
  "str_list xs = PList (map PStr xs)"

definition mental_data :: "mental_answers \<Rightarrow> pydict" where
  "mental_data a =
     [(''focus_duration'', PStr (focus_duration a)), (''mental_clarity'', PInt (mental_clarity a)),
      (''decision_making'', PStr (decision_making a)), (''memory_performance'', PStr (memory_performance a)),
      (''emotional_awareness'', PInt (emotional_awareness a)), (''emotional_regulation'', PStr (emotional_regulation a)),
      (''social_skills'', PInt (social_skills a)), (''empathy_level'', PInt (empathy_level a)),
      (''growth_mindset'', PStr (growth_mindset a)), (''self_confidence'', PInt (self_confidence a)),
      (''resilience'', PStr (resilience a)), (''limiting_beliefs'', str_list (limiting_beliefs a))]"

definition business_revenue_value :: "string \<Rightarrow> string \<Rightarrow> string" where
  "business_revenue_value status revenue = (if status \<noteq> ''Employee only'' then revenue else ''N/A'')"

definition financial_data :: "financial_answers \<Rightarrow> pydict" where
  "financial_data a =
     [(''income_range'', PStr (income_range a)), (''savings_rate'', PStr (savings_rate a)),
      (''debt_situation'', PStr (debt_situation a)), (''emergency_fund'', PStr (emergency_fund a)),
      (''investment_experience'', PStr (investment_experience a)),
      (''investment_portfolio'', str_list (investment_portfolio a)),
      (''financial_goals'', str_list (financial_goals a)), (''money_stress'', PInt (money_stress a)),
      (''money_confidence'', PInt (money_confidence a)), (''wealth_beliefs'', str_list (wealth_beliefs a)),
      (''business_status'', PStr (business_status a)),
      (''business_revenue'', PStr (business_revenue_value (business_status a) (business_revenue a))),
      (''entrepreneurial_interest'', PInt (entrepreneurial_interest a))]"

subsection \<open>What the widgets can produce\<close>

definition slider_ok :: "int \<Rightarrow> int \<Rightarrow> int \<Rightarrow> bool" where
  "slider_ok lo hi v \<longleftrightarrow> lo \<le> v \<and> v \<le> hi"

definition multiselect_ok :: "string list \<Rightarrow> string list \<Rightarrow> bool" where
  "multiselect_ok opts xs \<longleftrightarrow> distinct xs \<and> set xs \<subseteq> set opts"

definition biological_widgets_ok :: "biological_answers \<Rightarrow> bool" where
  "biological_widgets_ok a \<longleftrightarrow>
     slider_ok 4 12 (sleep_hours a) \<and> sleep_quality a \<in> set rating_options
     \<and> wake_refreshed a \<in> set wake_refreshed_options
     \<and> slider_ok 1 10 (energy_morning a) \<and> slider_ok 1 10 (energy_afternoon a)
     \<and> slider_ok 1 10 (energy_evening a) \<and> energy_crashes a \<in> set energy_crashes_options
     \<and> slider_ok 1 10 (stress_level a) \<and> stress_management a \<in> set rating_options
     \<and> recovery_time a \<in> set recovery_time_options \<and> nutrition_quality a \<in> set rating_options
     \<and> hydration a \<in> set hydration_options \<and> exercise_frequency a \<in> set exercise_frequency_options"

definition mental_widgets_ok :: "mental_answers \<Rightarrow> bool" where
  "mental_widgets_ok a \<longleftrightarrow>
     focus_duration a \<in> set focus_duration_options \<and> slider_ok 1 10 (mental_clarity a)
     \<and> decision_making a \<in> set rating_options \<and> memory_performance a \<in> set rating_options
     \<and> slider_ok 1 10 (emotional_awareness a) \<and> emotional_regulation a \<in> set rating_options
     \<and> slider_ok 1 10 (social_skills a) \<and> slider_ok 1 10 (empathy_level a)
     \<and> growth_mindset a \<in> set growth_mindset_options \<and> slider_ok 1 10 (self_confidence a)
     \<and> resilience a \<in> set rating_options \<and> multiselect_ok limiting_beliefs_options (limiting_beliefs a)"

definition financial_widgets_ok :: "financial_answers \<Rightarrow> bool" where
  "financial_widgets_ok a \<longleftrightarrow>
     income_range a \<in> set income_range_options \<and> savings_rate a \<in> set savings_rate_options
     \<and> debt_situation a \<in> set debt_situation_options \<and> emergency_fund a \<in> set emergency_fund_options
     \<and> investment_experience a \<in> set investment_experience_options
     \<and> multiselect_ok investment_portfolio_options (investment_portfolio a)
     \<and> multiselect_ok financial_goals_options (financial_goals a)
     \<and> slider_ok 1 10 (money_stress a) \<and> slider_ok 1 10 (money_confidence a)
     \<and> multiselect_ok wealth_beliefs_options (wealth_beliefs a)
     \<and> business_status a \<in> set business_status_options
     \<and> business_revenue a \<in> set business_revenue_options
     \<and> slider_ok 1 10 (entrepreneurial_interest a)"

lemmas answer_options = age_options_def primary_goal_options_def rating_options_def
  wake_refreshed_options_def energy_crashes_options_def recovery_time_options_def hydration_options_def
  exercise_frequency_options_def focus_duration_options_def growth_mindset_options_def
  limiting_beliefs_options_def income_range_options_def savings_rate_options_def
  debt_situation_options_def emergency_fund_options_def investment_experience_options_def
  investment_portfolio_options_def financial_goals_options_def wealth_beliefs_options_def
  business_status_options_def business_revenue_options_def

subsection \<open>The values of an untouched form\<close>

text \<open>A slider starts at its \<open>value\<close> argument, a select slider at its
  \<open>value\<close>, a select box at its first option, a multiselect empty. Submitting a
  form without touching it stores these. The revenue select box is not rendered
  for an employee; its first option stands for its (unused) value.\<close>

definition untouched_biological :: biological_answers where
  "untouched_biological =
     \<lparr>sleep_hours = 7, sleep_quality = ''Fair'', wake_refreshed = ''Sometimes'',
      energy_morning = 5, energy_afternoon = 5, energy_evening = 5,
      energy_crashes = hd energy_crashes_options, stress_level = 5, stress_management = ''Fair'',
      recovery_time = hd recovery_time_options, nutrition_quality = ''Fair'',
      hydration = hd hydration_options, exercise_frequency = hd exercise_frequency_options\<rparr>"

definition untouched_mental :: mental_answers where
  "untouched_mental =
     \<lparr>focus_duration = hd focus_duration_options, mental_clarity = 5, decision_making = ''Fair'',
      memory_performance = ''Fair'', emotional_awareness = 5, emotional_regulation = ''Fair'',
      social_skills = 5, empathy_level = 5, growth_mindset = ''Moderately'', self_confidence = 5,
      resilience = ''Fair'', limiting_beliefs = []\<rparr>"

definition untouched_financial :: financial_answers where
  "untouched_financial =
     \<lparr>income_range = hd income_range_options, savings_rate = hd savings_rate_options,
      debt_situation = hd debt_situation_options, emergency_fund = hd emergency_fund_options,
      investment_experience = ''Novice'', investment_portfolio = [], financial_goals = [],
      money_stress = 5, money_confidence = 5, wealth_beliefs = [],
      business_status = hd business_status_options, business_revenue = hd business_revenue_options,
      entrepreneurial_interest = 5\<rparr>"

lemmas untouched_answers = untouched_biological_def untouched_mental_def untouched_financial_def

end
