(* ===== verification/Narrative.thy ===== *)
theory Narrative
  imports Py_Prelude
begin

text \<open>
  The bot's configuration and the narrative report (spec section 4.2):
  \<^item> \<open>Human20AssessmentBot.__init__\<close> (lines 21--79): the API key, the business
    profile built from the caller's dict with a default for every missing key,
    and the (unused) category weights;
  \<^item> \<open>generate_ai_analysis\<close> (lines 569--613): the prompt, one chat completion
    request, and the fallback message when the request or the reading of its
    response raises.
  The chat service is a parameter \<open>chat\<close>: a request either raises (network
  error, timeout, bad key, or the removed legacy API) or returns a response
  whose choices carry an optional message content. The f-string prompt is
  modelled as the list of its literal pieces and of the values it interpolates
  with their format (\<open>:.1f\<close> or \<open>str()\<close>); rendering a float with \<open>:.1f\<close> and a
  dict with \<open>str()\<close> into characters is not modelled, and the 8-space indentation
  of the literal lines is dropped. Each call returns the requests it sent, so
  that the number of calls of a whole script run can be counted.
\<close>

subsection \<open>Configuration\<close>

record business_profile =
  business_name :: string
  coach_name :: string
  website :: string
  email :: string
  phone :: string
  brand_message :: string
  service_price :: string
  service_price_beta :: string
  service_price_regular :: string
  service_price_premium :: string
  calendar_link :: string

type_synonym str_dict = "(string \<times> string) list"

text \<open>\<open>d.get(k, default)\<close> on a dict of strings.\<close>

definition dict_get :: "str_dict \<Rightarrow> string \<Rightarrow> string \<Rightarrow> string" where
  "dict_get d k dflt = (case map_of d k of Some v \<Rightarrow> v | None \<Rightarrow> dflt)"

definition brand_message_default :: string where
  "brand_message_default = ''You'' @ [CHR 0x27] @ ''re not broken. You'' @ [CHR 0x27]
     @ ''re upgrading. It'' @ [CHR 0x27] @ ''s Time to get dangerous!''"

record bot =
  api_key :: string
  profile :: business_profile

definition make_business_profile :: "str_dict \<Rightarrow> business_profile" where
  "make_business_profile bp =
     \<lparr>business_name = dict_get bp ''business_name'' ''Drew_Is..'',
      coach_name = dict_get bp ''coach_name'' ''Drew'',
      website = dict_get bp ''website'' ''https://drewis.online'',
      email = dict_get bp ''email'' ''drew@drewis.online'',
      phone = dict_get bp ''phone'' ''+1-503-855-6181'',
      brand_message = dict_get bp ''brand_message'' brand_message_default,
      service_price = dict_get bp ''service_price'' ''$497'',
      service_price_beta = ''$497 (Beta Launch - Regular $997)'',
      service_price_regular = ''$997'',
      service_price_premium = ''$2,497'',
      calendar_link = dict_get bp ''calendar_link'' ''https://calendly.com/drew-drewis/product-q-a-session''\<rparr>"

text \<open>The constructor ignores its \<open>api_key\<close> argument and stores a literal.\<close>

definition bot_config :: "string \<Rightarrow> str_dict \<Rightarrow> bot" where
  "bot_config key bp = \<lparr>api_key = ''sk-proj-YOUR-NEW-API-KEY-HERE'', profile = make_business_profile bp\<rparr>"

text \<open>The dict \<open>main\<close> passes, and its (ignored) API key.\<close>

definition main_business_profile :: str_dict where
  "main_business_profile =
     [(''business_name'', ''DrewIs.online''), (''coach_name'', ''Drew''), (''website'', ''https://drewis.online''),
      (''email'', ''drew@drewis.online''), (''phone'', ''+1-503-855-6181''),
      (''brand_message'', brand_message_default), (''service_price'', ''$2,497''),
      (''calendar_link'', ''https://calendly.com/drew-drewis/product-q-a-session'')]"

definition main_api_key :: string where
  "main_api_key = ''your-openai-api-key-here''"

text \<open>\<open>assessment_categories\<close>: category weight and subcategory weights.\<close>

definition assessment_categories :: "(string \<times> real \<times> (string \<times> real) list) list" where
  "assessment_categories =
     [(''biological_optimization'', 0.33,
        [(''sleep_quality'', 0.25), (''energy_levels'', 0.25), (''stress_management'', 0.20),
         (''nutrition_optimization'', 0.15), (''recovery_protocols'', 0.15)]),
      (''mental_architecture'', 0.33,
        [(''cognitive_performance'', 0.30), (''emotional_intelligence'', 0.25),
         (''stress_resilience'', 0.20), (''mindset_patterns'', 0.25)]),
      (''financial_intelligence'', 0.34,
        [(''wealth_building'', 0.30), (''money_mindset'', 0.25), (''business_optimization'', 0.25),
         (''investment_intelligence'', 0.20)])]"

subsection \<open>The chat service\<close>

text \<open>A piece of an f-string: literal text, a value formatted with \<open>:.1f\<close> or
  \<open>:.0f\<close>, or a value converted with \<open>str()\<close>.\<close>

datatype prompt_piece = Lit string | Fixed1 pyval | Fixed0 pyval | Str pyval

record chat_request =
  model :: string
  messages :: "(string \<times> prompt_piece list) list"
  max_tokens :: int
  temperature :: real

datatype chat_outcome =
    ChatRaises
  | ChatReturns "string option list"

type_synonym chat_service = "chat_request \<Rightarrow> chat_outcome"

subsection \<open>The prompt (lines 571--602)\<close>

text \<open>\<open>{x:.1f}\<close> accepts an int or a float; a string raises \<open>ValueError\<close>
  (unknown format code), any other value \<open>TypeError\<close>.\<close>

fun fmt_fixed1 :: "pyval \<Rightarrow> prompt_piece py_result" where
  "fmt_fixed1 (PInt i) = Inr (Fixed1 (PInt i))"
| "fmt_fixed1 (PFloat r) = Inr (Fixed1 (PFloat r))"
| "fmt_fixed1 (PStr s) = Inl ValueError"
| "fmt_fixed1 _ = Inl TypeError"

text \<open>\<open>{x:.0f}\<close>, the same for no decimal.\<close>

fun fmt_fixed0 :: "pyval \<Rightarrow> prompt_piece py_result" where
  "fmt_fixed0 (PInt i) = Inr (Fixed0 (PInt i))"
| "fmt_fixed0 (PFloat r) = Inr (Fixed0 (PFloat r))"
| "fmt_fixed0 (PStr s) = Inl ValueError"
| "fmt_fixed0 _ = Inl TypeError"

definition nl :: string where
  "nl = [CHR 0x0A]"

definition prompt_intro :: string where
  "prompt_intro = nl @ ''As a Human 2.0 Optimization Expert, analyze this comprehensive assessment data and ''
     @ ''provide personalized insights and recommendations.'' @ nl @ nl @ ''ASSESSMENT SCORES:'' @ nl
     @ ''- Biological Optimization: ''"

definition prompt_closing :: string where
  "prompt_closing = nl @ nl @ ''Provide a comprehensive analysis that includes:'' @ nl
     @ ''1. Overall Human 2.0 readiness assessment'' @ nl
     @ ''2. Top 3 optimization opportunities with specific impact potential'' @ nl
     @ ''3. Interconnection analysis (how improving one area will amplify others)'' @ nl
     @ ''4. Personalized \"dangerous upgrade\" recommendations'' @ nl
     @ ''5. Specific AI tools and strategies that would be most beneficial'' @ nl
     @ ''6. 30-60-90 day optimization roadmap'' @ nl @ nl
     @ ''Write in an engaging, motivational tone that aligns with \"'' @ brand_message_default
     @ ''\" messaging.'' @ nl
     @ ''Be specific and actionable while maintaining authenticity and street-smart wisdom.'' @ nl"

text \<open>The f-string evaluates its holes left to right; the first subscript or
  format that raises aborts it. \<open>scores\<close> is the dict \<open>calculate_scores\<close>
  returned, \<open>assessment_data\<close> the session's answers.\<close>

definition build_prompt :: "pyval \<Rightarrow> pydict \<Rightarrow> prompt_piece list py_result" where
  "build_prompt scores assessment_data =
     py_bind (py_bind (py_getitem scores ''biological'') fmt_fixed1) (\<lambda>b.
     py_bind (py_bind (py_getitem scores ''mental'') fmt_fixed1) (\<lambda>m.
     py_bind (py_bind (py_getitem scores ''financial'') fmt_fixed1) (\<lambda>f.
     py_bind (py_bind (py_getitem scores ''overall'') fmt_fixed1) (\<lambda>ov.
     py_bind (py_getitem (PDict assessment_data) ''first_name'') (\<lambda>first_name.
     py_bind (py_getitem (PDict assessment_data) ''last_name'') (\<lambda>last_name.
     py_bind (py_getitem (PDict assessment_data) ''age'') (\<lambda>age.
     py_bind (py_getitem (PDict assessment_data) ''occupation'') (\<lambda>occupation.
     py_bind (py_getitem (PDict assessment_data) ''primary_goal'') (\<lambda>primary_goal.
     py_bind (py_getitem (PDict assessment_data) ''biological'') (\<lambda>bio.
     py_bind (py_getitem (PDict assessment_data) ''mental'') (\<lambda>men.
     py_bind (py_getitem (PDict assessment_data) ''financial'') (\<lambda>fin.
     Inr [Lit prompt_intro, b, Lit (''/100'' @ nl @ ''- Mental Architecture: ''), m,
          Lit (''/100  '' @ nl @ ''- Financial Intelligence: ''), f,
          Lit (''/100'' @ nl @ ''- Overall Human 2.0 Score: ''), ov,
          Lit (''/100'' @ nl @ nl @ ''PARTICIPANT PROFILE:'' @ nl @ ''Name: ''), Str first_name, Lit '' '',
          Str last_name, Lit (nl @ ''Age: ''), Str age, Lit (nl @ ''Occupation: ''), Str occupation,
          Lit (nl @ ''Primary Goal: ''), Str primary_goal, Lit (nl @ nl @ ''BIOLOGICAL DATA: ''), Str bio,
          Lit (nl @ ''MENTAL DATA: ''), Str men, Lit (nl @ ''FINANCIAL DATA: ''), Str fin,
          Lit prompt_closing]))))))))))))"

subsection \<open>The request and its fallback (lines 604--613)\<close>

definition analysis_request :: "prompt_piece list \<Rightarrow> chat_request" where
  "analysis_request prompt =
     \<lparr>model = ''gpt-4'', messages = [(''user'', prompt)], max_tokens = 2000, temperature = 0.7\<rparr>"

definition fallback_message :: "business_profile \<Rightarrow> string" where
  "fallback_message bp =
     ''AI analysis temporarily unavailable. Please contact '' @ email bp @ '' for your personalized assessment.''"

text \<open>\<open>response.choices[0].message.content\<close>: an empty choice list raises
  \<open>IndexError\<close>, caught by the same \<open>except\<close>; a null content is returned as
  \<open>None\<close>.\<close>

fun read_response :: "business_profile \<Rightarrow> chat_outcome \<Rightarrow> pyval" where
  "read_response bp ChatRaises = PStr (fallback_message bp)"
| "read_response bp (ChatReturns []) = PStr (fallback_message bp)"
| "read_response bp (ChatReturns (c # cs)) = (case c of Some t \<Rightarrow> PStr t | None \<Rightarrow> PNone)"

text \<open>The result: the requests sent (at most one) and the returned value. Only
  the call and the reading of its response are inside \<open>try\<close>: an error of the
  prompt propagates.\<close>

definition generate_ai_analysis ::
  "chat_service \<Rightarrow> business_profile \<Rightarrow> pyval \<Rightarrow> pydict \<Rightarrow> (chat_request list \<times> pyval) py_result" where
  "generate_ai_analysis chat bp scores assessment_data =
     py_bind (build_prompt scores assessment_data) (\<lambda>prompt.
       let req = analysis_request prompt
       in Inr ([req], read_response bp (chat req)))"

subsection \<open>What the prompt reads\<close>

text \<open>The keys the prompt reads from \<open>assessment_data\<close>, in the order it reads
  them, and a score dict whose four entries are numbers.\<close>

definition prompt_keys :: "string list" where
  "prompt_keys = [''first_name'', ''last_name'', ''age'', ''occupation'', ''primary_goal'',
                  ''biological'', ''mental'', ''financial'']"

definition numeric_scores :: "pyval \<Rightarrow> bool" where
  "numeric_scores scores \<longleftrightarrow> (case scores of
      PDict sd \<Rightarrow> list_all (\<lambda>k. case map_of sd k of Some v \<Rightarrow> as_real v \<noteq> None | None \<Rightarrow> False)
                    [''biological'', ''mental'', ''financial'', ''overall'']
    | _ \<Rightarrow> False)"

subsection \<open>Properties of the analysis\<close>

lemma fmt_fixed1_num: "as_real v \<noteq> None \<Longrightarrow> fmt_fixed1 v = Inr (Fixed1 v)"
  by (cases v) auto

lemma fmt_fixed0_num: "as_real v \<noteq> None \<Longrightarrow> fmt_fixed0 v = Inr (Fixed0 v)"
  by (cases v) auto

lemma numeric_scores_D:
  assumes "numeric_scores scores"
  obtains sd b m f ov where "scores = PDict sd"
    and "map_of sd ''biological'' = Some b" "as_real b \<noteq> None"
    and "map_of sd ''mental'' = Some m" "as_real m \<noteq> None"
    and "map_of sd ''financial'' = Some f" "as_real f \<noteq> None"
    and "map_of sd ''overall'' = Some ov" "as_real ov \<noteq> None"
  using assms by (auto simp: numeric_scores_def split: pyval.splits option.splits)

lemma build_prompt_Inr:
  assumes "numeric_scores scores" and "list_all (\<lambda>k. map_of d k \<noteq> None) prompt_keys"
  shows "\<exists>p. build_prompt scores d = Inr p"
proof -
  from assms(2) obtain a1 a2 a3 a4 a5 a6 a7 a8 where
    "map_of d ''first_name'' = Some a1" "map_of d ''last_name'' = Some a2" "map_of d ''age'' = Some a3"
    "map_of d ''occupation'' = Some a4" "map_of d ''primary_goal'' = Some a5"
    "map_of d ''biological'' = Some a6" "map_of d ''mental'' = Some a7" "map_of d ''financial'' = Some a8"
    by (auto simp: prompt_keys_def)
  moreover obtain sd b m f ov where "scores = PDict sd"
    "map_of sd ''biological'' = Some b" "as_real b \<noteq> None" "map_of sd ''mental'' = Some m" "as_real m \<noteq> None"
    "map_of sd ''financial'' = Some f" "as_real f \<noteq> None" "map_of sd ''overall'' = Some ov" "as_real ov \<noteq> None"
    by (rule numeric_scores_D [OF assms(1)])
  ultimately show ?thesis
    by (simp add: build_prompt_def fmt_fixed1_num)
qed

lemma read_response_fallback:
  "oc = ChatRaises \<or> oc = ChatReturns [] \<Longrightarrow> read_response bp oc = PStr (fallback_message bp)"
  by auto

lemma generate_ai_analysis_prompt:
  "build_prompt scores d = Inr p
   \<Longrightarrow> generate_ai_analysis chat bp scores d = Inr ([analysis_request p], read_response bp (chat (analysis_request p)))"
  by (simp add: generate_ai_analysis_def Let_def)

text \<open>C9: when the chat service raises (network error, timeout, rejected key,
  the removed legacy API) or returns no choices, \<open>generate_ai_analysis\<close> does not
  raise: it has sent exactly the one request and returns the fallback message,
  which contains the profile's contact email.\<close>

theorem analysis_fallback:
  assumes "build_prompt scores d = Inr p"
      and "chat (analysis_request p) = ChatRaises \<or> chat (analysis_request p) = ChatReturns []"
  shows "generate_ai_analysis chat bp scores d = Inr ([analysis_request p], PStr (fallback_message bp))
         \<and> sublist (email bp) (fallback_message bp)"
proof
  show "generate_ai_analysis chat bp scores d = Inr ([analysis_request p], PStr (fallback_message bp))"
    using generate_ai_analysis_prompt [OF assms(1)] read_response_fallback [OF assms(2)] by simp
  show "sublist (email bp) (fallback_message bp)"
    unfolding fallback_message_def sublist_def by blast
qed

theorem analysis_fallback_witness:
  "\<exists>p. build_prompt (PDict [(''biological'', PInt 50), (''mental'', PInt 60), (''financial'', PInt 70),
                            (''overall'', PFloat 60.1)])
          [(''first_name'', PStr ''Ada''), (''last_name'', PStr ''L''), (''age'', PStr ''36-45''),
           (''occupation'', PStr ''''), (''primary_goal'', PStr ''Other''), (''biological'', PDict []),
           (''mental'', PDict []), (''financial'', PDict [])] = Inr p
     \<and> generate_ai_analysis (\<lambda>_. ChatRaises) (make_business_profile main_business_profile)
          (PDict [(''biological'', PInt 50), (''mental'', PInt 60), (''financial'', PInt 70),
                  (''overall'', PFloat 60.1)])
          [(''first_name'', PStr ''Ada''), (''last_name'', PStr ''L''), (''age'', PStr ''36-45''),
           (''occupation'', PStr ''''), (''primary_goal'', PStr ''Other''), (''biological'', PDict []),
           (''mental'', PDict []), (''financial'', PDict [])]
        = Inr ([analysis_request p], PStr (fallback_message (make_business_profile main_business_profile)))
     \<and> sublist ''drew@drewis.online'' (fallback_message (make_business_profile main_business_profile))"
proof -
  obtain p where p: "build_prompt (PDict [(''biological'', PInt 50), (''mental'', PInt 60),
        (''financial'', PInt 70), (''overall'', PFloat 60.1)])
      [(''first_name'', PStr ''Ada''), (''last_name'', PStr ''L''), (''age'', PStr ''36-45''),
       (''occupation'', PStr ''''), (''primary_goal'', PStr ''Other''), (''biological'', PDict []),
       (''mental'', PDict []), (''financial'', PDict [])] = Inr p"
    using build_prompt_Inr by (fastforce simp: numeric_scores_def prompt_keys_def)
  have e: "email (make_business_profile main_business_profile) = ''drew@drewis.online''"
    by (simp add: make_business_profile_def main_business_profile_def dict_get_def)
  show ?thesis
    using analysis_fallback [OF p, of "\<lambda>_. ChatRaises" "make_business_profile main_business_profile"] p e
    by auto
qed

text \<open>C10: the prompt is built before the \<open>try\<close>: if \<open>assessment_data\<close> has no
  \<open>first_name\<close>, \<open>generate_ai_analysis\<close> raises \<open>KeyError\<close> for every chat
  service, sends no request and never reaches the fallback.\<close>

theorem prompt_error_escapes:
  assumes "numeric_scores scores" and "map_of d ''first_name'' = None"
  shows "generate_ai_analysis chat bp scores d = Inl (KeyError (PStr ''first_name''))"
proof -
  obtain sd b m f ov where "scores = PDict sd"
    "map_of sd ''biological'' = Some b" "as_real b \<noteq> None" "map_of sd ''mental'' = Some m" "as_real m \<noteq> None"
    "map_of sd ''financial'' = Some f" "as_real f \<noteq> None" "map_of sd ''overall'' = Some ov" "as_real ov \<noteq> None"
    by (rule numeric_scores_D [OF assms(1)])
  with assms(2) show ?thesis
    by (simp add: generate_ai_analysis_def build_prompt_def fmt_fixed1_num)
qed

theorem prompt_error_escapes_witness:
  "numeric_scores (PDict [(''biological'', PInt 50), (''mental'', PInt 60), (''financial'', PInt 70),
                          (''overall'', PFloat 60.1)])
   \<and> generate_ai_analysis (\<lambda>_. ChatRaises) (make_business_profile main_business_profile)
       (PDict [(''biological'', PInt 50), (''mental'', PInt 60), (''financial'', PInt 70),
               (''overall'', PFloat 60.1)]) [(''email'', PStr ''a@b'')]
     = Inl (KeyError (PStr ''first_name''))"
  using prompt_error_escapes [of "PDict [(''biological'', PInt 50), (''mental'', PInt 60),
      (''financial'', PInt 70), (''overall'', PFloat 60.1)]" "[(''email'', PStr ''a@b'')]"]
  by (simp add: numeric_scores_def)

end
