(* ===== verification/Survey.thy ===== *)
theory Survey
  imports Scoring Answers Narrative
begin

text \<open>
  The survey flow controller: \<open>main\<close> (lines 717--756) and the screen handlers
  of \<open>Human20AssessmentBot\<close>. Streamlit runs the whole script once per user
  interaction; \<open>st.session_state\<close> is the only state that survives a run. Here
  \<^item> the session state is a record of the keys the bot uses, each possibly absent
    (a fresh browser session has none; the reset button deletes all of them),
    plus whether the custom-goal text input is on screen;
  \<^item> one script run is a function of the state and of the one interaction that
    triggered it (\<open>ui_event\<close>), returning a \<open>run_out\<close>: the new state, whether
    the run called \<open>st.rerun()\<close>, the chat requests it sent, what it showed, and
    the exception that ended it, if any (state changes made before an exception
    are kept, as in Streamlit);
  \<^item> \<open>st.rerun()\<close> ends the run and starts another without interaction
    (\<open>main_run\<close>).
  Widgets inside an \<open>st.form\<close> report their values only on submit, so a submit
  event carries the form's values; the custom-goal input is created inside the
  form only when the submitting run sees \<open>primary_goal == 'Other'\<close>, and a widget
  that was not on screen before the submit returns its default \<open>''\<close>.
  What a run shows is the list of its \<open>st\<close> calls with the values they show
  (markdown text, metric values, the radar chart's data); columns, emoji and
  pixels are presentation and are not modelled.
\<close>

record session_state =
  assessment_data :: "pydict option"
  current_step :: "string option"
  custom_goal_shown :: bool

definition fresh_session :: session_state where
  "fresh_session = \<lparr>assessment_data = None, current_step = None, custom_goal_shown = False\<rparr>"

text \<open>The session part of \<open>__init__\<close> (lines 81--85), run at the start of every
  script run when \<open>main\<close> constructs the bot.\<close>

definition init_session_state :: "session_state \<Rightarrow> session_state" where
  "init_session_state s =
     s\<lparr>assessment_data := (case assessment_data s of None \<Rightarrow> Some [] | Some d \<Rightarrow> Some d),
       current_step := (case current_step s of None \<Rightarrow> Some ''welcome'' | Some c \<Rightarrow> Some c)\<rparr>"

record basic_form =
  bi_first_name :: string
  bi_last_name :: string
  bi_email :: string
  bi_phone :: string
  bi_age :: string
  bi_occupation :: string
  bi_primary_goal :: string
  bi_custom_goal :: string

datatype ui_event =
    NoInput
  | ClickStart
  | SubmitBasic basic_form
  | SubmitBiological biological_answers
  | SubmitMental mental_answers
  | SubmitFinancial financial_answers
  | ClickBook
  | ClickEmail
  | ClickReset

text \<open>What a run puts on the page: \<open>st.error\<close>, \<open>st.success\<close>, \<open>st.markdown\<close>
  of a link, of an f-string, and of the analysis, \<open>st.metric\<close> with its label and
  value, and the plotly radar chart with its radii, angular labels and radial
  axis range.\<close>

datatype ui_msg =
    ShowError string
  | ShowSuccess "prompt_piece list"
  | ShowLink string
  | ShowMarkdown "prompt_piece list"
  | ShowMetric string "prompt_piece list"
  | ShowRadar "pyval list" "string list" "int \<times> int"
  | ShowAnalysis pyval

record run_out =
  state :: session_state
  rerun :: bool
  requests :: "chat_request list"
  shown :: "ui_msg list"
  raised :: "py_error option"

definition stay :: "session_state \<Rightarrow> run_out" where
  "stay s = \<lparr>state = s, rerun = False, requests = [], shown = [], raised = None\<rparr>"

definition go_to :: "session_state \<Rightarrow> string \<Rightarrow> run_out" where
  "go_to s step = \<lparr>state = s\<lparr>current_step := Some step\<rparr>, rerun = True, requests = [], shown = [], raised = None\<rparr>"

text \<open>\<open>st.session_state.assessment_data\<close> when the key is absent.\<close>

definition session_data :: "session_state \<Rightarrow> pydict py_result" where
  "session_data s = (case assessment_data s of Some d \<Rightarrow> Inr d
                       | None \<Rightarrow> Inl (AttributeError ''assessment_data''))"

definition fail_run :: "session_state \<Rightarrow> chat_request list \<Rightarrow> py_error \<Rightarrow> run_out" where
  "fail_run s reqs e = \<lparr>state = s, rerun = False, requests = reqs, shown = [], raised = Some e\<rparr>"

subsection \<open>The screen handlers\<close>

definition display_welcome_screen :: "session_state \<Rightarrow> ui_event \<Rightarrow> run_out" where
  "display_welcome_screen s ev = (if ev = ClickStart then go_to s ''basic_info'' else stay s)"

definition basic_info_dict :: "basic_form \<Rightarrow> string \<Rightarrow> pydict" where
  "basic_info_dict f custom_goal =
     [(''first_name'', PStr (bi_first_name f)), (''last_name'', PStr (bi_last_name f)),
      (''email'', PStr (bi_email f)), (''phone'', PStr (bi_phone f)), (''age'', PStr (bi_age f)),
      (''occupation'', PStr (bi_occupation f)), (''primary_goal'', PStr (bi_primary_goal f)),
      (''custom_goal'', PStr (if bi_primary_goal f = ''Other'' then custom_goal else ''''))]"

definition required_fields_message :: string where
  "required_fields_message = ''Please fill in all required fields (marked with *)''"

text \<open>The custom-goal input returns what was typed only if it was on screen
  before the submit; created in the submitting run, it returns \<open>''\<close>.\<close>

definition collect_basic_information :: "session_state \<Rightarrow> ui_event \<Rightarrow> run_out" where
  "collect_basic_information s ev =
     (case ev of
        SubmitBasic f \<Rightarrow>
          (let shown_now = (bi_primary_goal f = ''Other'');
               custom_goal = (if custom_goal_shown s then bi_custom_goal f else '''');
               s' = s\<lparr>custom_goal_shown := shown_now\<rparr>
           in if bi_first_name f \<noteq> '''' \<and> bi_last_name f \<noteq> '''' \<and> bi_email f \<noteq> ''''
              then (case session_data s' of
                      Inl e \<Rightarrow> fail_run s' [] e
                    | Inr d \<Rightarrow> go_to (s'\<lparr>assessment_data := Some (py_dict_update d (basic_info_dict f custom_goal))\<rparr>)
                                  ''biological_assessment'')
              else \<lparr>state = s', rerun = False, requests = [], shown = [ShowError required_fields_message],
                    raised = None\<rparr>)
      | _ \<Rightarrow> stay s)"

text \<open>\<open>st.session_state.assessment_data[key] = value\<close> and the step change of a
  submitted assessment form.\<close>

definition store_answers :: "session_state \<Rightarrow> string \<Rightarrow> pydict \<Rightarrow> string \<Rightarrow> run_out" where
  "store_answers s key answers next_step =
     (case session_data s of
        Inl e \<Rightarrow> fail_run s [] e
      | Inr d \<Rightarrow> go_to (s\<lparr>assessment_data := Some (AList.update key (PDict answers) d)\<rparr>) next_step)"

definition biological_optimization_assessment :: "session_state \<Rightarrow> ui_event \<Rightarrow> run_out" where
  "biological_optimization_assessment s ev =
     (case ev of SubmitBiological a \<Rightarrow> store_answers s ''biological'' (biological_data a) ''mental_assessment''
               | _ \<Rightarrow> stay s)"

definition mental_architecture_assessment :: "session_state \<Rightarrow> ui_event \<Rightarrow> run_out" where
  "mental_architecture_assessment s ev =
     (case ev of SubmitMental a \<Rightarrow> store_answers s ''mental'' (mental_data a) ''financial_assessment''
               | _ \<Rightarrow> stay s)"

definition financial_intelligence_assessment :: "session_state \<Rightarrow> ui_event \<Rightarrow> run_out" where
  "financial_intelligence_assessment s ev =
     (case ev of SubmitFinancial a \<Rightarrow> store_answers s ''financial'' (financial_data a) ''generate_results''
               | _ \<Rightarrow> stay s)"

definition email_sent_message :: "pyval \<Rightarrow> prompt_piece list" where
  "email_sent_message v = [Lit ''Your complete Human 2.0 Assessment Report has been sent to '', Str v]"

text \<open>The markdown and widgets of the results page (lines 620--705). Markdown
  literals are kept without their emoji and indentation; an f-string hole of
  the business profile is a \<open>Lit\<close> of the profile's string.\<close>

definition radar_categories :: "string list" where
  "radar_categories = [''Biological'' @ nl @ ''Optimization'', ''Mental'' @ nl @ ''Architecture'',
                       ''Financial'' @ nl @ ''Intelligence'']"

definition booking_text :: "business_profile \<Rightarrow> prompt_piece list" where
  "booking_text bp =
     [Lit (''### Schedule Your Strategy Session'' @ nl @ nl @ ''Ready to implement your Human 2.0 upgrade plan?''
           @ nl @ nl @ ''**Book a complimentary 30-minute strategy session with ''),
      Lit (coach_name bp),
      Lit ('':**'' @ nl @ nl @ ''Dive deeper into your assessment results  '' @ nl
           @ ''Create your personalized 90-day roadmap  '' @ nl
           @ ''Identify your highest-impact AI implementations  '' @ nl
           @ ''Design your dangerous upgrade strategy  '' @ nl @ nl
           @ ''**Investment:** Complimentary (normally ''),
      Lit (service_price bp), Lit '')'']"

definition contact_text :: "business_profile \<Rightarrow> prompt_piece list" where
  "contact_text bp =
     [Lit (''### Get Your Complete Report'' @ nl @ nl @ ''**Your detailed Human 2.0 Assessment Report includes:**''
           @ nl @ nl @ ''Complete scoring breakdown  '' @ nl @ ''Personalized optimization roadmap  '' @ nl
           @ ''AI tool recommendations  '' @ nl @ ''Implementation strategies  '' @ nl
           @ ''Progress tracking framework  '' @ nl @ nl @ ''**Contact Information:**'' @ nl @ ''- Email: ''),
      Lit (email bp), Lit (nl @ ''- Phone: ''), Lit (phone bp), Lit (nl @ ''- Website: ''), Lit (website bp)]"

text \<open>The page up to the booking block: the title and brand message, the four
  metrics (\<open>:.0f\<close>), the radar chart of the three categories with its polygon
  closed by repeating the first value and category, the analysis, and the
  booking text. Every hole reads \<open>scores\<close> in the order of the source.\<close>

definition results_page :: "business_profile \<Rightarrow> pyval \<Rightarrow> pyval \<Rightarrow> ui_msg list py_result" where
  "results_page bp scores ai_analysis =
     py_bind (py_bind (py_getitem scores ''biological'') fmt_fixed0) (\<lambda>b0.
     py_bind (py_bind (py_getitem scores ''mental'') fmt_fixed0) (\<lambda>m0.
     py_bind (py_bind (py_getitem scores ''financial'') fmt_fixed0) (\<lambda>f0.
     py_bind (py_bind (py_getitem scores ''overall'') fmt_fixed0) (\<lambda>o0.
     py_bind (py_getitem scores ''biological'') (\<lambda>b.
     py_bind (py_getitem scores ''mental'') (\<lambda>m.
     py_bind (py_getitem scores ''financial'') (\<lambda>f.
       let values = [b, m, f]
       in Inr [ShowMarkdown [Lit ''# Your Human 2.0 Assessment Results''],
               ShowMarkdown [Lit ''## '', Lit (brand_message bp)],
               ShowMetric ''Biological'' [b0, Lit ''/100''], ShowMetric ''Mental'' [m0, Lit ''/100''],
               ShowMetric ''Financial'' [f0, Lit ''/100''], ShowMetric ''Overall H2.0'' [o0, Lit ''/100''],
               ShowRadar (values @ [values ! 0]) (radar_categories @ [radar_categories ! 0]) (0, 100),
               ShowMarkdown [Lit ''## AI-Powered Analysis & Recommendations''],
               ShowAnalysis ai_analysis,
               ShowMarkdown [Lit ''## Your Next Steps to Human 2.0''],
               ShowMarkdown (booking_text bp)])))))))"

text \<open>\<open>display_results\<close> (lines 615--715): the scores and the analysis are
  computed on every run of the results page, before any button is looked at.\<close>

definition display_results :: "chat_service \<Rightarrow> bot \<Rightarrow> session_state \<Rightarrow> ui_event \<Rightarrow> run_out" where
  "display_results chat b s ev =
     (case session_data s of
        Inl e \<Rightarrow> fail_run s [] e
      | Inr d \<Rightarrow>
          (case calculate_scores d of
             Inl e \<Rightarrow> fail_run s [] e
           | Inr scores \<Rightarrow>
               (case generate_ai_analysis chat (profile b) scores d of
                  Inl e \<Rightarrow> fail_run s [] e
                | Inr (reqs, analysis) \<Rightarrow>
                    (case results_page (profile b) scores analysis of
                       Inl e \<Rightarrow> fail_run s reqs e
                     | Inr upper \<Rightarrow>
                         (let page = upper @ (if ev = ClickBook then [ShowLink (calendar_link (profile b))] else [])
                                     @ [ShowMarkdown (contact_text (profile b))]
                          in case ev of
                               ClickEmail \<Rightarrow>
                                 (case py_getitem (PDict d) ''email'' of
                                    Inl e \<Rightarrow> fail_run s reqs e
                                  | Inr v \<Rightarrow> \<lparr>state = s, rerun = False, requests = reqs,
                                               shown = page @ [ShowSuccess (email_sent_message v)], raised = None\<rparr>)
                             | ClickReset \<Rightarrow> \<lparr>state = fresh_session, rerun = True, requests = reqs,
                                              shown = page, raised = None\<rparr>
                             | _ \<Rightarrow> \<lparr>state = s, rerun = False, requests = reqs, shown = page, raised = None\<rparr>)))))"

subsection \<open>main\<close>

definition step_names :: "string list" where
  "step_names = [''welcome'', ''basic_info'', ''biological_assessment'', ''mental_assessment'',
                 ''financial_assessment'', ''generate_results'']"

text \<open>The navigation of \<open>main\<close> (lines 744--756): an unknown step renders
  nothing. A widget that is not rendered in a run loses its state, so the
  custom-goal input is gone after any run of another screen.\<close>

definition main_dispatch :: "chat_service \<Rightarrow> bot \<Rightarrow> session_state \<Rightarrow> ui_event \<Rightarrow> run_out" where
  "main_dispatch chat b s ev =
     (let s0 = (if current_step s = Some ''basic_info'' then s else s\<lparr>custom_goal_shown := False\<rparr>)
      in if current_step s = Some ''welcome'' then display_welcome_screen s0 ev
         else if current_step s = Some ''basic_info'' then collect_basic_information s0 ev
         else if current_step s = Some ''biological_assessment'' then biological_optimization_assessment s0 ev
         else if current_step s = Some ''mental_assessment'' then mental_architecture_assessment s0 ev
         else if current_step s = Some ''financial_assessment'' then financial_intelligence_assessment s0 ev
         else if current_step s = Some ''generate_results'' then display_results chat b s0 ev
         else stay s0)"

definition the_bot :: bot where
  "the_bot = bot_config main_api_key main_business_profile"

text \<open>One script run: \<open>main\<close> builds the bot (whose constructor initialises the
  session keys) and dispatches on the step.\<close>

definition script_run :: "chat_service \<Rightarrow> session_state \<Rightarrow> ui_event \<Rightarrow> run_out" where
  "script_run chat s ev = main_dispatch chat the_bot (init_session_state s) ev"

text \<open>An interaction and, if its run called \<open>st.rerun()\<close>, the run that follows
  without interaction; the requests of both runs were sent, the page shows the
  second.\<close>

definition main_run :: "chat_service \<Rightarrow> session_state \<Rightarrow> ui_event \<Rightarrow> run_out" where
  "main_run chat s ev =
     (let r = script_run chat s ev
      in if rerun r then (let r' = script_run chat (state r) NoInput in r'\<lparr>requests := requests r @ requests r'\<rparr>)
         else r)"

text \<open>Streamlit's run loop: a run that called \<open>st.rerun()\<close> is followed by
  another run without interaction, for as long as runs keep calling it. As a
  loop that need not end, it is a partial function; \<open>None\<close> is a rerun chain
  that never ends.\<close>

partial_function (option) interact :: "chat_service \<Rightarrow> session_state \<Rightarrow> ui_event \<Rightarrow> run_out option" where
  "interact chat s ev =
     (let r = script_run chat s ev
      in if rerun r then Option.bind (interact chat (state r) NoInput) (\<lambda>r'. Some (r'\<lparr>requests := requests r @ requests r'\<rparr>))
         else Some r)"

end
