(* ===== verification/Score_Spec.thy ===== *)
theory Score_Spec
  imports Scoring Answers
begin

text \<open>
  The scoring algorithm of spec section 4.1 over the typed answers of
  \<open>Answers\<close>, in exact real arithmetic, with every categorical answer read
  through the source's lookup table (\<open>None\<close> where the answer is not a key of
  its table; the wake-refreshed answer is read with the default 50 of the
  source). The refinement lemmas show that \<open>Scoring.calculate_scores\<close> on the
  dicts the forms store computes exactly these numbers, and raises a
  \<open>KeyError\<close> exactly where the reference has no value.
\<close>

definition table_value :: "(string \<times> int) list \<Rightarrow> string \<Rightarrow> real option" where
  "table_value tbl s = map_option of_int (map_of tbl s)"

definition wake_value :: "string \<Rightarrow> real" where
  "wake_value s = of_int (case map_of quality_map s of Some n \<Rightarrow> n | None \<Rightarrow> 50)"

definition clamp100 :: "real \<Rightarrow> real" where
  "clamp100 x = min 100 (max 0 x)"

record category_score =
  cs_biological :: real
  cs_mental :: real
  cs_financial :: real
  cs_overall :: real

subsection \<open>Biological\<close>

definition sleep_ref :: "biological_answers \<Rightarrow> real option" where
  "sleep_ref a = do {
     q \<leftarrow> table_value quality_map (sleep_quality a);
     Some (((of_int (sleep_hours a) - 4) / 8 * 100 + q + wake_value (wake_refreshed a)) / 3) }"

definition energy_ref :: "biological_answers \<Rightarrow> real option" where
  "energy_ref a = do {
     c \<leftarrow> table_value crash_map (energy_crashes a);
     Some ((of_int (energy_morning a + energy_afternoon a + energy_evening a) / 3 * 10 + c) / 2) }"

definition stress_ref :: "biological_answers \<Rightarrow> real option" where
  "stress_ref a = do {
     m \<leftarrow> table_value quality_map (stress_management a);
     r \<leftarrow> table_value recovery_map (recovery_time a);
     Some (((10 - of_int (stress_level a)) * 10 + m + r) / 3) }"

definition nutrition_ref :: "biological_answers \<Rightarrow> real option" where
  "nutrition_ref a = do {
     q \<leftarrow> table_value quality_map (nutrition_quality a);
     h \<leftarrow> table_value hydration_map (hydration a);
     e \<leftarrow> table_value exercise_map (exercise_frequency a);
     Some ((q + h + e) / 3) }"

definition biological_ref :: "biological_answers \<Rightarrow> real option" where
  "biological_ref a = do {
     s \<leftarrow> sleep_ref a; e \<leftarrow> energy_ref a; t \<leftarrow> stress_ref a; n \<leftarrow> nutrition_ref a;
     Some (s * 0.25 + e * 0.25 + t * 0.20 + n * 0.30) }"

subsection \<open>Mental\<close>

definition cognitive_ref :: "mental_answers \<Rightarrow> real option" where
  "cognitive_ref a = do {
     f \<leftarrow> table_value focus_map (focus_duration a);
     d \<leftarrow> table_value quality_map (decision_making a);
     m \<leftarrow> table_value quality_map (memory_performance a);
     Some ((f + of_int (mental_clarity a) * 10 + d + m) / 4) }"

definition emotional_ref :: "mental_answers \<Rightarrow> real option" where
  "emotional_ref a = do {
     r \<leftarrow> table_value quality_map (emotional_regulation a);
     Some ((of_int (emotional_awareness a + social_skills a + empathy_level a) / 3 * 10 + r) / 2) }"

definition mindset_ref :: "mental_answers \<Rightarrow> real option" where
  "mindset_ref a = do {
     g \<leftarrow> table_value growth_map (growth_mindset a);
     r \<leftarrow> table_value quality_map (resilience a);
     Some ((g + of_int (self_confidence a) * 10 + r) / 3) }"

definition mental_ref :: "mental_answers \<Rightarrow> real option" where
  "mental_ref a = do {
     c \<leftarrow> cognitive_ref a; e \<leftarrow> emotional_ref a; m \<leftarrow> mindset_ref a;
     Some (c * 0.30 + e * 0.35 + m * 0.35) }"

subsection \<open>Financial\<close>

definition wealth_ref :: "financial_answers \<Rightarrow> real option" where
  "wealth_ref a = do {
     i \<leftarrow> table_value income_map (income_range a);
     s \<leftarrow> table_value savings_map (savings_rate a);
     Some ((i + s) / 2) }"

definition stability_ref :: "financial_answers \<Rightarrow> real option" where
  "stability_ref a = do {
     d \<leftarrow> table_value debt_map (debt_situation a);
     e \<leftarrow> table_value emergency_map (emergency_fund a);
     Some ((d + e) / 2) }"

definition money_mindset_ref :: "financial_answers \<Rightarrow> real" where
  "money_mindset_ref a = ((10 - of_int (money_stress a)) * 10 + of_int (money_confidence a) * 10) / 2"

definition financial_ref :: "financial_answers \<Rightarrow> real option" where
  "financial_ref a = do {
     w \<leftarrow> wealth_ref a; s \<leftarrow> stability_ref a;
     i \<leftarrow> table_value exp_map (investment_experience a);
     Some (w * 0.30 + s * 0.25 + i * 0.20 + money_mindset_ref a * 0.25) }"

subsection \<open>Overall\<close>

text \<open>The clamped category scores and their weighted sum.\<close>

definition category_scores :: "real \<Rightarrow> real \<Rightarrow> real \<Rightarrow> category_score" where
  "category_scores bio men fin =
     \<lparr>cs_biological = clamp100 bio, cs_mental = clamp100 men, cs_financial = clamp100 fin,
      cs_overall = clamp100 bio * 0.33 + clamp100 men * 0.33 + clamp100 fin * 0.34\<rparr>"

definition score_ref :: "biological_answers \<Rightarrow> mental_answers \<Rightarrow> financial_answers \<Rightarrow> category_score option" where
  "score_ref b m f = do {
     bio \<leftarrow> biological_ref b; men \<leftarrow> mental_ref m; fin \<leftarrow> financial_ref f;
     Some (category_scores bio men fin) }"

text \<open>The four numbers of the dict \<open>calculate_scores\<close> returns.\<close>

definition score_view :: "pyval \<Rightarrow> category_score option" where
  "score_view v = (case v of
      PDict d \<Rightarrow> do {
        b \<leftarrow> Option.bind (map_of d ''biological'') as_real;
        m \<leftarrow> Option.bind (map_of d ''mental'') as_real;
        f \<leftarrow> Option.bind (map_of d ''financial'') as_real;
        ov \<leftarrow> Option.bind (map_of d ''overall'') as_real;
        Some \<lparr>cs_biological = b, cs_mental = m, cs_financial = f, cs_overall = ov\<rparr> }
    | _ \<Rightarrow> None)"

subsection \<open>Each sub-score block computes its reference\<close>

lemmas ref_unfold = table_value_def wake_value_def py_refines_def e_defs

lemma sleep_score_of_refines: "py_refines (sleep_score_of (PDict (biological_data a))) (sleep_ref a)"
  by (auto simp: sleep_score_of_def sleep_ref_def biological_data_def ref_unfold split: option.splits)

lemma energy_score_of_refines: "py_refines (energy_score_of (PDict (biological_data a))) (energy_ref a)"
  by (auto simp: energy_score_of_def energy_ref_def biological_data_def ref_unfold split: option.splits)

lemma stress_score_of_refines: "py_refines (stress_score_of (PDict (biological_data a))) (stress_ref a)"
  by (auto simp: stress_score_of_def stress_ref_def biological_data_def ref_unfold split: option.splits)

lemma nutrition_score_of_refines: "py_refines (nutrition_score_of (PDict (biological_data a))) (nutrition_ref a)"
  by (auto simp: nutrition_score_of_def nutrition_ref_def biological_data_def ref_unfold split: option.splits)

lemma cognitive_score_of_refines: "py_refines (cognitive_score_of (PDict (mental_data a))) (cognitive_ref a)"
  by (auto simp: cognitive_score_of_def cognitive_ref_def mental_data_def ref_unfold split: option.splits)

lemma emotional_score_of_refines: "py_refines (emotional_score_of (PDict (mental_data a))) (emotional_ref a)"
  by (auto simp: emotional_score_of_def emotional_ref_def mental_data_def ref_unfold split: option.splits)

lemma mindset_score_of_refines: "py_refines (mindset_score_of (PDict (mental_data a))) (mindset_ref a)"
  by (auto simp: mindset_score_of_def mindset_ref_def mental_data_def ref_unfold split: option.splits)

lemma wealth_score_of_refines: "py_refines (wealth_score_of (PDict (financial_data a))) (wealth_ref a)"
  by (auto simp: wealth_score_of_def wealth_ref_def financial_data_def ref_unfold split: option.splits)

lemma stability_score_of_refines: "py_refines (stability_score_of (PDict (financial_data a))) (stability_ref a)"
  by (auto simp: stability_score_of_def stability_ref_def financial_data_def ref_unfold split: option.splits)

lemma investment_score_of_refines:
  "py_refines (investment_score_of (PDict (financial_data a))) (table_value exp_map (investment_experience a))"
  by (auto simp: investment_score_of_def financial_data_def ref_unfold split: option.splits)

lemma money_mindset_score_of_refines:
  "py_refines (money_mindset_score_of (PDict (financial_data a))) (Some (money_mindset_ref a))"
  by (auto simp: money_mindset_score_of_def money_mindset_ref_def financial_data_def ref_unfold)


subsection \<open>The category blocks and the method\<close>

lemmas block_refines = sleep_score_of_refines energy_score_of_refines stress_score_of_refines
  nutrition_score_of_refines cognitive_score_of_refines emotional_score_of_refines
  mindset_score_of_refines wealth_score_of_refines stability_score_of_refines
  investment_score_of_refines money_mindset_score_of_refines

lemma biological_raw_refines:
  assumes "map_of d ''biological'' = Some (PDict (biological_data a))"
  shows "py_refines (biological_raw d) (biological_ref a)"
  unfolding biological_raw_def biological_ref_def py_getitem_dict(1) [OF assms] py_bind_Inr
  by (intro py_refines_rules block_refines; assumption)

lemma mental_raw_refines:
  assumes "map_of d ''mental'' = Some (PDict (mental_data a))"
  shows "py_refines (mental_raw d) (mental_ref a)"
  unfolding mental_raw_def mental_ref_def py_getitem_dict(1) [OF assms] py_bind_Inr
  by (intro py_refines_rules block_refines; assumption)

lemma financial_raw_refines:
  assumes "map_of d ''financial'' = Some (PDict (financial_data a))"
  shows "py_refines (financial_raw d) (financial_ref a)"
proof -
  have fin: "financial_ref a = do {
     w \<leftarrow> wealth_ref a; s \<leftarrow> stability_ref a;
     i \<leftarrow> table_value exp_map (investment_experience a); m \<leftarrow> Some (money_mindset_ref a);
     Some (w * 0.30 + s * 0.25 + i * 0.20 + m * 0.25) }"
    by (simp add: financial_ref_def)
  show ?thesis
    unfolding financial_raw_def py_getitem_dict(1) [OF assms] py_bind_Inr fin
    by (intro py_refines_rules block_refines; assumption)
qed

lemma clamp_score_refines:
  assumes "py_refines m r"
  shows "py_refines (py_bind m clamp_score) (map_option clamp100 r)"
proof (cases r)
  case None
  with assms show ?thesis by (auto simp: py_refines_def)
next
  case (Some x)
  with assms obtain v where m: "m = Inr v" and v: "as_real v = Some x"
    by (auto simp: py_refines_def)
  from py_min_max_real [OF v, of 0 100] show ?thesis
    by (auto simp: Some m py_refines_def clamp_score_def clamp100_def min_def)
qed

lemma overall_of_refines:
  "as_real b = Some x \<Longrightarrow> as_real m = Some y \<Longrightarrow> as_real f = Some z \<Longrightarrow>
   py_refines (overall_of b m f) (Some (x * 0.33 + y * 0.33 + z * 0.34))"
  unfolding overall_of_def by (intro py_refines_rules; assumption)

text \<open>The composition: \<open>calculate_scores\<close> computes the clamped categories and
  their weighted sum whenever the three category blocks compute their numbers,
  and raises the first block's \<open>KeyError\<close> otherwise.\<close>

lemma calculate_scores_compose:
  assumes b: "py_refines (biological_raw d) rb"
      and m: "py_refines (mental_raw d) rm"
      and f: "py_refines (financial_raw d) rf"
  shows "case do { x \<leftarrow> rb; y \<leftarrow> rm; z \<leftarrow> rf; Some (category_scores x y z) } of
           Some cs \<Rightarrow> \<exists>v. calculate_scores d = Inr v \<and> score_view v = Some cs
         | None \<Rightarrow> \<exists>k. calculate_scores d = Inl (KeyError (PStr k))"
proof -
  note cb = clamp_score_refines [OF b] and cm = clamp_score_refines [OF m]
    and cf = clamp_score_refines [OF f]
  show ?thesis
  proof (cases "rb = None \<or> rm = None \<or> rf = None")
    case True
    with cb cm cf show ?thesis
      by (cases rb; cases rm; cases rf) (auto simp: calculate_scores_def py_refines_def)
  next
    case False
    then obtain x y z where rb: "rb = Some x" and rm: "rm = Some y" and rf: "rf = Some z" by auto
    from cb obtain bv
      where bv: "py_bind (biological_raw d) clamp_score = Inr bv" "as_real bv = Some (clamp100 x)"
      by (auto simp: rb py_refines_def)
    from cm obtain mv
      where mv: "py_bind (mental_raw d) clamp_score = Inr mv" "as_real mv = Some (clamp100 y)"
      by (auto simp: rm py_refines_def)
    from cf obtain fv
      where fv: "py_bind (financial_raw d) clamp_score = Inr fv" "as_real fv = Some (clamp100 z)"
      by (auto simp: rf py_refines_def)
    from overall_of_refines [OF bv(2) mv(2) fv(2)] obtain ov
      where ov: "overall_of bv mv fv = Inr ov"
                "as_real ov = Some (clamp100 x * 0.33 + clamp100 y * 0.33 + clamp100 z * 0.34)"
      by (auto simp: py_refines_def)
    show ?thesis
      using bv mv fv ov
      by (simp add: rb rm rf calculate_scores_def score_view_def category_scores_def)
  qed
qed

end
