(* ===== verification/Score_Props.thy ===== *)
theory Score_Props
  imports Score_Spec
begin

text \<open>
  Properties of the scoring engine (\<open>Scoring\<close>): the lookup tables against
  the option lists of the forms, the range of every score, the overall score
  as the fixed weighting of the categories, the errors of incomplete or
  out-of-domain answers, and the behaviour of the wake-refreshed answer.
\<close>

subsection \<open>The type of a category score\<close>

text \<open>A category score after the clamp: a float strictly inside (0, 100), or
  the int bound the clamp returned.\<close>

fun clamped_value :: "pyval \<Rightarrow> bool" where
  "clamped_value (PInt i) = (i = 0 \<or> i = 100)"
| "clamped_value (PFloat r) = (0 < r \<and> r < 100)"
| "clamped_value _ = False"

text \<open>A value that is a number in [0, 100].\<close>

definition pct_value :: "pyval \<Rightarrow> bool" where
  "pct_value v \<longleftrightarrow> (case as_real v of Some r \<Rightarrow> pct r | None \<Rightarrow> False)"

subsection \<open>Lookup tables against the widget options\<close>

definition table_bounded :: "(string \<times> int) list \<Rightarrow> bool" where
  "table_bounded tbl \<longleftrightarrow> (\<forall>(k, n) \<in> set tbl. 0 \<le> n \<and> n \<le> 100)"

text \<open>The option list of a question is exactly the key set of the table its
  answer is looked up in, and the table's contributions are percentages.\<close>

definition answers_table :: "string list \<Rightarrow> (string \<times> int) list \<Rightarrow> bool" where
  "answers_table opts tbl \<longleftrightarrow> set opts = fst ` set tbl \<and> table_bounded tbl"

lemma table_value_answer:
  assumes "answers_table opts tbl" and "s \<in> set opts"
  shows "\<exists>x. table_value tbl s = Some x \<and> pct x"
proof -
  from assms obtain n0 where "(s, n0) \<in> set tbl" by (auto simp: answers_table_def)
  then obtain n where n: "map_of tbl s = Some n" by (auto dest: weak_map_of_SomeI)
  then have "(s, n) \<in> set tbl" by (rule map_of_SomeD)
  with assms(1) have "0 \<le> n \<and> n \<le> 100" by (auto simp: answers_table_def table_bounded_def)
  with n show ?thesis by (simp add: table_value_def pct_def)
qed

lemma answer_tables:
  "answers_table rating_options quality_map"
  "answers_table energy_crashes_options crash_map"
  "answers_table recovery_time_options recovery_map"
  "answers_table hydration_options hydration_map"
  "answers_table exercise_frequency_options exercise_map"
  "answers_table focus_duration_options focus_map"
  "answers_table growth_mindset_options growth_map"
  "answers_table income_range_options income_map"
  "answers_table savings_rate_options savings_map"
  "answers_table debt_situation_options debt_map"
  "answers_table emergency_fund_options emergency_map"
  "answers_table investment_experience_options exp_map"
  by (simp_all add: answers_table_def table_bounded_def answer_options score_tables)

lemma wake_value_pct: "pct (wake_value s)"
  by (auto simp: wake_value_def quality_map_def pct_def split: option.splits dest!: map_of_SomeD)

subsection \<open>The reference scores of answers the widgets can produce\<close>

lemma biological_ref_pct:
  assumes ok: "biological_widgets_ok a"
  shows "\<exists>x. biological_ref a = Some x \<and> pct x"
proof -
  from ok have m: "sleep_quality a \<in> set rating_options" "energy_crashes a \<in> set energy_crashes_options"
    "stress_management a \<in> set rating_options" "recovery_time a \<in> set recovery_time_options"
    "nutrition_quality a \<in> set rating_options" "hydration a \<in> set hydration_options"
    "exercise_frequency a \<in> set exercise_frequency_options"
    by (simp_all add: biological_widgets_ok_def)
  obtain q1 where q1: "table_value quality_map (sleep_quality a) = Some q1" "pct q1"
    using table_value_answer [OF answer_tables(1) m(1)] by blast
  obtain c where c: "table_value crash_map (energy_crashes a) = Some c" "pct c"
    using table_value_answer [OF answer_tables(2) m(2)] by blast
  obtain r1 where r1: "table_value quality_map (stress_management a) = Some r1" "pct r1"
    using table_value_answer [OF answer_tables(1) m(3)] by blast
  obtain r2 where r2: "table_value recovery_map (recovery_time a) = Some r2" "pct r2"
    using table_value_answer [OF answer_tables(3) m(4)] by blast
  obtain q2 where q2: "table_value quality_map (nutrition_quality a) = Some q2" "pct q2"
    using table_value_answer [OF answer_tables(1) m(5)] by blast
  obtain h where h: "table_value hydration_map (hydration a) = Some h" "pct h"
    using table_value_answer [OF answer_tables(4) m(6)] by blast
  obtain e where e: "table_value exercise_map (exercise_frequency a) = Some e" "pct e"
    using table_value_answer [OF answer_tables(5) m(7)] by blast
  from ok have sl: "4 \<le> sleep_hours a" "sleep_hours a \<le> 12"
    "0 \<le> energy_morning a + energy_afternoon a + energy_evening a"
    "energy_morning a + energy_afternoon a + energy_evening a \<le> 30"
    "0 \<le> stress_level a" "stress_level a \<le> 10"
    by (auto simp: biological_widgets_ok_def slider_ok_def)
  let ?S = "((of_int (sleep_hours a) - 4) / 8 * 100 + q1 + wake_value (wake_refreshed a)) / 3"
  let ?E = "(of_int (energy_morning a + energy_afternoon a + energy_evening a) / 3 * 10 + c) / 2"
  let ?T = "((10 - of_int (stress_level a)) * 10 + r1 + r2) / 3"
  let ?N = "(q2 + h + e) / 3"
  have "pct ?S" using sl q1 by (intro pct_avg3 pct_hours wake_value_pct) auto
  moreover have "pct ?E" using sl c by (intro pct_avg2 pct_mean3_times_10) auto
  moreover have "pct ?T" using sl r1 r2 by (intro pct_avg3 pct_inverted_10) auto
  moreover have "pct ?N" using q2 h e by (intro pct_avg3) auto
  ultimately have "pct (?S * 0.25 + ?E * 0.25 + ?T * 0.20 + ?N * 0.30)"
    by (rule pct_weights_4)
  moreover have "biological_ref a = Some (?S * 0.25 + ?E * 0.25 + ?T * 0.20 + ?N * 0.30)"
    by (simp add: biological_ref_def sleep_ref_def energy_ref_def stress_ref_def nutrition_ref_def
        q1 c r1 r2 q2 h e)
  ultimately show ?thesis by blast
qed

lemma mental_ref_pct:
  assumes ok: "mental_widgets_ok a"
  shows "\<exists>x. mental_ref a = Some x \<and> pct x"
proof -
  from ok have m: "focus_duration a \<in> set focus_duration_options" "decision_making a \<in> set rating_options"
    "memory_performance a \<in> set rating_options" "emotional_regulation a \<in> set rating_options"
    "growth_mindset a \<in> set growth_mindset_options" "resilience a \<in> set rating_options"
    by (simp_all add: mental_widgets_ok_def)
  obtain f where f: "table_value focus_map (focus_duration a) = Some f" "pct f"
    using table_value_answer [OF answer_tables(6) m(1)] by blast
  obtain d where d: "table_value quality_map (decision_making a) = Some d" "pct d"
    using table_value_answer [OF answer_tables(1) m(2)] by blast
  obtain y where y: "table_value quality_map (memory_performance a) = Some y" "pct y"
    using table_value_answer [OF answer_tables(1) m(3)] by blast
  obtain r where r: "table_value quality_map (emotional_regulation a) = Some r" "pct r"
    using table_value_answer [OF answer_tables(1) m(4)] by blast
  obtain g where g: "table_value growth_map (growth_mindset a) = Some g" "pct g"
    using table_value_answer [OF answer_tables(7) m(5)] by blast
  obtain r' where r': "table_value quality_map (resilience a) = Some r'" "pct r'"
    using table_value_answer [OF answer_tables(1) m(6)] by blast
  from ok have sl: "0 \<le> mental_clarity a" "mental_clarity a \<le> 10"
    "0 \<le> emotional_awareness a + social_skills a + empathy_level a"
    "emotional_awareness a + social_skills a + empathy_level a \<le> 30"
    "0 \<le> self_confidence a" "self_confidence a \<le> 10"
    by (auto simp: mental_widgets_ok_def slider_ok_def)
  let ?C = "(f + of_int (mental_clarity a) * 10 + d + y) / 4"
  let ?E = "(of_int (emotional_awareness a + social_skills a + empathy_level a) / 3 * 10 + r) / 2"
  let ?M = "(g + of_int (self_confidence a) * 10 + r') / 3"
  have "pct ?C" using sl f d y by (intro pct_avg4 pct_times_10) auto
  moreover have "pct ?E" using sl r by (intro pct_avg2 pct_mean3_times_10) auto
  moreover have "pct ?M" using sl g r' by (intro pct_avg3 pct_times_10) auto
  ultimately have "pct (?C * 0.30 + ?E * 0.35 + ?M * 0.35)"
    by (rule pct_weights_3)
  moreover have "mental_ref a = Some (?C * 0.30 + ?E * 0.35 + ?M * 0.35)"
    by (simp add: mental_ref_def cognitive_ref_def emotional_ref_def mindset_ref_def f d y r g r')
  ultimately show ?thesis by blast
qed

lemma financial_ref_pct:
  assumes ok: "financial_widgets_ok a"
  shows "\<exists>x. financial_ref a = Some x \<and> pct x"
proof -
  from ok have m: "income_range a \<in> set income_range_options" "savings_rate a \<in> set savings_rate_options"
    "debt_situation a \<in> set debt_situation_options" "emergency_fund a \<in> set emergency_fund_options"
    "investment_experience a \<in> set investment_experience_options"
    by (simp_all add: financial_widgets_ok_def)
  obtain i where i: "table_value income_map (income_range a) = Some i" "pct i"
    using table_value_answer [OF answer_tables(8) m(1)] by blast
  obtain s where s: "table_value savings_map (savings_rate a) = Some s" "pct s"
    using table_value_answer [OF answer_tables(9) m(2)] by blast
  obtain d where d: "table_value debt_map (debt_situation a) = Some d" "pct d"
    using table_value_answer [OF answer_tables(10) m(3)] by blast
  obtain e where e: "table_value emergency_map (emergency_fund a) = Some e" "pct e"
    using table_value_answer [OF answer_tables(11) m(4)] by blast
  obtain x where x: "table_value exp_map (investment_experience a) = Some x" "pct x"
    using table_value_answer [OF answer_tables(12) m(5)] by blast
  from ok have sl: "0 \<le> money_stress a" "money_stress a \<le> 10"
    "0 \<le> money_confidence a" "money_confidence a \<le> 10"
    by (auto simp: financial_widgets_ok_def slider_ok_def)
  have "pct (money_mindset_ref a)"
    unfolding money_mindset_ref_def using sl by (intro pct_avg2 pct_inverted_10 pct_times_10) auto
  moreover have "pct ((i + s) / 2)" and "pct ((d + e) / 2)"
    using i s d e by (auto intro: pct_avg2)
  ultimately have "pct ((i + s) / 2 * 0.30 + (d + e) / 2 * 0.25 + x * 0.20 + money_mindset_ref a * 0.25)"
    using x by (intro pct_weights_fin) auto
  moreover have "financial_ref a = Some ((i + s) / 2 * 0.30 + (d + e) / 2 * 0.25 + x * 0.20 + money_mindset_ref a * 0.25)"
    by (simp add: financial_ref_def wealth_ref_def stability_ref_def i s d e x)
  ultimately show ?thesis by blast
qed

lemma table_found:
  assumes "answers_table opts tbl" and "s \<in> set opts"
  shows "\<exists>n. map_of tbl s = Some n"
  using table_value_answer [OF assms] by (auto simp: table_value_def)

lemma clamp100_pct: "pct x \<Longrightarrow> clamp100 x = x"
  by (simp add: pct_def clamp100_def)

subsection \<open>Every returned score dict\<close>

lemma clamp_score_Inr: "clamp_score x = Inr v \<Longrightarrow> \<exists>r. as_real v = Some r \<and> pct r"
  by (cases x) (auto simp: clamp_score_def py_max2_def py_min2_def pct_def split: if_splits)

lemma calculate_scores_Inr:
  assumes "calculate_scores d = Inr v"
  obtains x y z where
    "score_view v = Some \<lparr>cs_biological = x, cs_mental = y, cs_financial = z,
                          cs_overall = x * 0.33 + y * 0.33 + z * 0.34\<rparr>"
    and "pct x" and "pct y" and "pct z"
proof -
  from assms obtain bv mv fv ov where
    b: "py_bind (biological_raw d) clamp_score = Inr bv" and
    m: "py_bind (mental_raw d) clamp_score = Inr mv" and
    f: "py_bind (financial_raw d) clamp_score = Inr fv" and
    o: "overall_of bv mv fv = Inr ov" and
    v: "v = PDict (AList.update ''overall'' ov (AList.update ''financial'' fv
            (AList.update ''mental'' mv (AList.update ''biological'' bv []))))"
    by (auto simp: calculate_scores_def py_bind_eq_Inr)
  from b obtain x where x: "as_real bv = Some x" "pct x"
    by (auto simp: py_bind_eq_Inr dest: clamp_score_Inr)
  from m obtain y where y: "as_real mv = Some y" "pct y"
    by (auto simp: py_bind_eq_Inr dest: clamp_score_Inr)
  from f obtain z where z: "as_real fv = Some z" "pct z"
    by (auto simp: py_bind_eq_Inr dest: clamp_score_Inr)
  from overall_of_refines [OF x(1) y(1) z(1)] o
  have "as_real ov = Some (x * 0.33 + y * 0.33 + z * 0.34)"
    by (simp add: py_refines_def)
  with x y z v show ?thesis
    by (intro that [of x y z]) (simp_all add: score_view_def)
qed

text \<open>The answers of the three untouched forms, stored as the handlers store them.\<close>

definition untouched_assessment :: pydict where
  "untouched_assessment =
     [(''biological'', PDict (biological_data untouched_biological)),
      (''mental'', PDict (mental_data untouched_mental)),
      (''financial'', PDict (financial_data untouched_financial))]"

lemma untouched_assessment_scores:
  "calculate_scores untouched_assessment =
     Inr (PDict [(''biological'', PFloat (705 / 24)), (''mental'', PFloat (185 / 4)),
                 (''financial'', PFloat 36), (''overall'', PFloat (29757 / 800))])"
  by (simp add: untouched_assessment_def calculate_scores_def biological_raw_def mental_raw_def
      financial_raw_def sleep_score_of_def energy_score_of_def stress_score_of_def nutrition_score_of_def
      cognitive_score_of_def emotional_score_of_def mindset_score_of_def wealth_score_of_def
      stability_score_of_def investment_score_of_def money_mindset_score_of_def overall_of_def
      clamp_score_def py_max2_def py_min2_def e_defs biological_data_def mental_data_def
      financial_data_def untouched_answers answer_options score_tables str_list_def
      business_revenue_value_def)

text \<open>C2: whenever \<open>calculate_scores\<close> returns, for any contents of
  \<open>assessment_data\<close>, its dict holds the four scores and each of them lies in
  [0, 100].\<close>

theorem calculate_scores_in_range:
  assumes "calculate_scores d = Inr v"
  shows "\<exists>cs. score_view v = Some cs \<and> pct (cs_biological cs) \<and> pct (cs_mental cs)
             \<and> pct (cs_financial cs) \<and> pct (cs_overall cs)"
proof (rule calculate_scores_Inr [OF assms])
  fix x y z
  assume sv: "score_view v = Some \<lparr>cs_biological = x, cs_mental = y, cs_financial = z,
                                    cs_overall = x * 0.33 + y * 0.33 + z * 0.34\<rparr>"
    and p: "pct x" "pct y" "pct z"
  from p have "pct (x * 0.33 + y * 0.33 + z * 0.34)" by (rule pct_weights_overall)
  with sv p show ?thesis by auto
qed

theorem calculate_scores_in_range_witness:
  "calculate_scores untouched_assessment = Inr (PDict [(''biological'', PFloat (705 / 24)),
     (''mental'', PFloat (185 / 4)), (''financial'', PFloat 36), (''overall'', PFloat (29757 / 800))])
   \<and> (\<exists>cs. score_view (PDict [(''biological'', PFloat (705 / 24)), (''mental'', PFloat (185 / 4)),
           (''financial'', PFloat 36), (''overall'', PFloat (29757 / 800))]) = Some cs
         \<and> pct (cs_biological cs) \<and> pct (cs_mental cs) \<and> pct (cs_financial cs) \<and> pct (cs_overall cs))"
  using calculate_scores_in_range [OF untouched_assessment_scores] untouched_assessment_scores
  by simp

text \<open>C3: the overall score of every returned dict is exactly
  0.33 biological + 0.33 mental + 0.34 financial of the (clamped) category
  scores of the same dict.\<close>

theorem calculate_scores_overall:
  assumes "calculate_scores d = Inr v"
  shows "\<exists>b m f. score_view v = Some \<lparr>cs_biological = b, cs_mental = m, cs_financial = f,
                                       cs_overall = b * 0.33 + m * 0.33 + f * 0.34\<rparr>"
  using assms by (rule calculate_scores_Inr) blast

theorem calculate_scores_overall_witness:
  "calculate_scores untouched_assessment = Inr (PDict [(''biological'', PFloat (705 / 24)),
     (''mental'', PFloat (185 / 4)), (''financial'', PFloat 36), (''overall'', PFloat (29757 / 800))])
   \<and> (\<exists>b m f. score_view (PDict [(''biological'', PFloat (705 / 24)), (''mental'', PFloat (185 / 4)),
           (''financial'', PFloat 36), (''overall'', PFloat (29757 / 800))])
         = Some \<lparr>cs_biological = b, cs_mental = m, cs_financial = f, cs_overall = b * 0.33 + m * 0.33 + f * 0.34\<rparr>)"
  using calculate_scores_overall [OF untouched_assessment_scores] untouched_assessment_scores
  by simp

subsection \<open>The scores of the answers the forms store\<close>

text \<open>C1: on the dicts the three form handlers store, \<open>calculate_scores\<close>
  computes exactly the scores of the algorithm of spec section 4.1 (clamped
  categories and their 0.33/0.33/0.34 weighting, over exact reals), and it
  raises a \<open>KeyError\<close> for a string exactly when an answer is missing from its
  lookup table.\<close>

theorem calculate_scores_refines:
  assumes "map_of d ''biological'' = Some (PDict (biological_data ba))"
      and "map_of d ''mental'' = Some (PDict (mental_data ma))"
      and "map_of d ''financial'' = Some (PDict (financial_data fa))"
  shows "case score_ref ba ma fa of
           Some cs \<Rightarrow> \<exists>v. calculate_scores d = Inr v \<and> score_view v = Some cs
         | None \<Rightarrow> \<exists>k. calculate_scores d = Inl (KeyError (PStr k))"
  using calculate_scores_compose [OF biological_raw_refines [OF assms(1)]
      mental_raw_refines [OF assms(2)] financial_raw_refines [OF assms(3)]]
  by (simp add: score_ref_def)

lemma untouched_score_ref:
  "score_ref untouched_biological untouched_mental untouched_financial
     = Some (category_scores (705 / 24) (185 / 4) 36)"
  by (simp add: score_ref_def biological_ref_def sleep_ref_def energy_ref_def stress_ref_def
      nutrition_ref_def mental_ref_def cognitive_ref_def emotional_ref_def mindset_ref_def
      financial_ref_def wealth_ref_def stability_ref_def money_mindset_ref_def table_value_def
      wake_value_def untouched_answers answer_options score_tables)

lemma untouched_assessment_stored:
  "map_of untouched_assessment ''biological'' = Some (PDict (biological_data untouched_biological))"
  "map_of untouched_assessment ''mental'' = Some (PDict (mental_data untouched_mental))"
  "map_of untouched_assessment ''financial'' = Some (PDict (financial_data untouched_financial))"
  by (simp_all add: untouched_assessment_def)

theorem calculate_scores_refines_witness:
  "map_of untouched_assessment ''biological'' = Some (PDict (biological_data untouched_biological))
   \<and> map_of untouched_assessment ''mental'' = Some (PDict (mental_data untouched_mental))
   \<and> map_of untouched_assessment ''financial'' = Some (PDict (financial_data untouched_financial))
   \<and> (\<exists>v. calculate_scores untouched_assessment = Inr v
          \<and> score_view v = Some (category_scores (705 / 24) (185 / 4) 36))"
  using calculate_scores_refines [OF untouched_assessment_stored] untouched_score_ref
    untouched_assessment_stored
  by simp

text \<open>C4: for answers the widgets can produce, \<open>calculate_scores\<close> returns;
  every category score before the clamp already lies in [0, 100], so the
  clamp never changes it, and the dict holds the unclamped category scores of
  the reference and their weighted sum.\<close>

theorem valid_answers_scored:
  assumes "biological_widgets_ok ba" "mental_widgets_ok ma" "financial_widgets_ok fa"
      and "map_of d ''biological'' = Some (PDict (biological_data ba))"
      and "map_of d ''mental'' = Some (PDict (mental_data ma))"
      and "map_of d ''financial'' = Some (PDict (financial_data fa))"
  shows "\<exists>v x y z. calculate_scores d = Inr v
           \<and> biological_ref ba = Some x \<and> mental_ref ma = Some y \<and> financial_ref fa = Some z
           \<and> pct x \<and> pct y \<and> pct z
           \<and> score_view v = Some \<lparr>cs_biological = x, cs_mental = y, cs_financial = z,
                                   cs_overall = x * 0.33 + y * 0.33 + z * 0.34\<rparr>"
proof -
  obtain x y z where x: "biological_ref ba = Some x" "pct x" and y: "mental_ref ma = Some y" "pct y"
      and z: "financial_ref fa = Some z" "pct z"
    using biological_ref_pct [OF assms(1)] mental_ref_pct [OF assms(2)] financial_ref_pct [OF assms(3)]
    by blast
  from calculate_scores_compose [OF biological_raw_refines [OF assms(4)]
      mental_raw_refines [OF assms(5)] financial_raw_refines [OF assms(6)]] x y z
  obtain v where "calculate_scores d = Inr v" "score_view v = Some (category_scores x y z)"
    by auto
  with x y z show ?thesis
    by (auto simp: category_scores_def clamp100_pct)
qed

lemma untouched_widgets_ok:
  "biological_widgets_ok untouched_biological" "mental_widgets_ok untouched_mental"
  "financial_widgets_ok untouched_financial"
  by (simp_all add: biological_widgets_ok_def mental_widgets_ok_def financial_widgets_ok_def
      slider_ok_def multiselect_ok_def untouched_answers answer_options)

theorem valid_answers_scored_witness:
  "biological_widgets_ok untouched_biological \<and> mental_widgets_ok untouched_mental
   \<and> financial_widgets_ok untouched_financial
   \<and> (\<exists>v x y z. calculate_scores untouched_assessment = Inr v
        \<and> biological_ref untouched_biological = Some x \<and> mental_ref untouched_mental = Some y
        \<and> financial_ref untouched_financial = Some z \<and> pct x \<and> pct y \<and> pct z
        \<and> score_view v = Some \<lparr>cs_biological = x, cs_mental = y, cs_financial = z,
                                cs_overall = x * 0.33 + y * 0.33 + z * 0.34\<rparr>)"
  using valid_answers_scored [OF untouched_widgets_ok untouched_assessment_stored] untouched_widgets_ok
  by blast

subsection \<open>The wake-refreshed answer\<close>

lemma wake_options_not_keys: "w \<in> set wake_refreshed_options \<Longrightarrow> map_of quality_map w = None"
  by (auto simp: wake_refreshed_options_def quality_map_def)

lemma sleep_score_of_wake:
  assumes "w \<in> set wake_refreshed_options" "wake_refreshed a \<in> set wake_refreshed_options"
  shows "sleep_score_of (PDict (biological_data (a\<lparr>wake_refreshed := w\<rparr>)))
           = sleep_score_of (PDict (biological_data a))"
  using wake_options_not_keys [OF assms(1)] wake_options_not_keys [OF assms(2)]
  by (simp add: sleep_score_of_def biological_data_def e_defs)

lemma biological_raw_wake:
  assumes "w \<in> set wake_refreshed_options" "wake_refreshed a \<in> set wake_refreshed_options"
      and "map_of d' ''biological'' = Some (PDict (biological_data (a\<lparr>wake_refreshed := w\<rparr>)))"
      and "map_of d ''biological'' = Some (PDict (biological_data a))"
  shows "biological_raw d' = biological_raw d"
proof -
  let ?a' = "a\<lparr>wake_refreshed := w\<rparr>"
  have "energy_score_of (PDict (biological_data ?a')) = energy_score_of (PDict (biological_data a))"
    "stress_score_of (PDict (biological_data ?a')) = stress_score_of (PDict (biological_data a))"
    "nutrition_score_of (PDict (biological_data ?a')) = nutrition_score_of (PDict (biological_data a))"
    by (simp_all add: energy_score_of_def stress_score_of_def nutrition_score_of_def biological_data_def e_defs)
  with sleep_score_of_wake [OF assms(1,2)] assms(3,4) show ?thesis
    by (simp add: biological_raw_def)
qed

lemma calculate_scores_cong:
  assumes "biological_raw d' = biological_raw d"
      and "map_of d' ''mental'' = map_of d ''mental''" "map_of d' ''financial'' = map_of d ''financial''"
  shows "calculate_scores d' = calculate_scores d"
proof -
  have "mental_raw d' = mental_raw d" "financial_raw d' = financial_raw d"
    using assms(2,3) by (simp_all add: mental_raw_def financial_raw_def)
  with assms(1) show ?thesis by (simp add: calculate_scores_def)
qed

text \<open>C5: the wake-refreshed answer is looked up in \<open>quality_map\<close>, whose keys
  are the five-point rating, but its widget offers Never/Rarely/Sometimes/Often/
  Always: no option is a key, so \<open>.get(_, 50)\<close> always yields 50 and the answer
  never changes any score.\<close>

theorem wake_refreshed_ignored:
  assumes "w \<in> set wake_refreshed_options" "wake_refreshed a \<in> set wake_refreshed_options"
  shows "calculate_scores (AList.update ''biological'' (PDict (biological_data (a\<lparr>wake_refreshed := w\<rparr>))) d)
           = calculate_scores (AList.update ''biological'' (PDict (biological_data a)) d)"
  using assms
  by (intro calculate_scores_cong biological_raw_wake) (simp_all add: update_conv')

theorem wake_refreshed_ignored_witness:
  "''Always'' \<in> set wake_refreshed_options \<and> wake_refreshed untouched_biological \<in> set wake_refreshed_options
   \<and> calculate_scores (AList.update ''biological''
        (PDict (biological_data (untouched_biological\<lparr>wake_refreshed := ''Always''\<rparr>))) untouched_assessment)
     = calculate_scores (AList.update ''biological'' (PDict (biological_data untouched_biological)) untouched_assessment)"
proof -
  have "''Always'' \<in> set wake_refreshed_options" "wake_refreshed untouched_biological \<in> set wake_refreshed_options"
    by (simp_all add: wake_refreshed_options_def untouched_biological_def)
  with wake_refreshed_ignored [OF this, of untouched_assessment] show ?thesis by blast
qed

subsection \<open>Errors\<close>

text \<open>C6: when \<open>assessment_data\<close> has no \<open>'biological'\<close> entry,
  \<open>calculate_scores\<close> raises \<open>KeyError('biological')\<close> before computing anything.\<close>

theorem missing_category_key_error:
  "map_of d ''biological'' = None \<Longrightarrow> calculate_scores d = Inl (KeyError (PStr ''biological''))"
  by (simp add: calculate_scores_def biological_raw_def)

theorem missing_category_key_error_witness:
  "map_of [(''mental'', PDict (mental_data untouched_mental))] ''biological'' = None
   \<and> calculate_scores [(''mental'', PDict (mental_data untouched_mental))] = Inl (KeyError (PStr ''biological''))"
  using missing_category_key_error [of "[(''mental'', PDict (mental_data untouched_mental))]"] by simp

text \<open>C7: a biological answer dict that the form would store but for one
  missing key makes \<open>calculate_scores\<close> raise \<open>KeyError\<close> naming exactly that
  key, whichever of the thirteen keys it is: every key read before it is
  present and every lookup before it succeeds.\<close>

theorem missing_biological_field:
  assumes ok: "biological_widgets_ok a" and k: "k \<in> fst ` set (biological_data a)"
    and d: "map_of d ''biological'' = Some (PDict (AList.delete k (biological_data a)))"
  shows "calculate_scores d = Inl (KeyError (PStr k))"
proof -
  from ok have m: "sleep_quality a \<in> set rating_options" "energy_crashes a \<in> set energy_crashes_options"
    "stress_management a \<in> set rating_options" "recovery_time a \<in> set recovery_time_options"
    "nutrition_quality a \<in> set rating_options" "hydration a \<in> set hydration_options"
    by (simp_all add: biological_widgets_ok_def)
  obtain n1 n2 n3 n4 n5 n6 where n: "map_of quality_map (sleep_quality a) = Some n1"
    "map_of crash_map (energy_crashes a) = Some n2" "map_of quality_map (stress_management a) = Some n3"
    "map_of recovery_map (recovery_time a) = Some n4" "map_of quality_map (nutrition_quality a) = Some n5"
    "map_of hydration_map (hydration a) = Some n6"
    using table_found [OF answer_tables(1) m(1)] table_found [OF answer_tables(2) m(2)]
      table_found [OF answer_tables(1) m(3)] table_found [OF answer_tables(3) m(4)]
      table_found [OF answer_tables(1) m(5)] table_found [OF answer_tables(4) m(6)] by blast
  from k have "k = ''sleep_hours'' \<or> k = ''sleep_quality'' \<or> k = ''wake_refreshed'' \<or> k = ''energy_morning''
      \<or> k = ''energy_afternoon'' \<or> k = ''energy_evening'' \<or> k = ''energy_crashes'' \<or> k = ''stress_level''
      \<or> k = ''stress_management'' \<or> k = ''recovery_time'' \<or> k = ''nutrition_quality'' \<or> k = ''hydration''
      \<or> k = ''exercise_frequency''"
    by (simp add: biological_data_def)
  then have "biological_raw d = Inl (KeyError (PStr k))"
    by (elim disjE; simp add: biological_raw_def d py_getitem_delete sleep_score_of_def energy_score_of_def
        stress_score_of_def nutrition_score_of_def e_defs n biological_data_def)
  then show ?thesis by (simp add: calculate_scores_def)
qed

theorem missing_biological_field_witness:
  "biological_widgets_ok untouched_biological
   \<and> ''hydration'' \<in> fst ` set (biological_data untouched_biological)
   \<and> map_of [(''biological'', PDict (AList.delete ''hydration'' (biological_data untouched_biological)))] ''biological''
       = Some (PDict (AList.delete ''hydration'' (biological_data untouched_biological)))
   \<and> calculate_scores [(''biological'', PDict (AList.delete ''hydration'' (biological_data untouched_biological)))]
       = Inl (KeyError (PStr ''hydration''))"
proof -
  have k: "''hydration'' \<in> fst ` set (biological_data untouched_biological)"
    by (simp add: biological_data_def)
  have d: "map_of [(''biological'', PDict (AList.delete ''hydration'' (biological_data untouched_biological)))] ''biological''
       = Some (PDict (AList.delete ''hydration'' (biological_data untouched_biological)))"
    by simp
  show ?thesis
    using missing_biological_field [OF untouched_widgets_ok(1) k d] untouched_widgets_ok(1) k d by blast
qed

text \<open>C8: an out-of-domain categorical answer is not defaulted: a sleep-quality
  answer that is no key of \<open>quality_map\<close> makes \<open>calculate_scores\<close> raise
  \<open>KeyError\<close> of that very answer (the same exception type as a missing key).\<close>

theorem invalid_category_key_error:
  assumes "map_of d ''biological'' = Some (PDict (biological_data a))"
      and "map_of quality_map (sleep_quality a) = None"
  shows "calculate_scores d = Inl (KeyError (PStr (sleep_quality a)))"
  using assms
  by (simp add: calculate_scores_def biological_raw_def sleep_score_of_def biological_data_def e_defs)

theorem invalid_category_key_error_witness:
  "map_of untouched_assessment ''biological'' = Some (PDict (biological_data untouched_biological))
   \<and> map_of quality_map (sleep_quality (untouched_biological\<lparr>sleep_quality := ''Great''\<rparr>)) = None
   \<and> calculate_scores (AList.update ''biological''
        (PDict (biological_data (untouched_biological\<lparr>sleep_quality := ''Great''\<rparr>))) untouched_assessment)
     = Inl (KeyError (PStr ''Great''))"
proof -
  let ?a = "untouched_biological\<lparr>sleep_quality := ''Great''\<rparr>"
  let ?d = "AList.update ''biological'' (PDict (biological_data ?a)) untouched_assessment"
  have "map_of ?d ''biological'' = Some (PDict (biological_data ?a))" by (simp add: update_conv')
  moreover have "map_of quality_map (sleep_quality ?a) = None" by (simp add: quality_map_def)
  ultimately have "calculate_scores ?d = Inl (KeyError (PStr (sleep_quality ?a)))"
    by (rule invalid_category_key_error)
  then show ?thesis
    using untouched_assessment_stored(1) by (simp add: quality_map_def)
qed

subsection \<open>The type of the score dict\<close>

lemma calculate_scores_dict:
  assumes "calculate_scores d = Inr v"
  obtains b m f ov where "v = PDict [(''biological'', b), (''mental'', m), (''financial'', f), (''overall'', ov)]"
    and "py_bind (biological_raw d) clamp_score = Inr b" "py_bind (mental_raw d) clamp_score = Inr m"
    and "py_bind (financial_raw d) clamp_score = Inr f" "overall_of b m f = Inr ov"
proof -
  from assms obtain b m f ov where "py_bind (biological_raw d) clamp_score = Inr b"
    "py_bind (mental_raw d) clamp_score = Inr m" "py_bind (financial_raw d) clamp_score = Inr f"
    "overall_of b m f = Inr ov" and v: "v = PDict (AList.update ''overall'' ov (AList.update ''financial'' f
            (AList.update ''mental'' m (AList.update ''biological'' b []))))"
    by (auto simp: calculate_scores_def py_bind_eq_Inr)
  then show ?thesis by (intro that [of b m f ov]) simp_all
qed

lemma calculate_scores_pct_values:
  assumes "calculate_scores d = Inr v"
  obtains b m f ov where "v = PDict [(''biological'', b), (''mental'', m), (''financial'', f), (''overall'', ov)]"
    and "pct_value b" "pct_value m" "pct_value f" "pct_value ov"
proof (rule calculate_scores_dict [OF assms])
  fix b m f ov
  assume v: "v = PDict [(''biological'', b), (''mental'', m), (''financial'', f), (''overall'', ov)]"
  show ?thesis
  proof (rule calculate_scores_Inr [OF assms])
    fix x y z
    assume "score_view v = Some \<lparr>cs_biological = x, cs_mental = y, cs_financial = z,
                                  cs_overall = x * 0.33 + y * 0.33 + z * 0.34\<rparr>"
      and p: "pct x" "pct y" "pct z"
    with v pct_weights_overall [OF p] show ?thesis
      by (intro that [OF v]) (auto simp: score_view_def pct_value_def bind_eq_Some_conv)
  qed
qed

lemma py_add_float: "py_add a (PFloat y) = Inr w \<Longrightarrow> \<exists>x. w = PFloat x"
  by (cases a) auto

lemma py_mul_float: "py_mul a (PFloat y) = Inr w \<Longrightarrow> \<exists>x. w = PFloat x"
  by (cases a) auto

lemma e_add_mul_float: "e_add m (e_mul n (flit c)) = Inr w \<Longrightarrow> \<exists>x. w = PFloat x"
  by (auto simp: e_defs py_bind_eq_Inr dest: py_add_float py_mul_float)

lemma raw_float:
  "biological_raw d = Inr v \<Longrightarrow> \<exists>x. v = PFloat x"
  "mental_raw d = Inr v \<Longrightarrow> \<exists>x. v = PFloat x"
  "financial_raw d = Inr v \<Longrightarrow> \<exists>x. v = PFloat x"
  by (auto simp: biological_raw_def mental_raw_def financial_raw_def py_bind_eq_Inr dest: e_add_mul_float)

lemma clamp_score_float: "clamp_score (PFloat x) = Inr w \<Longrightarrow> clamped_value w"
  by (auto simp: clamp_score_def py_max2_def py_min2_def split: if_splits)

lemma clamped_raw:
  "py_bind (biological_raw d) clamp_score = Inr w \<Longrightarrow> clamped_value w"
  "py_bind (mental_raw d) clamp_score = Inr w \<Longrightarrow> clamped_value w"
  "py_bind (financial_raw d) clamp_score = Inr w \<Longrightarrow> clamped_value w"
  by (auto simp: py_bind_eq_Inr dest!: raw_float intro: clamp_score_float)

text \<open>C21: every dict \<open>calculate_scores\<close> returns has exactly the keys
  biological, mental, financial and overall, in this order. The overall score is a
  float. Each category score is a float strictly between 0 and 100, or the int
  0 or 100 when the clamp cut it: \<open>max(0, x)\<close> and \<open>min(100, x)\<close> return the
  int literal when it wins.\<close>

theorem calculate_scores_type:
  assumes "calculate_scores d = Inr v"
  shows "\<exists>b m f ov. v = PDict [(''biological'', b), (''mental'', m), (''financial'', f), (''overall'', PFloat ov)]
           \<and> clamped_value b \<and> clamped_value m \<and> clamped_value f"
proof (rule calculate_scores_dict [OF assms])
  fix b m f ov
  assume v: "v = PDict [(''biological'', b), (''mental'', m), (''financial'', f), (''overall'', ov)]"
    and r: "py_bind (biological_raw d) clamp_score = Inr b" "py_bind (mental_raw d) clamp_score = Inr m"
      "py_bind (financial_raw d) clamp_score = Inr f" and o: "overall_of b m f = Inr ov"
  from o obtain x where "ov = PFloat x"
    unfolding overall_of_def by (rule e_add_mul_float [elim_format]) blast
  with v clamped_raw(1) [OF r(1)] clamped_raw(2) [OF r(2)] clamped_raw(3) [OF r(3)] show ?thesis
    by simp
qed

theorem calculate_scores_type_witness:
  "calculate_scores untouched_assessment =
     Inr (PDict [(''biological'', PFloat (705 / 24)), (''mental'', PFloat (185 / 4)),
                 (''financial'', PFloat 36), (''overall'', PFloat (29757 / 800))])
   \<and> (\<exists>b m f ov. PDict [(''biological'', PFloat (705 / 24)), (''mental'', PFloat (185 / 4)),
                 (''financial'', PFloat 36), (''overall'', PFloat (29757 / 800))]
         = PDict [(''biological'', b), (''mental'', m), (''financial'', f), (''overall'', PFloat ov)]
       \<and> clamped_value b \<and> clamped_value m \<and> clamped_value f)"
  using calculate_scores_type [OF untouched_assessment_scores] untouched_assessment_scores by simp

subsection \<open>Missing mental and financial answers\<close>

lemma stored_raw_Inr:
  "biological_widgets_ok a \<Longrightarrow> map_of d ''biological'' = Some (PDict (biological_data a))
   \<Longrightarrow> \<exists>x. py_bind (biological_raw d) clamp_score = Inr x"
  "mental_widgets_ok m \<Longrightarrow> map_of d ''mental'' = Some (PDict (mental_data m))
   \<Longrightarrow> \<exists>x. py_bind (mental_raw d) clamp_score = Inr x"
  using clamp_score_refines [OF biological_raw_refines [of d a]] biological_ref_pct [of a]
    clamp_score_refines [OF mental_raw_refines [of d m]] mental_ref_pct [of m]
  by (auto simp: py_refines_def)

lemma mental_raw_frame:
  assumes "map_of d ''mental'' = Some (PDict (AList.delete ''limiting_beliefs'' md))"
      and "map_of d' ''mental'' = Some (PDict md)"
  shows "mental_raw d = mental_raw d'"
  using assms by (simp add: mental_raw_def cognitive_score_of_def emotional_score_of_def mindset_score_of_def
      e_defs py_getitem_delete)

lemma financial_raw_frame:
  assumes "k \<in> {''investment_portfolio'', ''financial_goals'', ''wealth_beliefs'', ''business_status'',
               ''business_revenue'', ''entrepreneurial_interest''}"
      and "map_of d ''financial'' = Some (PDict (AList.delete k fd))"
      and "map_of d' ''financial'' = Some (PDict fd)"
  shows "financial_raw d = financial_raw d'"
  using assms by (auto simp: financial_raw_def wealth_score_of_def stability_score_of_def investment_score_of_def
      money_mindset_score_of_def e_defs py_getitem_delete)

text \<open>C22: with a valid biological dict stored, a mental answer dict that the
  form would store but for one missing key makes \<open>calculate_scores\<close> raise
  \<open>KeyError\<close> naming that key, for each of the eleven keys the method reads;
  the twelfth, \<open>limiting_beliefs\<close>, is never read, and its absence changes
  nothing.\<close>

theorem missing_mental_field:
  assumes bo: "biological_widgets_ok ba" and bd: "map_of d ''biological'' = Some (PDict (biological_data ba))"
    and ok: "mental_widgets_ok a" and k: "k \<in> fst ` set (mental_data a)"
    and d: "map_of d ''mental'' = Some (PDict (AList.delete k (mental_data a)))"
  shows "calculate_scores d = (if k = ''limiting_beliefs''
           then calculate_scores (AList.update ''mental'' (PDict (mental_data a)) d)
           else Inl (KeyError (PStr k)))"
proof -
  obtain x where x: "py_bind (biological_raw d) clamp_score = Inr x" using stored_raw_Inr(1) [OF bo bd] by blast
  from ok have m: "focus_duration a \<in> set focus_duration_options" "decision_making a \<in> set rating_options"
    "memory_performance a \<in> set rating_options" "emotional_regulation a \<in> set rating_options"
    "growth_mindset a \<in> set growth_mindset_options" "resilience a \<in> set rating_options"
    by (simp_all add: mental_widgets_ok_def)
  obtain n1 n2 n3 n4 n5 n6 where n: "map_of focus_map (focus_duration a) = Some n1"
    "map_of quality_map (decision_making a) = Some n2" "map_of quality_map (memory_performance a) = Some n3"
    "map_of quality_map (emotional_regulation a) = Some n4" "map_of growth_map (growth_mindset a) = Some n5"
    "map_of quality_map (resilience a) = Some n6"
    using table_found [OF answer_tables(6) m(1)] table_found [OF answer_tables(1) m(2)]
      table_found [OF answer_tables(1) m(3)] table_found [OF answer_tables(1) m(4)]
      table_found [OF answer_tables(7) m(5)] table_found [OF answer_tables(1) m(6)] by blast
  show ?thesis
  proof (cases "k = ''limiting_beliefs''")
    case True
    let ?d' = "AList.update ''mental'' (PDict (mental_data a)) d"
    have "mental_raw d = mental_raw ?d'"
      by (rule mental_raw_frame) (use d True in \<open>simp_all add: update_conv'\<close>)
    moreover have "biological_raw ?d' = biological_raw d" "financial_raw ?d' = financial_raw d"
      by (simp_all add: biological_raw_def financial_raw_def update_conv')
    ultimately show ?thesis using True by (simp add: calculate_scores_def)
  next
    case False
    from k False have "k = ''focus_duration'' \<or> k = ''mental_clarity'' \<or> k = ''decision_making''
        \<or> k = ''memory_performance'' \<or> k = ''emotional_awareness'' \<or> k = ''emotional_regulation''
        \<or> k = ''social_skills'' \<or> k = ''empathy_level'' \<or> k = ''growth_mindset'' \<or> k = ''self_confidence''
        \<or> k = ''resilience''"
      by (simp add: mental_data_def)
    then have "mental_raw d = Inl (KeyError (PStr k))"
      by (elim disjE; simp add: mental_raw_def d py_getitem_delete cognitive_score_of_def emotional_score_of_def
          mindset_score_of_def e_defs n mental_data_def)
    with x False show ?thesis by (simp add: calculate_scores_def)
  qed
qed

theorem missing_mental_field_witness:
  "calculate_scores [(''biological'', PDict (biological_data untouched_biological)),
                     (''mental'', PDict (AList.delete ''resilience'' (mental_data untouched_mental)))]
   = Inl (KeyError (PStr ''resilience''))"
proof -
  have k: "''resilience'' \<in> fst ` set (mental_data untouched_mental)" by (simp add: mental_data_def)
  show ?thesis
    using missing_mental_field [OF untouched_widgets_ok(1) _ untouched_widgets_ok(2) k,
        of "[(''biological'', PDict (biological_data untouched_biological)),
             (''mental'', PDict (AList.delete ''resilience'' (mental_data untouched_mental)))]"]
    by simp
qed

text \<open>C23: with valid biological and mental dicts stored, a financial answer
  dict missing one key makes \<open>calculate_scores\<close> raise \<open>KeyError\<close> naming it
  for each of the seven keys the method reads; the other six answers
  (portfolio, goals, wealth beliefs, business status and revenue,
  entrepreneurial interest) are never read, and their absence changes
  nothing.\<close>

theorem missing_financial_field:
  assumes bo: "biological_widgets_ok ba" and bd: "map_of d ''biological'' = Some (PDict (biological_data ba))"
    and mo: "mental_widgets_ok ma" and md: "map_of d ''mental'' = Some (PDict (mental_data ma))"
    and ok: "financial_widgets_ok a" and k: "k \<in> fst ` set (financial_data a)"
    and d: "map_of d ''financial'' = Some (PDict (AList.delete k (financial_data a)))"
  shows "calculate_scores d = (if k \<in> {''investment_portfolio'', ''financial_goals'', ''wealth_beliefs'',
               ''business_status'', ''business_revenue'', ''entrepreneurial_interest''}
           then calculate_scores (AList.update ''financial'' (PDict (financial_data a)) d)
           else Inl (KeyError (PStr k)))"
proof -
  obtain x where x: "py_bind (biological_raw d) clamp_score = Inr x" using stored_raw_Inr(1) [OF bo bd] by blast
  obtain y where y: "py_bind (mental_raw d) clamp_score = Inr y" using stored_raw_Inr(2) [OF mo md] by blast
  from ok have m: "income_range a \<in> set income_range_options" "savings_rate a \<in> set savings_rate_options"
    "debt_situation a \<in> set debt_situation_options" "emergency_fund a \<in> set emergency_fund_options"
    "investment_experience a \<in> set investment_experience_options"
    by (simp_all add: financial_widgets_ok_def)
  obtain n1 n2 n3 n4 n5 where n: "map_of income_map (income_range a) = Some n1"
    "map_of savings_map (savings_rate a) = Some n2" "map_of debt_map (debt_situation a) = Some n3"
    "map_of emergency_map (emergency_fund a) = Some n4" "map_of exp_map (investment_experience a) = Some n5"
    using table_found [OF answer_tables(8) m(1)] table_found [OF answer_tables(9) m(2)]
      table_found [OF answer_tables(10) m(3)] table_found [OF answer_tables(11) m(4)]
      table_found [OF answer_tables(12) m(5)] by blast
  show ?thesis
  proof (cases "k \<in> {''investment_portfolio'', ''financial_goals'', ''wealth_beliefs'', ''business_status'',
                       ''business_revenue'', ''entrepreneurial_interest''}")
    case True
    let ?d' = "AList.update ''financial'' (PDict (financial_data a)) d"
    have "financial_raw d = financial_raw ?d'"
      by (rule financial_raw_frame [OF True d]) (simp add: update_conv')
    moreover have "biological_raw ?d' = biological_raw d" "mental_raw ?d' = mental_raw d"
      by (simp_all add: biological_raw_def mental_raw_def update_conv')
    ultimately show ?thesis using True by (simp add: calculate_scores_def)
  next
    case False
    from k False have "k = ''income_range'' \<or> k = ''savings_rate'' \<or> k = ''debt_situation''
        \<or> k = ''emergency_fund'' \<or> k = ''investment_experience'' \<or> k = ''money_stress''
        \<or> k = ''money_confidence''"
      by (simp add: financial_data_def)
    then have "financial_raw d = Inl (KeyError (PStr k))"
      by (elim disjE; simp add: financial_raw_def d py_getitem_delete wealth_score_of_def stability_score_of_def
          investment_score_of_def money_mindset_score_of_def e_defs n financial_data_def)
    with x y False show ?thesis by (simp add: calculate_scores_def)
  qed
qed

theorem missing_financial_field_witness:
  "calculate_scores (AList.update ''financial'' (PDict (AList.delete ''business_status'' (financial_data untouched_financial)))
      untouched_assessment)
   = calculate_scores untouched_assessment"
proof -
  have k: "''business_status'' \<in> fst ` set (financial_data untouched_financial)" by (simp add: financial_data_def)
  have u: "AList.update ''financial'' (PDict (financial_data untouched_financial))
      (AList.update ''financial'' (PDict (AList.delete ''business_status'' (financial_data untouched_financial)))
        untouched_assessment) = untouched_assessment"
    by (simp add: untouched_assessment_def)
  show ?thesis
    using missing_financial_field [OF untouched_widgets_ok(1) _ untouched_widgets_ok(2) _ untouched_widgets_ok(3) k,
        of "AList.update ''financial'' (PDict (AList.delete ''business_status'' (financial_data untouched_financial)))
              untouched_assessment"] u
    by (simp add: untouched_assessment_def)
qed

end
