(* ===== verification/Survey_Props.thy ===== *)
theory Survey_Props
  imports Survey Score_Props
begin

text \<open>
  The reachable sessions of the survey and what they hold. A session is
  reachable if it is fresh or results from a reachable one by one interaction
  (\<open>main_run\<close>), whatever the chat service does, where a submitted form
  carries values its widgets can produce. The invariant \<open>flow_inv\<close> says which
  answers are stored at which step; every handler keeps it.
\<close>

subsection \<open>Interactions the widgets can produce\<close>

definition basic_form_ok :: "basic_form \<Rightarrow> bool" where
  "basic_form_ok f \<longleftrightarrow> bi_age f \<in> set age_options \<and> bi_primary_goal f \<in> set primary_goal_options"

fun event_ok :: "ui_event \<Rightarrow> bool" where
  "event_ok (SubmitBasic f) = basic_form_ok f"
| "event_ok (SubmitBiological a) = biological_widgets_ok a"
| "event_ok (SubmitMental a) = mental_widgets_ok a"
| "event_ok (SubmitFinancial a) = financial_widgets_ok a"
| "event_ok _ = True"

inductive reachable :: "session_state \<Rightarrow> bool" where
  fresh: "reachable fresh_session"
| step: "reachable s \<Longrightarrow> event_ok ev \<Longrightarrow> reachable (state (main_run chat s ev))"

text \<open>A sequence of interactions, each with the rerun it triggers.\<close>

fun run_session :: "chat_service \<Rightarrow> session_state \<Rightarrow> ui_event list \<Rightarrow> session_state" where
  "run_session chat s [] = s"
| "run_session chat s (ev # evs) = run_session chat (state (main_run chat s ev)) evs"

text \<open>The session after \<open>fresh_session\<close> runs once: the welcome screen with empty data.\<close>

definition welcome_session :: session_state where
  "welcome_session = \<lparr>assessment_data = Some [], current_step = Some ''welcome'', custom_goal_shown = False\<rparr>"

text \<open>The screen sequence the flow controller implements: each screen and the
  one after it; the results page is followed by the welcome screen of a new
  assessment.\<close>

definition next_step :: "string \<Rightarrow> string" where
  "next_step c = (if c = ''welcome'' then ''basic_info''
     else if c = ''basic_info'' then ''biological_assessment''
     else if c = ''biological_assessment'' then ''mental_assessment''
     else if c = ''mental_assessment'' then ''financial_assessment''
     else if c = ''financial_assessment'' then ''generate_results''
     else ''welcome'')"

text \<open>What a page shows of the scores: the values of its metrics and its radar
  charts (radii, angular labels, radial range), in the order shown.\<close>

fun metric_of :: "ui_msg \<Rightarrow> pyval list" where
  "metric_of (ShowMetric l (Fixed0 v # ps)) = [v]"
| "metric_of _ = []"

fun radar_of :: "ui_msg \<Rightarrow> (pyval list \<times> string list \<times> (int \<times> int)) list" where
  "radar_of (ShowRadar r th rg) = [(r, th, rg)]"
| "radar_of _ = []"

definition metric_values :: "ui_msg list \<Rightarrow> pyval list" where
  "metric_values ms = concat (map metric_of ms)"

definition radar_charts :: "ui_msg list \<Rightarrow> (pyval list \<times> string list \<times> (int \<times> int)) list" where
  "radar_charts ms = concat (map radar_of ms)"

text \<open>A results page showing the scores \<open>[b, m, f, ov]\<close> and the analysis.\<close>

definition results_view :: "pyval list \<Rightarrow> pyval \<Rightarrow> ui_msg list \<Rightarrow> bool" where
  "results_view vals an ms \<longleftrightarrow> metric_values ms = vals
     \<and> radar_charts ms = [([vals ! 0, vals ! 1, vals ! 2, vals ! 0], radar_categories @ [radar_categories ! 0], (0, 100))]
     \<and> ShowAnalysis an \<in> set ms"

subsection \<open>The invariant\<close>

definition basic_keys :: "string list" where
  "basic_keys = [''first_name'', ''last_name'', ''email'', ''phone'', ''age'', ''occupation'',
                 ''primary_goal'', ''custom_goal'']"

definition has_basic_info :: "pydict \<Rightarrow> bool" where
  "has_basic_info d \<longleftrightarrow> list_all (\<lambda>k. \<exists>v. map_of d k = Some (PStr v)) basic_keys"

definition has_biological :: "pydict \<Rightarrow> bool" where
  "has_biological d \<longleftrightarrow> (\<exists>a. biological_widgets_ok a \<and> map_of d ''biological'' = Some (PDict (biological_data a)))"

definition has_mental :: "pydict \<Rightarrow> bool" where
  "has_mental d \<longleftrightarrow> (\<exists>a. mental_widgets_ok a \<and> map_of d ''mental'' = Some (PDict (mental_data a)))"

definition has_financial :: "pydict \<Rightarrow> bool" where
  "has_financial d \<longleftrightarrow> (\<exists>a. financial_widgets_ok a \<and> map_of d ''financial'' = Some (PDict (financial_data a)))"

text \<open>The answers stored when a step is current: those of every earlier form.\<close>

definition stage_data :: "string \<Rightarrow> pydict \<Rightarrow> bool" where
  "stage_data c d \<longleftrightarrow>
     (c \<in> {''biological_assessment'', ''mental_assessment'', ''financial_assessment'', ''generate_results''}
        \<longrightarrow> has_basic_info d)
     \<and> (c \<in> {''mental_assessment'', ''financial_assessment'', ''generate_results''} \<longrightarrow> has_biological d)
     \<and> (c \<in> {''financial_assessment'', ''generate_results''} \<longrightarrow> has_mental d)
     \<and> (c = ''generate_results'' \<longrightarrow> has_financial d)"

definition flow_inv :: "session_state \<Rightarrow> bool" where
  "flow_inv s \<longleftrightarrow> s = fresh_session
     \<or> (\<exists>d c. assessment_data s = Some d \<and> current_step s = Some c \<and> c \<in> set step_names \<and> stage_data c d)"

lemma stage_data_welcome [simp]: "stage_data ''welcome'' d" and stage_data_basic [simp]: "stage_data ''basic_info'' d"
  by (simp_all add: stage_data_def)

subsection \<open>Storing answers keeps the others\<close>

lemma has_basic_info_update:
  "has_basic_info d \<Longrightarrow> k \<notin> set basic_keys \<Longrightarrow> has_basic_info (AList.update k v d)"
  by (auto simp: has_basic_info_def list_all_iff update_conv')

lemma has_basic_info_store:
  "has_basic_info (py_dict_update d (basic_info_dict f g))"
  by (simp add: has_basic_info_def basic_keys_def map_of_py_dict_update_distinct basic_info_dict_def)

lemma has_answers_update:
  "k \<noteq> ''biological'' \<Longrightarrow> has_biological d \<Longrightarrow> has_biological (AList.update k v d)"
  "k \<noteq> ''mental'' \<Longrightarrow> has_mental d \<Longrightarrow> has_mental (AList.update k v d)"
  "k \<noteq> ''financial'' \<Longrightarrow> has_financial d \<Longrightarrow> has_financial (AList.update k v d)"
  by (auto simp: has_biological_def has_mental_def has_financial_def update_conv')

lemma keys_distinct_basic:
  "''biological'' \<notin> set basic_keys" "''mental'' \<notin> set basic_keys" "''financial'' \<notin> set basic_keys"
  by (simp_all add: basic_keys_def)

subsection \<open>Every handler keeps the invariant\<close>

lemma init_session_state_flow_inv:
  assumes "flow_inv s"
  shows "\<exists>d c. assessment_data (init_session_state s) = Some d \<and> current_step (init_session_state s) = Some c
           \<and> c \<in> set step_names \<and> stage_data c d \<and> custom_goal_shown (init_session_state s) = custom_goal_shown s"
  using assms by (auto simp: flow_inv_def init_session_state_def fresh_session_def step_names_def)

lemma display_results_state:
  "state (display_results chat b s ev) = s \<or> state (display_results chat b s ev) = fresh_session"
  by (auto simp: display_results_def fail_run_def Let_def split: sum.splits prod.splits ui_event.splits)

lemma store_answers_state:
  assumes "assessment_data s = Some d"
  shows "state (store_answers s k a c) = s\<lparr>assessment_data := Some (AList.update k (PDict a) d), current_step := Some c\<rparr>"
  using assms by (simp add: store_answers_def session_data_def go_to_def)

lemma collect_basic_information_state:
  assumes "assessment_data s = Some d"
  shows "\<exists>x. state (collect_basic_information s ev) = s
           \<or> state (collect_basic_information s ev) = s\<lparr>custom_goal_shown := x\<rparr>
           \<or> (\<exists>f g. state (collect_basic_information s ev) = s\<lparr>custom_goal_shown := x,
                    assessment_data := Some (py_dict_update d (basic_info_dict f g)),
                    current_step := Some ''biological_assessment''\<rparr>)"
  using assms
  by (auto simp: collect_basic_information_def session_data_def go_to_def stay_def Let_def split: ui_event.splits)

lemma flow_invI:
  "assessment_data s = Some d \<Longrightarrow> current_step s = Some c \<Longrightarrow> c \<in> set step_names \<Longrightarrow> stage_data c d
   \<Longrightarrow> flow_inv s"
  by (auto simp: flow_inv_def)

lemma welcome_flow_inv:
  assumes "assessment_data s = Some d" "current_step s = Some ''welcome''"
  shows "flow_inv (state (display_welcome_screen s ev))"
  using assms by (auto simp: display_welcome_screen_def go_to_def stay_def step_names_def intro: flow_invI)

lemma basic_flow_inv:
  assumes "assessment_data s = Some d" "current_step s = Some ''basic_info''"
  shows "flow_inv (state (collect_basic_information s ev))"
  using collect_basic_information_state [OF assms(1), of ev] assms
  by (auto simp: step_names_def stage_data_def has_basic_info_store intro: flow_invI)

lemma store_flow_inv:
  assumes "assessment_data s = Some d" "c' \<in> set step_names" "stage_data c' (AList.update k (PDict a) d)"
  shows "flow_inv (state (store_answers s k a c'))"
  using assms by (auto simp: store_answers_state intro: flow_invI)

lemma biological_flow_inv:
  assumes "assessment_data s = Some d" "current_step s = Some ''biological_assessment''"
      and "stage_data ''biological_assessment'' d" "event_ok ev"
  shows "flow_inv (state (biological_optimization_assessment s ev))"
proof (cases ev)
  case (SubmitBiological a)
  with assms have "stage_data ''mental_assessment'' (AList.update ''biological'' (PDict (biological_data a)) d)"
    by (auto simp: stage_data_def has_basic_info_update keys_distinct_basic has_biological_def update_conv')
  with SubmitBiological assms(1) show ?thesis
    by (auto simp: biological_optimization_assessment_def step_names_def intro: store_flow_inv)
qed (use assms in \<open>auto simp: biological_optimization_assessment_def stay_def step_names_def intro: flow_invI\<close>)

lemma mental_flow_inv:
  assumes "assessment_data s = Some d" "current_step s = Some ''mental_assessment''"
      and "stage_data ''mental_assessment'' d" "event_ok ev"
  shows "flow_inv (state (mental_architecture_assessment s ev))"
proof (cases ev)
  case (SubmitMental a)
  with assms have "stage_data ''financial_assessment'' (AList.update ''mental'' (PDict (mental_data a)) d)"
    by (auto simp: stage_data_def has_basic_info_update keys_distinct_basic has_answers_update has_mental_def update_conv')
  with SubmitMental assms(1) show ?thesis
    by (auto simp: mental_architecture_assessment_def step_names_def intro: store_flow_inv)
qed (use assms in \<open>auto simp: mental_architecture_assessment_def stay_def step_names_def intro: flow_invI\<close>)

lemma financial_flow_inv:
  assumes "assessment_data s = Some d" "current_step s = Some ''financial_assessment''"
      and "stage_data ''financial_assessment'' d" "event_ok ev"
  shows "flow_inv (state (financial_intelligence_assessment s ev))"
proof (cases ev)
  case (SubmitFinancial a)
  with assms have "stage_data ''generate_results'' (AList.update ''financial'' (PDict (financial_data a)) d)"
    by (auto simp: stage_data_def has_basic_info_update keys_distinct_basic has_answers_update has_financial_def update_conv')
  with SubmitFinancial assms(1) show ?thesis
    by (auto simp: financial_intelligence_assessment_def step_names_def intro: store_flow_inv)
qed (use assms in \<open>auto simp: financial_intelligence_assessment_def stay_def step_names_def intro: flow_invI\<close>)

lemma results_flow_inv:
  assumes "assessment_data s = Some d" "current_step s = Some ''generate_results''" "stage_data ''generate_results'' d"
  shows "flow_inv (state (display_results chat b s ev))"
  using display_results_state [of chat b s ev] assms
  by (auto simp: flow_inv_def step_names_def)

lemma main_dispatch_flow_inv:
  assumes d: "assessment_data s = Some d" and c: "current_step s = Some c"
      and inv: "c \<in> set step_names" "stage_data c d" and ev: "event_ok ev"
  shows "flow_inv (state (main_dispatch chat b s ev))"
proof -
  let ?s0 = "s\<lparr>custom_goal_shown := False\<rparr>"
  have s0: "assessment_data ?s0 = Some d" "current_step ?s0 = Some c"
    using d c by simp_all
  have "c = ''welcome'' \<or> c = ''basic_info'' \<or> c = ''biological_assessment''
    \<or> c = ''mental_assessment'' \<or> c = ''financial_assessment'' \<or> c = ''generate_results''"
    using inv(1) by (simp add: step_names_def)
  then show ?thesis
  proof (elim disjE)
    assume 1: "c = ''welcome''"
    have "main_dispatch chat b s ev = display_welcome_screen ?s0 ev"
      unfolding main_dispatch_def Let_def using 1 c by simp
    with 1 s0 show ?thesis by (simp add: welcome_flow_inv)
  next
    assume 2: "c = ''basic_info''"
    have "main_dispatch chat b s ev = collect_basic_information s ev"
      unfolding main_dispatch_def Let_def using 2 c by simp
    with 2 d c show ?thesis by (simp add: basic_flow_inv)
  next
    assume 3: "c = ''biological_assessment''"
    have "main_dispatch chat b s ev = biological_optimization_assessment ?s0 ev"
      unfolding main_dispatch_def Let_def using 3 c by simp
    with 3 s0 inv ev show ?thesis by (simp add: biological_flow_inv)
  next
    assume 4: "c = ''mental_assessment''"
    have "main_dispatch chat b s ev = mental_architecture_assessment ?s0 ev"
      unfolding main_dispatch_def Let_def using 4 c by simp
    with 4 s0 inv ev show ?thesis by (simp add: mental_flow_inv)
  next
    assume 5: "c = ''financial_assessment''"
    have "main_dispatch chat b s ev = financial_intelligence_assessment ?s0 ev"
      unfolding main_dispatch_def Let_def using 5 c by simp
    with 5 s0 inv ev show ?thesis by (simp add: financial_flow_inv)
  next
    assume 6: "c = ''generate_results''"
    have "main_dispatch chat b s ev = display_results chat b ?s0 ev"
      unfolding main_dispatch_def Let_def using 6 c by simp
    with 6 s0 inv show ?thesis by (simp add: results_flow_inv)
  qed
qed

lemma script_run_flow_inv:
  assumes "flow_inv s" "event_ok ev"
  shows "flow_inv (state (script_run chat s ev))"
proof -
  from init_session_state_flow_inv [OF assms(1)] obtain d c where
    "assessment_data (init_session_state s) = Some d" "current_step (init_session_state s) = Some c"
    "c \<in> set step_names" "stage_data c d"
    by blast
  from main_dispatch_flow_inv [OF this assms(2)] show ?thesis
    by (simp add: script_run_def)
qed

lemma main_run_flow_inv:
  assumes "flow_inv s" "event_ok ev"
  shows "flow_inv (state (main_run chat s ev))"
  using script_run_flow_inv [OF assms] script_run_flow_inv [OF script_run_flow_inv [OF assms], of NoInput]
  by (simp add: main_run_def Let_def)

text \<open>C11: every session reachable from a fresh browser session by interactions
  the widgets can produce, whatever the chat service does, is fresh or stands at
  one of the six steps with the answers of every earlier form stored: the basic
  information as strings from the step after \<open>basic_info\<close> on, and the answers of
  each assessment form, as its widgets can produce them, from the step after it on.\<close>

theorem reachable_flow_inv: "reachable s \<Longrightarrow> flow_inv s"
proof (induction rule: reachable.induct)
  case fresh
  show ?case by (simp add: flow_inv_def)
next
  case (step s ev chat)
  from step.IH step.hyps(2) show ?case by (rule main_run_flow_inv)
qed

subsection \<open>The results page\<close>

lemma numeric_scores_view: "score_view v \<noteq> None \<Longrightarrow> numeric_scores v"
  by (cases v) (auto simp: score_view_def numeric_scores_def bind_eq_Some_conv split: option.splits)

lemma has_basic_info_get:
  assumes "has_basic_info d"
  shows "\<exists>e. map_of d ''email'' = Some (PStr e)"
    and "list_all (\<lambda>k. map_of d k \<noteq> None) [''first_name'', ''last_name'', ''age'', ''occupation'', ''primary_goal'']"
  using assms by (auto simp: has_basic_info_def basic_keys_def)

lemma stage_results_prompt_keys:
  "stage_data ''generate_results'' d \<Longrightarrow> list_all (\<lambda>k. map_of d k \<noteq> None) prompt_keys"
  by (auto simp: stage_data_def prompt_keys_def has_basic_info_def basic_keys_def has_biological_def
      has_mental_def has_financial_def)

lemma stage_results_scored:
  assumes "stage_data ''generate_results'' d"
  shows "\<exists>v. calculate_scores d = Inr v"
proof -
  from assms obtain ba ma fa where a: "biological_widgets_ok ba" "mental_widgets_ok ma" "financial_widgets_ok fa"
      and s: "map_of d ''biological'' = Some (PDict (biological_data ba))"
        "map_of d ''mental'' = Some (PDict (mental_data ma))"
        "map_of d ''financial'' = Some (PDict (financial_data fa))"
    by (auto simp: stage_data_def has_biological_def has_mental_def has_financial_def)
  obtain x y z where "biological_ref ba = Some x" "mental_ref ma = Some y" "financial_ref fa = Some z"
    using biological_ref_pct [OF a(1)] mental_ref_pct [OF a(2)] financial_ref_pct [OF a(3)] by blast
  with calculate_scores_compose [OF biological_raw_refines [OF s(1)] mental_raw_refines [OF s(2)]
      financial_raw_refines [OF s(3)]] show ?thesis
    by auto
qed

lemma pct_value_real: "pct_value v \<Longrightarrow> as_real v \<noteq> None"
  by (auto simp: pct_value_def split: option.splits)

lemma results_page_dict:
  assumes "as_real b \<noteq> None" "as_real m \<noteq> None" "as_real f \<noteq> None" "as_real ov \<noteq> None"
  shows "\<exists>ms. results_page bp (PDict [(''biological'', b), (''mental'', m), (''financial'', f), (''overall'', ov)]) an
           = Inr ms \<and> results_view [b, m, f, ov] an ms"
  using assms by (simp add: results_page_def fmt_fixed0_num results_view_def metric_values_def radar_charts_def)

lemma results_page_analysis:
  "(\<exists>e. results_page bp v an = Inl e \<and> results_page bp v an' = Inl e)
   \<or> (\<exists>ms ms'. results_page bp v an = Inr ms \<and> results_page bp v an' = Inr ms')"
  unfolding results_page_def by (auto simp: Let_def py_bind_def split: sum.splits)

lemma results_view_extend:
  "results_view vals an ms \<Longrightarrow> metric_values ms' = [] \<Longrightarrow> radar_charts ms' = [] \<Longrightarrow> results_view vals an (ms @ ms')"
  by (simp add: results_view_def metric_values_def radar_charts_def)

text \<open>What the results page computes from complete answers: the score dict
  with its four numbers in [0, 100], the prompt, and the stored email.\<close>

lemma stage_results_data:
  assumes "stage_data ''generate_results'' d"
  obtains v b m f ov p e where "calculate_scores d = Inr v"
    and "v = PDict [(''biological'', b), (''mental'', m), (''financial'', f), (''overall'', ov)]"
    and "pct_value b" "pct_value m" "pct_value f" "pct_value ov" "build_prompt v d = Inr p"
    and "map_of d ''email'' = Some (PStr e)"
proof -
  obtain v where v: "calculate_scores d = Inr v"
    using stage_results_scored [OF assms] by blast
  then obtain b m f ov where vd: "v = PDict [(''biological'', b), (''mental'', m), (''financial'', f), (''overall'', ov)]"
    and pv: "pct_value b" "pct_value m" "pct_value f" "pct_value ov"
    by (rule calculate_scores_pct_values)
  have n: "numeric_scores v"
    using vd pv by (simp add: numeric_scores_def pct_value_real)
  obtain p where p: "build_prompt v d = Inr p"
    using build_prompt_Inr [OF n stage_results_prompt_keys [OF assms]] by blast
  obtain e where e: "map_of d ''email'' = Some (PStr e)"
    using assms has_basic_info_get(1) by (auto simp: stage_data_def)
  show ?thesis by (rule that [OF v vd pv p e])
qed

lemma results_page_data:
  assumes "v = PDict [(''biological'', b), (''mental'', m), (''financial'', f), (''overall'', ov)]"
    and "pct_value b" "pct_value m" "pct_value f" "pct_value ov"
  obtains ms where "results_page bp v an = Inr ms" and "results_view [b, m, f, ov] an ms"
  using results_page_dict [OF pct_value_real [OF assms(2)] pct_value_real [OF assms(3)]
      pct_value_real [OF assms(4)] pct_value_real [OF assms(5)]] assms(1) by blast

text \<open>The results page of a session whose answers are complete.\<close>

lemma display_results_page:
  assumes "assessment_data s = Some d" "stage_data ''generate_results'' d"
  obtains v b m f ov p where "calculate_scores d = Inr v"
    and "v = PDict [(''biological'', b), (''mental'', m), (''financial'', f), (''overall'', ov)]"
    and "pct_value b" "pct_value m" "pct_value f" "pct_value ov" "build_prompt v d = Inr p"
    and "\<And>chat bt ev. raised (display_results chat bt s ev) = None
           \<and> requests (display_results chat bt s ev) = [analysis_request p]
           \<and> results_view [b, m, f, ov] (read_response (profile (bt :: bot)) (chat (analysis_request p)))
                (shown (display_results chat bt s ev))
           \<and> rerun (display_results chat bt s ev) = (ev = ClickReset)
           \<and> state (display_results chat bt s ev) = (if ev = ClickReset then fresh_session else s)"
proof -
  obtain v b m f ov p e where v: "calculate_scores d = Inr v"
    and vd: "v = PDict [(''biological'', b), (''mental'', m), (''financial'', f), (''overall'', ov)]"
    and pv: "pct_value b" "pct_value m" "pct_value f" "pct_value ov" and p: "build_prompt v d = Inr p"
    and e: "map_of d ''email'' = Some (PStr e)"
    by (rule stage_results_data [OF assms(2)])
  show ?thesis
  proof (rule that [OF v vd pv p])
    fix chat and bt :: bot and ev
    obtain ms where ms: "results_page (profile bt) v (read_response (profile bt) (chat (analysis_request p))) = Inr ms"
      and rv: "results_view [b, m, f, ov] (read_response (profile bt) (chat (analysis_request p))) ms"
      by (rule results_page_data [OF vd pv])
    show "raised (display_results chat bt s ev) = None
           \<and> requests (display_results chat bt s ev) = [analysis_request p]
           \<and> results_view [b, m, f, ov] (read_response (profile (bt :: bot)) (chat (analysis_request p)))
                (shown (display_results chat bt s ev))
           \<and> rerun (display_results chat bt s ev) = (ev = ClickReset)
           \<and> state (display_results chat bt s ev) = (if ev = ClickReset then fresh_session else s)"
      using assms(1) v p e ms results_view_extend [OF rv]
      by (cases ev) (simp_all add: display_results_def session_data_def generate_ai_analysis_prompt
          metric_values_def radar_charts_def)
  qed
qed

lemma display_results_state_keep:
  "ev \<noteq> ClickReset \<Longrightarrow> state (display_results chat b s ev) = s"
  by (cases ev) (simp_all add: display_results_def fail_run_def Let_def split: sum.splits prod.splits)

lemma init_session_state_id:
  "assessment_data s = Some d \<Longrightarrow> current_step s = Some c \<Longrightarrow> init_session_state s = s"
  by (simp add: init_session_state_def)

lemma script_run_results:
  assumes "assessment_data s = Some d" "current_step s = Some ''generate_results''"
  shows "script_run chat s ev = display_results chat the_bot (s\<lparr>custom_goal_shown := False\<rparr>) ev"
  using assms by (simp add: script_run_def init_session_state_id main_dispatch_def)

lemma script_run_fresh: "script_run chat fresh_session NoInput = stay welcome_session"
  by (simp add: script_run_def init_session_state_def fresh_session_def main_dispatch_def
      display_welcome_screen_def welcome_session_def)

lemma main_run_results:
  assumes "assessment_data s = Some d" "current_step s = Some ''generate_results''"
      and "stage_data ''generate_results'' d"
  obtains v b m f ov p where "calculate_scores d = Inr v"
    and "v = PDict [(''biological'', b), (''mental'', m), (''financial'', f), (''overall'', ov)]"
    and "pct_value b" "pct_value m" "pct_value f" "pct_value ov"
    and "\<And>chat ev. raised (main_run chat s ev) = None \<and> requests (main_run chat s ev) = [analysis_request p]
           \<and> state (main_run chat s ev) = (if ev = ClickReset then welcome_session else s\<lparr>custom_goal_shown := False\<rparr>)"
    and "\<And>chat ev. results_view [b, m, f, ov] (read_response (profile the_bot) (chat (analysis_request p)))
           (shown (script_run chat s ev))"
proof -
  have a: "assessment_data (s\<lparr>custom_goal_shown := False\<rparr>) = Some d" using assms(1) by simp
  show ?thesis
  proof (rule display_results_page [OF a assms(3)])
    fix v b m f ov p
    assume v: "calculate_scores d = Inr v"
      and vd: "v = PDict [(''biological'', b), (''mental'', m), (''financial'', f), (''overall'', ov)]"
      and pv: "pct_value b" "pct_value m" "pct_value f" "pct_value ov" and "build_prompt v d = Inr p"
      and page: "\<And>chat bt ev. raised (display_results chat bt (s\<lparr>custom_goal_shown := False\<rparr>) ev) = None
           \<and> requests (display_results chat bt (s\<lparr>custom_goal_shown := False\<rparr>) ev) = [analysis_request p]
           \<and> results_view [b, m, f, ov] (read_response (profile (bt :: bot)) (chat (analysis_request p)))
                (shown (display_results chat bt (s\<lparr>custom_goal_shown := False\<rparr>) ev))
           \<and> rerun (display_results chat bt (s\<lparr>custom_goal_shown := False\<rparr>) ev) = (ev = ClickReset)
           \<and> state (display_results chat bt (s\<lparr>custom_goal_shown := False\<rparr>) ev)
               = (if ev = ClickReset then fresh_session else s\<lparr>custom_goal_shown := False\<rparr>)"
    show ?thesis
    proof (rule that [OF v vd pv])
      fix chat ev
      from page [of chat the_bot ev]
      show "raised (main_run chat s ev) = None \<and> requests (main_run chat s ev) = [analysis_request p]
           \<and> state (main_run chat s ev) = (if ev = ClickReset then welcome_session else s\<lparr>custom_goal_shown := False\<rparr>)"
        by (cases "ev = ClickReset")
          (simp_all add: main_run_def Let_def script_run_results [OF assms(1,2)] script_run_fresh stay_def)
      from page [of chat the_bot ev]
      show "results_view [b, m, f, ov] (read_response (profile the_bot) (chat (analysis_request p)))
           (shown (script_run chat s ev))"
        by (simp add: script_run_results [OF assms(1,2)])
    qed
  qed
qed

lemma reachable_stage:
  assumes "reachable s" "current_step s = Some c"
  shows "\<exists>d. assessment_data s = Some d \<and> c \<in> set step_names \<and> stage_data c d"
proof -
  from assms(1) have "flow_inv s"
  proof (induction rule: reachable.induct)
    case fresh
    show ?case by (simp add: flow_inv_def)
  next
    case (step s ev chat)
    then show ?case by (blast intro: main_run_flow_inv)
  qed
  with assms(2) show ?thesis by (auto simp: flow_inv_def fresh_session_def)
qed

subsection \<open>Steps of the screen sequence\<close>

lemma script_run_NoInput_step:
  "current_step s = Some c \<Longrightarrow> current_step (state (script_run chat s NoInput)) = Some c"
  by (simp add: script_run_def main_dispatch_def init_session_state_def Let_def stay_def
      display_welcome_screen_def collect_basic_information_def biological_optimization_assessment_def
      mental_architecture_assessment_def financial_intelligence_assessment_def display_results_state_keep)

lemma display_results_state_rerun:
  "state (display_results chat b s ev) = s
   \<or> (state (display_results chat b s ev) = fresh_session \<and> rerun (display_results chat b s ev))"
  by (auto simp: display_results_def fail_run_def Let_def split: sum.splits prod.splits ui_event.splits)

lemma script_run_step:
  assumes "current_step s = Some c" "c \<in> set step_names"
  shows "current_step (state (script_run chat s ev)) = Some c
       \<or> current_step (state (script_run chat s ev)) = Some (next_step c)
       \<or> (c = ''generate_results'' \<and> state (script_run chat s ev) = fresh_session \<and> rerun (script_run chat s ev))"
proof -
  have "c = ''welcome'' \<or> c = ''basic_info'' \<or> c = ''biological_assessment'' \<or> c = ''mental_assessment''
        \<or> c = ''financial_assessment'' \<or> c = ''generate_results''"
    using assms(2) by (simp add: step_names_def)
  then show ?thesis
  proof (elim disjE)
    assume N: "c = ''welcome''"
    then show ?thesis using assms(1)
      by (simp add: script_run_def main_dispatch_def init_session_state_def display_welcome_screen_def
          go_to_def stay_def next_step_def Let_def)
  next
    assume N: "c = ''basic_info''"
    then show ?thesis using assms(1)
      by (simp add: script_run_def main_dispatch_def init_session_state_def collect_basic_information_def
          go_to_def stay_def next_step_def fail_run_def Let_def session_data_def split: ui_event.splits sum.splits option.splits)
  next
    assume N: "c = ''biological_assessment''"
    then show ?thesis using assms(1)
      by (simp add: script_run_def main_dispatch_def init_session_state_def biological_optimization_assessment_def
          store_answers_def go_to_def stay_def next_step_def fail_run_def Let_def session_data_def split: ui_event.splits sum.splits)
  next
    assume N: "c = ''mental_assessment''"
    then show ?thesis using assms(1)
      by (simp add: script_run_def main_dispatch_def init_session_state_def mental_architecture_assessment_def
          store_answers_def go_to_def stay_def next_step_def fail_run_def Let_def session_data_def split: ui_event.splits sum.splits)
  next
    assume N: "c = ''financial_assessment''"
    then show ?thesis using assms(1)
      by (simp add: script_run_def main_dispatch_def init_session_state_def financial_intelligence_assessment_def
          store_answers_def go_to_def stay_def next_step_def fail_run_def Let_def session_data_def split: ui_event.splits sum.splits)
  next
    assume N: "c = ''generate_results''"
    define s0 where "s0 = (init_session_state s)\<lparr>custom_goal_shown := False\<rparr>"
    have s0: "current_step s0 = Some ''generate_results''"
      using assms(1) N by (simp add: s0_def init_session_state_def)
    have "script_run chat s ev = display_results chat the_bot s0 ev"
      using assms(1) N by (simp add: script_run_def main_dispatch_def s0_def init_session_state_def)
    with display_results_state_rerun [of chat the_bot s0 ev] s0 N show ?thesis
      by auto
  qed
qed

lemma reachable_run_session:
  "reachable s \<Longrightarrow> list_all event_ok evs \<Longrightarrow> reachable (run_session chat s evs)"
  by (induction evs arbitrary: s) (auto intro: reachable.step)

subsection \<open>The rerun loop ends\<close>

lemma display_results_no_rerun: "ev \<noteq> ClickReset \<Longrightarrow> \<not> rerun (display_results chat b s ev)"
  by (cases ev) (simp_all add: display_results_def fail_run_def Let_def split: sum.splits prod.splits)

lemma script_run_NoInput_no_rerun: "\<not> rerun (script_run chat s NoInput)"
  by (simp add: script_run_def main_dispatch_def Let_def stay_def display_welcome_screen_def
      collect_basic_information_def biological_optimization_assessment_def
      mental_architecture_assessment_def financial_intelligence_assessment_def display_results_no_rerun)

text \<open>C20: the rerun loop of every interaction returns, for every session,
  interaction and chat service: the run of an interaction calls \<open>st.rerun()\<close> at
  most once, since no run without interaction (\<open>NoInput\<close>) calls it, and the
  loop's result is \<open>main_run\<close>, the interaction followed by at most one rerun.\<close>

theorem interact_returns: "interact chat s ev = Some (main_run chat s ev)"
proof -
  have n: "interact chat s' NoInput = Some (script_run chat s' NoInput)" for s'
    by (subst interact.simps) (simp add: script_run_NoInput_no_rerun)
  show ?thesis
    by (subst interact.simps) (simp add: main_run_def Let_def n)
qed

text \<open>The definitions one interaction unfolds to, for running a concrete session.\<close>

lemmas main_run_simps = main_run_def script_run_def main_dispatch_def init_session_state_def
  fresh_session_def Let_def display_welcome_screen_def collect_basic_information_def go_to_def stay_def
  session_data_def biological_optimization_assessment_def mental_architecture_assessment_def
  financial_intelligence_assessment_def store_answers_def display_results_state_keep

end
