(* ===== verification/Spec2Isabelle.thy ===== *)
theory Spec2Isabelle
  imports Survey_Props
begin

text \<open>
  \<^bold>\<open>A verification development of the Human 2.0 assessment bot.\<close>
  The program (src/human_2_0_assessment_bot.py) is a Streamlit app. \<open>main\<close>
  builds a \<open>Human20AssessmentBot\<close> on every script run and dispatches on
  \<open>st.session_state.current_step\<close> to one screen. The screens are the welcome
  screen, the basic-information form, the three assessment forms (biological,
  mental, financial) and the results page. Each form, on submit, stores its
  answers in \<open>st.session_state.assessment_data\<close> and advances the step. The
  results page scores the stored answers (\<open>calculate_scores\<close>), asks the OpenAI
  chat API for a narrative (\<open>generate_ai_analysis\<close>) and offers three buttons.

  \<^bold>\<open>Theories and what they model.\<close>
  \<^item> \<open>Py_Prelude\<close>: the Python values the bot handles (\<open>pyval\<close>), its
    exceptions (\<open>py_error\<close>, on the left of a sum), dict subscripts and
    \<open>.get\<close>, int/float arithmetic, \<open>min\<close>/\<open>max\<close>, and left-to-right expression
    evaluation. It also holds the refinement relation \<open>py_refines\<close> between a
    Python computation and a real-valued reference, the percentage predicate
    \<open>pct\<close>, and their rules.
  \<^item> \<open>Scoring\<close>: \<open>calculate_scores\<close> (lines 478--567), statement by statement.
    Each sub-score block is one definition, e.g. \<open>sleep_score_of\<close> for
    lines 486--491, and the lookup tables are the dict literals of the method.
  \<^item> \<open>Answers\<close>: the widget values of the three assessment forms as records,
    the dicts the handlers store (\<open>biological_data\<close> and so on), and the values
    each widget can produce (option lists, slider bounds, multiselects).
  \<^item> \<open>Score_Spec\<close>: the algorithm of spec section 4.1 over the typed answers,
    in the option monad on reals. It also shows that every block of
    \<open>calculate_scores\<close> refines it.
  \<^item> \<open>Score_Props\<close>: the scoring claims C1--C8, the type of
    the returned dict (C21), and the missing mental and financial answers
    (C22, C23).
  \<^item> \<open>Narrative\<close>: \<open>__init__\<close>'s configuration (business profile with its
    defaults, the stored API key, the unused category weights) and
    \<open>generate_ai_analysis\<close> (lines 569--613). The OpenAI API is a parameter
    \<open>chat\<close>: a request either raises or returns choices with optional content.
    Claims C9--C10 are here.
  \<^item> \<open>Survey\<close>: \<open>st.session_state\<close> as the record \<open>session_state\<close>; each screen
    handler as a function of the state and of the interaction (\<open>ui_event\<close>)
    that triggered the run, returning a \<open>run_out\<close>. A \<open>run_out\<close> holds the new
    state, whether \<open>st.rerun()\<close> was called, the chat requests sent, what was
    shown and the exception raised. The other definitions are \<open>main_dispatch\<close>
    (lines 744--756), \<open>script_run\<close> (one run of \<open>main\<close>, including the session
    initialisation of \<open>__init__\<close>) and \<open>main_run\<close> (an interaction and the one
    rerun it may trigger). \<open>display_results\<close> (lines 615--715) renders the page
    through \<open>results_page\<close>: the title, the four \<open>st.metric\<close>s, the radar chart,
    the analysis and the booking text, followed by the link, contact and email
    messages of the buttons. Streamlit's rerun loop is the partial function
    \<open>interact\<close>.
  \<^item> \<open>Survey_Props\<close>: the interactions the widgets can produce, the inductive
    set \<open>reachable\<close> of sessions reachable from a fresh one, and the invariant
    \<open>flow_inv\<close>, proved by rule induction (C11). It also proves that the rerun
    loop returns (C20), and it holds the lemmas on the results page that the claims below use.
  \<^item> This theory: the claims that span the flow controller, the scoring engine
    and the narrative (C12--C19, C24), on a concrete completed session.

  \<^bold>\<open>Results.\<close>
  \<^item> The scoring engine refines the spec's algorithm (C1). Every returned
    score lies in [0, 100] (C2), and the overall score is the fixed weighting
    (C3). Answers the widgets can produce are always scored (C4): every option
    of a widget is a key of its lookup table.
  \<^item> The wake-refreshed answer never affects a score (C5, a code bug), so the
    spec's first worked example (sleep 66.67) disagrees with the code, which
    gives 58.33.
  \<^item> Missing or out-of-domain answers raise \<open>KeyError\<close> (C6--C8). A
    missing mental or financial answer raises \<open>KeyError\<close> only if the method
    reads it; the method reads neither \<open>limiting_beliefs\<close> nor six of the
    financial answers (C22, C23).
  \<^item> The returned dict has its four keys in order. The overall score is a
    float, and a clamped category score is the int 0 or 100 (C21).
  \<^item> The narrative falls back to a message with the contact email when the
    service fails (C9). A prompt error escapes the \<open>try\<close> (C10).
  \<^item> Every reachable session holds the answers of its earlier steps (C11).
  \<^item> On the results page nothing raises, and every interaction sends the
    same chat request again (C12). The page shows in-range scores and the
    service's answer or the fallback (C13). The radar chart is a closed
    polygon of the three category scores of that same dict, within its
    [0, 100] axis (C24). The email
    button reports a report as sent, but the run sends no email (C19).
  \<^item> Reset returns to the welcome screen (C14). Five interactions complete the
    survey (C15). Every interaction keeps the screen or moves to the next one
    of the fixed sequence, so the controller refines that sequence (C18).
  \<^item> Incomplete basic information is rejected (C16). A custom goal typed on
    the first submit is lost (C17).
  \<^item> Streamlit's rerun loop returns after at most one rerun (C20).

  \<^bold>\<open>Bounds and runs.\<close>
  No loop of the program is unbounded. Each interaction is one script run,
  plus at most one more: \<open>st.rerun()\<close> is called only by a run triggered by a
  click or submit, and the rerun itself has no interaction, so it never calls
  \<open>st.rerun()\<close>. One rerun is therefore enough, and no fuel is needed.
  \<open>interact\<close>, the loop as Streamlit runs it, is a \<open>partial_function
  (option)\<close>. C20 proves that it returns \<open>main_run\<close>'s result on every input.

  \<^bold>\<open>Not modelled.\<close>
  \<^item> Python floats are exact reals, so the binary rounding of \<open>0.1\<close>-style
    weights is not modelled.
  \<^item> The rendering of the f-string into characters (\<open>:.1f\<close>, \<open>str(dict)\<close>) is
    not modelled.
  \<^item> Streamlit's layout (columns, \<open>set_page_config\<close>), the emoji of the
    markdown literals, and the pixels of the plotly chart are presentation.
    The markdown text, metric values and chart data are modelled.
  \<^item> A run that raises is shown as its exception only; the elements it
    rendered before the exception are not recorded.
  \<^item> Streamlit's widget semantics is modelled by the values a widget returns:
    a form's widgets report only on submit, and a widget created in the
    submitting run returns its default.
  \<^item> The reset loop over \<open>st.session_state.keys()\<close> is modelled as deleting
    every key; Streamlit returns the keys of a copy.
  \<^item> The OpenAI client and network are the parameter \<open>chat\<close>.
\<close>

section \<open>A concrete session\<close>

text \<open>A participant who fills in the basic information with \<open>Other\<close> as goal,
  leaves the three assessment forms at their defaults and submits each.\<close>

definition sample_form :: basic_form where
  "sample_form = \<lparr>bi_first_name = ''Ada'', bi_last_name = ''Lovelace'', bi_email = ''ada@example.org'',
     bi_phone = '''', bi_age = ''36-45'', bi_occupation = ''Engineer'', bi_primary_goal = ''Other'',
     bi_custom_goal = ''Ship it''\<rparr>"

definition sample_events :: "ui_event list" where
  "sample_events = [ClickStart, SubmitBasic sample_form, SubmitBiological untouched_biological,
     SubmitMental untouched_mental, SubmitFinancial untouched_financial]"

definition completed_session :: session_state where
  "completed_session = run_session (\<lambda>_. ChatRaises) fresh_session sample_events"

definition basic_info_session :: session_state where
  "basic_info_session = \<lparr>assessment_data = Some [], current_step = Some ''basic_info'', custom_goal_shown = False\<rparr>"

lemma completed_session_reachable: "reachable completed_session"
  unfolding completed_session_def
  by (rule reachable_run_session [OF reachable.fresh])
     (simp add: sample_events_def untouched_widgets_ok basic_form_ok_def sample_form_def answer_options)

lemma completed_session_step: "current_step completed_session = Some ''generate_results''"
  by (simp add: completed_session_def sample_events_def sample_form_def main_run_simps)

section \<open>The survey as a whole\<close>

theorem reachable_flow_inv_witness:
  "reachable completed_session \<and> flow_inv completed_session"
  using reachable_flow_inv [OF completed_session_reachable] completed_session_reachable by simp

text \<open>C12: on the results page of every reachable session, no interaction
  raises, whatever the chat service does, and every interaction (the buttons
  included, and the reset with the rerun it triggers) sends exactly one chat
  request, the same one each time: the analysis is requested again on every
  run of the page.\<close>

theorem results_page_never_raises:
  assumes "reachable s" and "current_step s = Some ''generate_results''"
  shows "\<exists>p. \<forall>chat ev. raised (main_run chat s ev) = None \<and> requests (main_run chat s ev) = [analysis_request p]"
proof -
  obtain d where "assessment_data s = Some d" "stage_data ''generate_results'' d"
    using reachable_stage [OF assms] by blast
  then show ?thesis
    by (rule main_run_results [OF _ assms(2)]) blast
qed

theorem results_page_never_raises_witness:
  "reachable completed_session \<and> current_step completed_session = Some ''generate_results''
   \<and> (\<exists>p. \<forall>chat ev. raised (main_run chat completed_session ev) = None
            \<and> requests (main_run chat completed_session ev) = [analysis_request p])"
  using results_page_never_raises [OF completed_session_reachable completed_session_step]
    completed_session_reachable completed_session_step by simp

text \<open>C13: on every run of the results page of a reachable session, the four
  \<open>st.metric\<close>s show exactly the four numbers of the dict \<open>calculate_scores\<close>
  returns for the stored answers, each in [0, 100], and the page shows what the
  chat service answered to the analysis request, or the fallback.\<close>

theorem results_page_scores:
  assumes "reachable s" and "current_step s = Some ''generate_results''"
  shows "\<exists>d b m f ov p. assessment_data s = Some d
            \<and> calculate_scores d = Inr (PDict [(''biological'', b), (''mental'', m), (''financial'', f), (''overall'', ov)])
            \<and> pct_value b \<and> pct_value m \<and> pct_value f \<and> pct_value ov
            \<and> (\<forall>chat ev. metric_values (shown (script_run chat s ev)) = [b, m, f, ov]
                 \<and> ShowAnalysis (read_response (profile the_bot) (chat (analysis_request p)))
                     \<in> set (shown (script_run chat s ev)))"
proof -
  obtain d where d: "assessment_data s = Some d" "stage_data ''generate_results'' d"
    using reachable_stage [OF assms] by blast
  show ?thesis
  proof (rule main_run_results [OF d(1) assms(2) d(2)])
    fix v b m f ov p
    assume "calculate_scores d = Inr v"
      and "v = PDict [(''biological'', b), (''mental'', m), (''financial'', f), (''overall'', ov)]"
      and "pct_value b" "pct_value m" "pct_value f" "pct_value ov"
      and "\<And>chat ev. results_view [b, m, f, ov] (read_response (profile the_bot) (chat (analysis_request p)))
           (shown (script_run chat s ev))"
    with d(1) show ?thesis by (auto simp: results_view_def)
  qed
qed

theorem results_page_scores_witness:
  "reachable completed_session \<and> current_step completed_session = Some ''generate_results''
   \<and> (\<exists>d b m f ov p. assessment_data completed_session = Some d
        \<and> calculate_scores d = Inr (PDict [(''biological'', b), (''mental'', m), (''financial'', f), (''overall'', ov)])
        \<and> pct_value b \<and> pct_value m \<and> pct_value f \<and> pct_value ov
        \<and> (\<forall>chat ev. metric_values (shown (script_run chat completed_session ev)) = [b, m, f, ov]
             \<and> ShowAnalysis (read_response (profile the_bot) (chat (analysis_request p)))
                 \<in> set (shown (script_run chat completed_session ev))))"
  using results_page_scores [OF completed_session_reachable completed_session_step]
    completed_session_reachable completed_session_step by simp

text \<open>C24: every run of the results page of a reachable session draws exactly
  one radar chart. Its radii are the biological, mental and financial entries
  of the dict \<open>calculate_scores\<close> returns for the stored answers, in this
  order, followed by the biological entry again, which closes the polygon.
  Its angular labels are the three category labels, closed the same way. Its
  radial axis range is [0, 100], which contains every radius.\<close>

theorem results_radar_chart:
  assumes "reachable s" and "current_step s = Some ''generate_results''"
  shows "\<exists>d b m f ov. assessment_data s = Some d
            \<and> calculate_scores d = Inr (PDict [(''biological'', b), (''mental'', m), (''financial'', f), (''overall'', ov)])
            \<and> pct_value b \<and> pct_value m \<and> pct_value f
            \<and> (\<forall>chat ev. radar_charts (shown (script_run chat s ev))
                 = [([b, m, f, b], radar_categories @ [radar_categories ! 0], (0, 100))])"
proof -
  obtain d where d: "assessment_data s = Some d" "stage_data ''generate_results'' d"
    using reachable_stage [OF assms] by blast
  show ?thesis
  proof (rule main_run_results [OF d(1) assms(2) d(2)])
    fix v b m f ov p
    assume "calculate_scores d = Inr v"
      and "v = PDict [(''biological'', b), (''mental'', m), (''financial'', f), (''overall'', ov)]"
      and "pct_value b" "pct_value m" "pct_value f"
      and "\<And>chat ev. results_view [b, m, f, ov] (read_response (profile the_bot) (chat (analysis_request p)))
           (shown (script_run chat s ev))"
    with d(1) show ?thesis by (auto simp: results_view_def)
  qed
qed

theorem results_radar_chart_witness:
  "reachable completed_session \<and> current_step completed_session = Some ''generate_results''
   \<and> (\<exists>d b m f ov. assessment_data completed_session = Some d
        \<and> calculate_scores d = Inr (PDict [(''biological'', b), (''mental'', m), (''financial'', f), (''overall'', ov)])
        \<and> pct_value b \<and> pct_value m \<and> pct_value f
        \<and> (\<forall>chat ev. radar_charts (shown (script_run chat completed_session ev))
             = [([b, m, f, b], radar_categories @ [radar_categories ! 0], (0, 100))]))"
  using results_radar_chart [OF completed_session_reachable completed_session_step]
    completed_session_reachable completed_session_step by simp

text \<open>C14: \<open>Take Assessment Again\<close> on the results page deletes every session
  key; the rerun it triggers puts the session on the welcome screen with no
  answers.\<close>

theorem results_reset:
  assumes "reachable s" and "current_step s = Some ''generate_results''"
  shows "state (main_run chat s ClickReset) = welcome_session"
proof -
  obtain d where d: "assessment_data s = Some d" "stage_data ''generate_results'' d"
    using reachable_stage [OF assms] by blast
  show ?thesis
    by (rule main_run_results [OF d(1) assms(2) d(2)]) simp
qed

theorem results_reset_witness:
  "reachable completed_session \<and> current_step completed_session = Some ''generate_results''
   \<and> state (main_run (\<lambda>_. ChatRaises) completed_session ClickReset) = welcome_session"
  using results_reset [OF completed_session_reachable completed_session_step]
    completed_session_reachable completed_session_step by simp

text \<open>C15: from a fresh session, five interactions complete the survey,
  whatever the chat service does: start, a basic-information form whose first
  name, last name and email are filled in, and the three assessment forms.
  The session then stands at \<open>generate_results\<close> with every answer stored, and
  the custom goal stored as the empty string.\<close>

theorem survey_completes:
  assumes "bi_first_name f \<noteq> ''''" "bi_last_name f \<noteq> ''''" "bi_email f \<noteq> ''''"
  shows "run_session chat fresh_session [ClickStart, SubmitBasic f, SubmitBiological ba, SubmitMental ma,
           SubmitFinancial fa]
         = \<lparr>assessment_data = Some (AList.update ''financial'' (PDict (financial_data fa))
              (AList.update ''mental'' (PDict (mental_data ma))
              (AList.update ''biological'' (PDict (biological_data ba))
              (py_dict_update [] (basic_info_dict f ''''))))),
            current_step = Some ''generate_results'', custom_goal_shown = False\<rparr>"
  using assms by (simp add: main_run_simps)

theorem survey_completes_witness:
  "bi_first_name sample_form \<noteq> '''' \<and> bi_last_name sample_form \<noteq> '''' \<and> bi_email sample_form \<noteq> ''''
   \<and> current_step (run_session (\<lambda>_. ChatRaises) fresh_session sample_events) = Some ''generate_results''"
  using survey_completes [of sample_form "\<lambda>_. ChatRaises" untouched_biological untouched_mental
      untouched_financial]
  by (simp add: sample_form_def sample_events_def)

text \<open>C16: a basic-information submit with an empty first name, last name or
  email stores nothing, stays on the form and shows the required-fields error.\<close>

theorem basic_info_rejects_missing:
  assumes "current_step s = Some ''basic_info''" and "assessment_data s = Some d"
      and "bi_first_name f = '''' \<or> bi_last_name f = '''' \<or> bi_email f = ''''"
  shows "main_run chat s (SubmitBasic f) =
           \<lparr>state = s\<lparr>custom_goal_shown := (bi_primary_goal f = ''Other'')\<rparr>, rerun = False, requests = [],
            shown = [ShowError required_fields_message], raised = None\<rparr>"
  using assms
  by (auto simp: main_run_def script_run_def main_dispatch_def init_session_state_id collect_basic_information_def)

theorem basic_info_rejects_missing_witness:
  "main_run (\<lambda>_. ChatRaises) basic_info_session (SubmitBasic (sample_form\<lparr>bi_email := ''''\<rparr>)) =
     \<lparr>state = basic_info_session\<lparr>custom_goal_shown := True\<rparr>, rerun = False, requests = [],
      shown = [ShowError required_fields_message], raised = None\<rparr>"
  using basic_info_rejects_missing [of basic_info_session "[]" "sample_form\<lparr>bi_email := ''''\<rparr>"]
  by (simp add: basic_info_session_def sample_form_def)

text \<open>C17: a valid basic-information submit stores the typed custom goal only
  if the custom-goal input was already on screen before the submit, that is
  after an earlier rejected submit with \<open>Other\<close>; otherwise it stores the empty
  string, whatever was typed.\<close>

theorem custom_goal_stored:
  assumes "current_step s = Some ''basic_info''" and "assessment_data s = Some d"
      and "bi_first_name f \<noteq> ''''" "bi_last_name f \<noteq> ''''" "bi_email f \<noteq> ''''"
      and "bi_primary_goal f = ''Other''"
  shows "\<exists>d'. assessment_data (state (main_run chat s (SubmitBasic f))) = Some d'
           \<and> current_step (state (main_run chat s (SubmitBasic f))) = Some ''biological_assessment''
           \<and> map_of d' ''custom_goal'' = Some (PStr (if custom_goal_shown s then bi_custom_goal f else ''''))"
  using assms
  by (simp add: main_run_simps init_session_state_id map_of_py_dict_update_distinct basic_info_dict_def)

theorem custom_goal_stored_witness:
  "\<exists>d'. assessment_data (state (main_run (\<lambda>_. ChatRaises) basic_info_session (SubmitBasic sample_form))) = Some d'
     \<and> current_step (state (main_run (\<lambda>_. ChatRaises) basic_info_session (SubmitBasic sample_form)))
         = Some ''biological_assessment''
     \<and> map_of d' ''custom_goal'' = Some (PStr '''')"
  using custom_goal_stored [of basic_info_session "[]" sample_form]
  by (simp add: basic_info_session_def sample_form_def)

text \<open>C18: the flow controller refines the screen sequence welcome, basic
  information, the three assessments, results and welcome again: from every
  reachable session at a step, one interaction (with the rerun it triggers)
  either keeps the step or moves to the next step of the sequence.\<close>

theorem flow_refines_sequence:
  assumes "reachable s" and "current_step s = Some c"
  shows "current_step (state (main_run chat s ev)) \<in> {Some c, Some (next_step c)}"
proof -
  obtain d where c: "c \<in> set step_names" using reachable_stage [OF assms] by blast
  have nxt: "next_step ''generate_results'' = ''welcome''" by (simp add: next_step_def)
  from script_run_step [OF assms(2) c, of chat ev] show ?thesis
    by (auto simp: main_run_def Let_def script_run_NoInput_step script_run_fresh welcome_session_def nxt
        stay_def)
qed

theorem flow_refines_sequence_witness:
  "reachable completed_session \<and> current_step completed_session = Some ''generate_results''
   \<and> current_step (state (main_run (\<lambda>_. ChatRaises) completed_session ClickReset))
        \<in> {Some ''generate_results'', Some (next_step ''generate_results'')}"
  using flow_refines_sequence [OF completed_session_reachable completed_session_step]
    completed_session_reachable completed_session_step by simp

text \<open>C19: \<open>Email My Results\<close> on the results page of a reachable session
  raises nothing and ends the page with the message that the report has been
  sent to the stored email address, while the only external call of the run is
  the chat request: no email is sent.\<close>

theorem email_button_message:
  assumes "reachable s" and "current_step s = Some ''generate_results''"
  shows "\<exists>d e p. assessment_data s = Some d \<and> map_of d ''email'' = Some (PStr e)
           \<and> requests (main_run chat s ClickEmail) = [analysis_request p]
           \<and> raised (main_run chat s ClickEmail) = None
           \<and> last (shown (main_run chat s ClickEmail)) = ShowSuccess (email_sent_message (PStr e))"
proof -
  obtain d where d: "assessment_data s = Some d" "stage_data ''generate_results'' d"
    using reachable_stage [OF assms] by blast
  obtain v b m f ov p e where v: "calculate_scores d = Inr v"
    and vd: "v = PDict [(''biological'', b), (''mental'', m), (''financial'', f), (''overall'', ov)]"
    and pv: "pct_value b" "pct_value m" "pct_value f" "pct_value ov" and p: "build_prompt v d = Inr p"
    and e: "map_of d ''email'' = Some (PStr e)"
    by (rule stage_results_data [OF d(2)])
  obtain ms where ms: "results_page (profile the_bot) v (read_response (profile the_bot) (chat (analysis_request p)))
      = Inr ms"
    by (rule results_page_data [OF vd pv])
  have "main_run chat s ClickEmail = display_results chat the_bot (s\<lparr>custom_goal_shown := False\<rparr>) ClickEmail"
    using v p e ms d(1) by (simp add: main_run_def script_run_results [OF d(1) assms(2)] display_results_def
        session_data_def generate_ai_analysis_prompt)
  with d(1) v p e ms show ?thesis
    by (simp add: display_results_def session_data_def generate_ai_analysis_prompt) blast
qed

theorem email_button_message_witness:
  "reachable completed_session \<and> current_step completed_session = Some ''generate_results''
   \<and> (\<exists>d e p. assessment_data completed_session = Some d \<and> map_of d ''email'' = Some (PStr e)
        \<and> requests (main_run (\<lambda>_. ChatRaises) completed_session ClickEmail) = [analysis_request p]
        \<and> raised (main_run (\<lambda>_. ChatRaises) completed_session ClickEmail) = None
        \<and> last (shown (main_run (\<lambda>_. ChatRaises) completed_session ClickEmail))
            = ShowSuccess (email_sent_message (PStr e)))"
  using email_button_message [OF completed_session_reachable completed_session_step]
    completed_session_reachable completed_session_step by simp


end
